theory Spec2Isabelle
  imports Main "HOL-Library.Word" "HOL-Library.Monad_Syntax" "HOL-Library.Sublist"
begin

unbundle bit_operations_syntax

section \<open>Data model\<close>

text \<open>
  Go strings and byte slices are byte sequences. A Go \<^verbatim>\<open>string\<close> is modelled as an
  Isabelle \<^typ>\<open>string\<close> (a list of 8-bit characters), a \<^verbatim>\<open>[]byte\<close> as a list of
  8-bit words. A panic of the Go code is the value \<open>None\<close> of an option type; an error
  attached to an encoder or decoder is a value of type \<open>error\<close> stored in its state.
\<close>

type_synonym byte = "8 word"
type_synonym uint16 = "16 word"
type_synonym uint32 = "32 word"

definition bytes_of :: "string \<Rightarrow> byte list" where
  "bytes_of s = map of_char s"

definition string_of :: "byte list \<Rightarrow> string" where
  "string_of bs = map (\<lambda>b. char_of (unat b)) bs"

text \<open>dicomtag.Tag: a (group, element) pair of unsigned 16-bit integers.\<close>

record tag =
  Group :: uint16
  Element :: uint16

text \<open>PixelDataInfo: the basic offset table and the frames of a PixelData element.\<close>

record PixelDataInfo =
  Offsets :: "uint32 list"
  Frames :: "byte list list"

text \<open>
  Element and the dynamic values (Go \<^verbatim>\<open>interface{}\<close>) it holds. Floating-point values are
  carried as their IEEE-754 bit patterns: the writer only copies these bits out.
\<close>

datatype element = MkElement (Tag: tag) (VR: string) (UndefinedLength: bool) (Value: "val list")
  and val =
    VString string
  | VTag tag
  | VUInt16 uint16
  | VUInt32 uint32
  | VInt16 uint16
  | VInt32 uint32
  | VFloat32 uint32
  | VFloat64 "64 word"
  | VBytes "byte list"
  | VElement element
  | VPixelDataInfo PixelDataInfo

text \<open>Errors are kept abstract: one constructor for each place that creates one.\<close>

datatype error =
    ErrVRMismatch tag string string
  | ErrPixelDataValue
  | ErrSQNotItem val
  | ErrItemNotElement val
  | ErrUndefinedLengthUnsupported element
  | ErrExpectType string tag val
  | ErrExpectSingleValue tag "val list"
  | ErrExpectBinary tag val
  | ErrExpectEvenLength tag nat
  | ErrMetaNotFound tag
  | ErrElementNotFound tag
  | ErrExternal string

text \<open>A call of dicomlog.Vprintf: the verbosity level and what is reported.\<close>

datatype logmsg =
    LogVRValueMismatch tag string string
  | LogTagRemoved tag
  | LogUsingCodingSystem string
  | LogFoundAlternative string
  | LogUnknownCharset string
  | LogNotInHtmlindex string string
  | LogUTF8Fallback string

type_synonym logline = "int \<times> logmsg"

section \<open>Tags and constants of package dicomtag\<close>

text \<open>
  Modelled from the spec: package dicomtag is not part of the sources at hand. The sentinel
  tags are those listed in the data model of the specification; the remaining File Meta
  tags carry their DICOM Part 10 numbers.
\<close>

definition MetadataGroup :: uint16 where "MetadataGroup = 0x0002"
definition itemSeqGroup :: uint16 where "itemSeqGroup = 0xFFFE"
definition undefinedLength :: uint32 where "undefinedLength = 0xFFFFFFFF"

definition Item :: tag where "Item = \<lparr>Group = 0xFFFE, Element = 0xE000\<rparr>"
definition ItemDelimitationItem :: tag where
  "ItemDelimitationItem = \<lparr>Group = 0xFFFE, Element = 0xE00D\<rparr>"
definition SequenceDelimitationItem :: tag where
  "SequenceDelimitationItem = \<lparr>Group = 0xFFFE, Element = 0xE0DD\<rparr>"
definition PixelData :: tag where "PixelData = \<lparr>Group = 0x7FE0, Element = 0x0010\<rparr>"
definition SpecificCharacterSet :: tag where
  "SpecificCharacterSet = \<lparr>Group = 0x0008, Element = 0x0005\<rparr>"
definition FileMetaInformationGroupLength :: tag where
  "FileMetaInformationGroupLength = \<lparr>Group = 0x0002, Element = 0x0000\<rparr>"
definition FileMetaInformationVersion :: tag where
  "FileMetaInformationVersion = \<lparr>Group = 0x0002, Element = 0x0001\<rparr>"
definition MediaStorageSOPClassUID :: tag where
  "MediaStorageSOPClassUID = \<lparr>Group = 0x0002, Element = 0x0002\<rparr>"
definition MediaStorageSOPInstanceUID :: tag where
  "MediaStorageSOPInstanceUID = \<lparr>Group = 0x0002, Element = 0x0003\<rparr>"
definition TransferSyntaxUID :: tag where
  "TransferSyntaxUID = \<lparr>Group = 0x0002, Element = 0x0010\<rparr>"
definition ImplementationClassUID :: tag where
  "ImplementationClassUID = \<lparr>Group = 0x0002, Element = 0x0012\<rparr>"
definition ImplementationVersionName :: tag where
  "ImplementationVersionName = \<lparr>Group = 0x0002, Element = 0x0013\<rparr>"

definition GoDICOMImplementationClassUIDPrefix :: string where
  "GoDICOMImplementationClassUIDPrefix = ''1.2.826.0.1.3680043.9.7133''"
definition GoDICOMImplementationClassUID :: string where
  "GoDICOMImplementationClassUID = GoDICOMImplementationClassUIDPrefix @ ''.1.1''"
definition GoDICOMImplementationVersionName :: string where
  "GoDICOMImplementationVersionName = ''GODICOM_1_1''"

section \<open>The encoder of package dicomio\<close>

datatype ByteOrder = LittleEndian | BigEndian
datatype IsImplicitVR = ImplicitVR | ExplicitVR | UnknownVR

text \<open>
  Modelled from the spec: dicomio.Encoder is not part of the sources at hand. Following
  the ByteCursor of the specification it is a growable output buffer with a stack of
  (byte order, VR mode) frames and a sticky error: the first error set is kept. The byte
  order is optional because WriteDataSet creates its encoder with a nil byte order;
  writing a multi-byte integer with a nil byte order panics.
\<close>

record encoder =
  out :: "byte list"
  err :: "error option"
  bo :: "ByteOrder option"
  implicit :: IsImplicitVR
  oldTransferSyntaxes :: "(ByteOrder option \<times> IsImplicitVR) list"

definition NewBytesEncoder :: "ByteOrder option \<Rightarrow> IsImplicitVR \<Rightarrow> encoder" where
  "NewBytesEncoder b i =
     \<lparr>out = [], err = None, bo = b, implicit = i, oldTransferSyntaxes = []\<rparr>"

definition SetError :: "encoder \<Rightarrow> error \<Rightarrow> encoder" where
  "SetError e x = (if err e = None then e\<lparr>err := Some x\<rparr> else e)"

definition PushTransferSyntax :: "encoder \<Rightarrow> ByteOrder option \<Rightarrow> IsImplicitVR \<Rightarrow> encoder" where
  "PushTransferSyntax e b i =
     e\<lparr>bo := b, implicit := i,
       oldTransferSyntaxes := (bo e, implicit e) # oldTransferSyntaxes e\<rparr>"

definition PopTransferSyntax :: "encoder \<Rightarrow> encoder option" where
  "PopTransferSyntax e =
     (case oldTransferSyntaxes e of
        [] \<Rightarrow> None
      | (b, i) # rest \<Rightarrow> Some (e\<lparr>bo := b, implicit := i, oldTransferSyntaxes := rest\<rparr>))"

definition WriteBytes :: "encoder \<Rightarrow> byte list \<Rightarrow> encoder" where
  "WriteBytes e bs = e\<lparr>out := out e @ bs\<rparr>"

definition WriteByte :: "encoder \<Rightarrow> byte \<Rightarrow> encoder" where
  "WriteByte e b = WriteBytes e [b]"

definition WriteString :: "encoder \<Rightarrow> string \<Rightarrow> encoder" where
  "WriteString e s = WriteBytes e (bytes_of s)"

definition WriteZeros :: "encoder \<Rightarrow> nat \<Rightarrow> encoder" where
  "WriteZeros e n = WriteBytes e (replicate n 0)"

definition uint16_bytes :: "ByteOrder \<Rightarrow> uint16 \<Rightarrow> byte list" where
  "uint16_bytes b v =
     (case b of
        LittleEndian \<Rightarrow> [ucast v, ucast (drop_bit 8 v)]
      | BigEndian \<Rightarrow> [ucast (drop_bit 8 v), ucast v])"

definition uint32_bytes :: "ByteOrder \<Rightarrow> uint32 \<Rightarrow> byte list" where
  "uint32_bytes b v =
     (case b of
        LittleEndian \<Rightarrow>
          [ucast v, ucast (drop_bit 8 v), ucast (drop_bit 16 v), ucast (drop_bit 24 v)]
      | BigEndian \<Rightarrow>
          [ucast (drop_bit 24 v), ucast (drop_bit 16 v), ucast (drop_bit 8 v), ucast v])"

definition uint64_bytes :: "ByteOrder \<Rightarrow> 64 word \<Rightarrow> byte list" where
  "uint64_bytes b v =
     (case b of
        LittleEndian \<Rightarrow> map (\<lambda>i. ucast (drop_bit (8 * i) v)) [0, 1, 2, 3, 4, 5, 6, 7]
      | BigEndian \<Rightarrow> map (\<lambda>i. ucast (drop_bit (8 * i) v)) [7, 6, 5, 4, 3, 2, 1, 0])"

definition WriteUInt16 :: "encoder \<Rightarrow> uint16 \<Rightarrow> encoder option" where
  "WriteUInt16 e v =
     (case bo e of None \<Rightarrow> None | Some b \<Rightarrow> Some (WriteBytes e (uint16_bytes b v)))"

definition WriteUInt32 :: "encoder \<Rightarrow> uint32 \<Rightarrow> encoder option" where
  "WriteUInt32 e v =
     (case bo e of None \<Rightarrow> None | Some b \<Rightarrow> Some (WriteBytes e (uint32_bytes b v)))"

definition WriteUInt64 :: "encoder \<Rightarrow> 64 word \<Rightarrow> encoder option" where
  "WriteUInt64 e v =
     (case bo e of None \<Rightarrow> None | Some b \<Rightarrow> Some (WriteBytes e (uint64_bytes b v)))"

section \<open>Collaborators taken as parameters\<close>

text \<open>
  The tag dictionary (dicomtag.Find, dicomtag.GetVRKind), the element helpers
  (FindElementByTag, MustNewElement, Element.GetString), dicomio.ParseTransferSyntaxUID,
  dicomio.NativeByteOrder and Go's fmt.Sprintf("%v", v) are not part of the sources at
  hand. The writer takes them as parameters. A lookup that returns an error is \<open>None\<close>
  (or \<open>Inl\<close> where the error is passed on); MustNewElement panics on failure, which is
  \<open>None\<close> as well.
\<close>

record TagInfo =
  TagInfoVR :: string
  TagInfoName :: string

record 'k writer_env =
  Find :: "tag \<Rightarrow> TagInfo option"
  GetVRKind :: "tag \<Rightarrow> string \<Rightarrow> 'k"
  Sprint :: "val \<Rightarrow> string"
  NativeByteOrder :: ByteOrder
  FindElementByTag :: "element list \<Rightarrow> tag \<Rightarrow> element option"
  MustNewElement :: "tag \<Rightarrow> val \<Rightarrow> element option"
  GetString :: "element \<Rightarrow> error + string"
  ParseTransferSyntaxUID :: "string \<Rightarrow> error + (ByteOrder option \<times> IsImplicitVR)"
  IsPrint :: "nat \<Rightarrow> bool"

record WriteOptSet =
  SkipVRVerification :: bool

section \<open>Go strings as UTF-8\<close>

text \<open>
  Go's \<^verbatim>\<open>for _, r := range s\<close> decodes a string rune by rune: a byte that does not start
  a well-formed UTF-8 sequence yields U+FFFD and advances by one byte. The functions
  below follow unicode/utf8: \<open>first_info\<close> is its table of leading bytes (the length of
  the sequence and the range accepted for the second byte).
\<close>

definition RuneError :: nat where
  "RuneError = 0xFFFD"

definition first_info :: "nat \<Rightarrow> (nat \<times> nat \<times> nat) option" where
  "first_info b =
     (if 0xC2 \<le> b \<and> b \<le> 0xDF then Some (2, 0x80, 0xBF)
      else if b = 0xE0 then Some (3, 0xA0, 0xBF)
      else if 0xE1 \<le> b \<and> b \<le> 0xEC then Some (3, 0x80, 0xBF)
      else if b = 0xED then Some (3, 0x80, 0x9F)
      else if 0xEE \<le> b \<and> b \<le> 0xEF then Some (3, 0x80, 0xBF)
      else if b = 0xF0 then Some (4, 0x90, 0xBF)
      else if 0xF1 \<le> b \<and> b \<le> 0xF3 then Some (4, 0x80, 0xBF)
      else if b = 0xF4 then Some (4, 0x80, 0x8F)
      else None)"

definition is_cont :: "nat \<Rightarrow> bool" where
  "is_cont b = (0x80 \<le> b \<and> b \<le> 0xBF)"

text \<open>
  DecodeRune on the byte values of a string: the rune, the number of bytes it takes and
  whether these bytes are a well-formed sequence.
\<close>

fun DecodeRune :: "nat list \<Rightarrow> nat \<times> nat \<times> bool" where
  "DecodeRune [] = (RuneError, 0, False)"
| "DecodeRune (b0 # rest) =
     (if b0 < 0x80 then (b0, 1, True)
      else
        (case first_info b0 of
           None \<Rightarrow> (RuneError, 1, False)
         | Some (sz, lo, hi) \<Rightarrow>
             if length rest < sz - 1 then (RuneError, 1, False)
             else
               let b1 = rest ! 0 in
               if b1 < lo \<or> hi < b1 then (RuneError, 1, False)
               else if sz \<le> 2 then ((b0 mod 32) * 64 + b1 mod 64, 2, True)
               else
                 let b2 = rest ! 1 in
                 if \<not> is_cont b2 then (RuneError, 1, False)
                 else if sz \<le> 3 then
                   ((b0 mod 16) * 4096 + (b1 mod 64) * 64 + b2 mod 64, 3, True)
                 else
                   let b3 = rest ! 2 in
                   if \<not> is_cont b3 then (RuneError, 1, False)
                   else
                     ((b0 mod 8) * 262144 + (b1 mod 64) * 4096 + (b2 mod 64) * 64 + b3 mod 64,
                      4, True)))"

text \<open>
  The runes of a string in order, each with the bytes it was decoded from and its
  well-formedness. Every step consumes at least the first byte.
\<close>

fun runes :: "string \<Rightarrow> (nat \<times> string \<times> bool) list" where
  "runes [] = []"
| "runes (c # cs) =
     (case DecodeRune (map of_char (c # cs)) of
        (r, n, ok) \<Rightarrow> (r, c # take (n - 1) cs, ok) # runes (drop (n - 1) cs))"

definition ValidString :: "string \<Rightarrow> bool" where
  "ValidString s = list_all (\<lambda>(r, src, ok). ok) (runes s)"

text \<open>string(r): the UTF-8 encoding of a rune; surrogates and values out of range give U+FFFD.\<close>

definition EncodeRune :: "nat \<Rightarrow> string" where
  "EncodeRune r =
     (if r < 0x80 then [char_of r]
      else if r < 0x800 then [char_of (0xC0 + r div 64), char_of (0x80 + r mod 64)]
      else if (0xD800 \<le> r \<and> r \<le> 0xDFFF) \<or> 0x10FFFF < r then [CHR 0xEF, CHR 0xBF, CHR 0xBD]
      else if r < 0x10000 then
        [char_of (0xE0 + r div 4096), char_of (0x80 + (r div 64) mod 64), char_of (0x80 + r mod 64)]
      else
        [char_of (0xF0 + r div 262144), char_of (0x80 + (r div 4096) mod 64),
         char_of (0x80 + (r div 64) mod 64), char_of (0x80 + r mod 64)])"

text \<open>unicode.IsSpace: the Latin-1 white space and the White_Space property beyond it.\<close>

definition IsSpace :: "nat \<Rightarrow> bool" where
  "IsSpace r =
     (r \<in> set [0x09, 0x0A, 0x0B, 0x0C, 0x0D, 0x20, 0x85, 0xA0, 0x1680, 0x2028, 0x2029, 0x202F,
               0x205F, 0x3000]
      \<or> (0x2000 \<le> r \<and> r \<le> 0x200A))"

definition rune_is_space :: "nat \<times> string \<times> bool \<Rightarrow> bool" where
  "rune_is_space x = IsSpace (fst x)"

definition rune_bytes :: "(nat \<times> string \<times> bool) list \<Rightarrow> string" where
  "rune_bytes xs = concat (map (\<lambda>(r, src, ok). src) xs)"

text \<open>strings.TrimSpace: leading and trailing white space removed.\<close>

definition TrimSpace :: "string \<Rightarrow> string" where
  "TrimSpace s =
     rune_bytes (rev (dropWhile rune_is_space (rev (dropWhile rune_is_space (runes s)))))"

text \<open>
  strings.Fields: the maximal runs of runes that are not white space. The loop keeps the
  field that is open, if any.
\<close>

fun fields_of :: "string option \<Rightarrow> (nat \<times> string \<times> bool) list \<Rightarrow> string list" where
  "fields_of cur [] = (case cur of None \<Rightarrow> [] | Some f \<Rightarrow> [f])"
| "fields_of cur (x # xs) =
     (if rune_is_space x then
        (case cur of None \<Rightarrow> fields_of None xs | Some f \<Rightarrow> f # fields_of None xs)
      else
        fields_of (Some ((case cur of None \<Rightarrow> [] | Some f \<Rightarrow> f) @ fst (snd x))) xs)"

definition Fields :: "string \<Rightarrow> string list" where
  "Fields s = fields_of None (runes s)"

text \<open>strings.Join, and strings.Split and strings.Contains for a one-byte separator.\<close>

fun Join :: "string list \<Rightarrow> string \<Rightarrow> string" where
  "Join [] sep = ''''"
| "Join [x] sep = x"
| "Join (x # y # rest) sep = x @ sep @ Join (y # rest) sep"

fun Split :: "string \<Rightarrow> char \<Rightarrow> string list" where
  "Split [] sep = [[]]"
| "Split (c # cs) sep =
     (if c = sep then [] # Split cs sep
      else (case Split cs sep of [] \<Rightarrow> [[c]] | p # ps \<Rightarrow> (c # p) # ps))"

definition Contains :: "string \<Rightarrow> char \<Rightarrow> bool" where
  "Contains s c = (c \<in> set s)"

text \<open>
  FilterNonPrintable keeps the runes that are printable, a space or a tab, and encodes
  them again. unicode.IsPrint is a parameter.
\<close>

definition FilterNonPrintable :: "(nat \<Rightarrow> bool) \<Rightarrow> string \<Rightarrow> string" where
  "FilterNonPrintable isPrint s =
     concat (map (\<lambda>(r, src, ok). if isPrint r \<or> r = 0x20 \<or> r = 0x09 then EncodeRune r else [])
       (runes s))"

section \<open>The element writer\<close>

text \<open>
  verifyVROrDefault returns the VR to write or an error, together with the log lines it
  emits through dicomlog.Vprintf.
\<close>

definition verifyVROrDefault ::
  "'k writer_env \<Rightarrow> tag \<Rightarrow> string \<Rightarrow> WriteOptSet \<Rightarrow> (error + string) \<times> logline list" where
  "verifyVROrDefault env t vr opts =
     (if vr \<noteq> '''' \<and> SkipVRVerification opts then (Inr vr, [])
      else
        (case Find env t of
           None \<Rightarrow> (Inr (if vr = '''' then ''UN'' else vr), [])
         | Some tagInfo \<Rightarrow>
             if vr = '''' then (Inr (TagInfoVR tagInfo), [])
             else if \<not> SkipVRVerification opts \<and> TagInfoVR tagInfo \<noteq> vr then
               (if GetVRKind env t (TagInfoVR tagInfo) \<noteq> GetVRKind env t vr
                then (Inl (ErrVRMismatch t vr (TagInfoVR tagInfo)), [])
                else (Inr vr, [(1, LogVRValueMismatch t vr (TagInfoVR tagInfo))]))
             else (Inr vr, [])))"

text \<open>
  encodeElementHeader: the assertions (an even or undefined length, a two-letter VR
  under explicit VR, a known VR mode) panic when they fail. The 32-bit length is
  truncated to 16 bits for the VRs with a short length field.
\<close>

definition longVRs :: "string list" where
  "longVRs = [''NA'', ''OB'', ''OD'', ''OF'', ''OL'', ''OW'', ''SQ'', ''UN'', ''UC'', ''UR'', ''UT'']"

definition encodeElementHeader :: "encoder \<Rightarrow> tag \<Rightarrow> string \<Rightarrow> uint32 \<Rightarrow> encoder option" where
  "encodeElementHeader e t vr vl =
     (if \<not> (vl = undefinedLength \<or> vl mod 2 = 0) then None
      else do {
        e1 \<leftarrow> WriteUInt16 e (Group t);
        e2 \<leftarrow> WriteUInt16 e1 (Element t);
        let impl = (if Group t = itemSeqGroup then ImplicitVR else implicit e2);
        if impl = ExplicitVR then
          (if length vr \<noteq> 2 then None
           else
             let e3 = WriteString e2 vr in
             if vr \<in> set longVRs then WriteUInt32 (WriteZeros e3 2) vl
             else WriteUInt16 e3 (ucast vl))
        else if impl \<noteq> ImplicitVR then None
        else WriteUInt32 e2 vl
      })"

definition writeRawItem :: "encoder \<Rightarrow> byte list \<Rightarrow> encoder option" where
  "writeRawItem e data = do {
     e1 \<leftarrow> encodeElementHeader e Item ''NA'' (of_nat (length data));
     Some (WriteBytes e1 data)
   }"

fun write_uint32s :: "encoder \<Rightarrow> uint32 list \<Rightarrow> encoder option" where
  "write_uint32s e [] = Some e"
| "write_uint32s e (v # vs) = do { e1 \<leftarrow> WriteUInt32 e v; write_uint32s e1 vs }"

definition writeBasicOffsetTable :: "encoder \<Rightarrow> uint32 list \<Rightarrow> encoder option" where
  "writeBasicOffsetTable e offsets = do {
     subEncoder \<leftarrow> write_uint32s (NewBytesEncoder (bo e) ImplicitVR) offsets;
     writeRawItem e (out subEncoder)
   }"

fun write_frames :: "encoder \<Rightarrow> byte list list \<Rightarrow> encoder option" where
  "write_frames e [] = Some e"
| "write_frames e (frame # rest) = do { e1 \<leftarrow> writeRawItem e frame; write_frames e1 rest }"

text \<open>
  The PixelData branch of WriteElement. The two type checks set an error and go on;
  indexing an empty value list panics, and a failed type assertion leaves the zero
  PixelDataInfo.
\<close>

definition WritePixelData :: "encoder \<Rightarrow> element \<Rightarrow> string \<Rightarrow> encoder option" where
  "WritePixelData e elem vr =
     (let e1 = (if length (Value elem) \<noteq> 1 then SetError e ErrPixelDataValue else e) in
      case Value elem of
        [] \<Rightarrow> None
      | v0 # _ \<Rightarrow>
          let img = (case v0 of VPixelDataInfo p \<Rightarrow> p | _ \<Rightarrow> \<lparr>Offsets = [], Frames = []\<rparr>);
              ok = (case v0 of VPixelDataInfo p \<Rightarrow> True | _ \<Rightarrow> False);
              e2 = (if \<not> ok then SetError e1 ErrPixelDataValue else e1)
          in
            if UndefinedLength elem then do {
              e3 \<leftarrow> encodeElementHeader e2 (Tag elem) vr undefinedLength;
              e4 \<leftarrow> writeBasicOffsetTable e3 (Offsets img);
              e5 \<leftarrow> write_frames e4 (Frames img);
              encodeElementHeader e5 SequenceDelimitationItem '''' 0
            }
            else
              (case Frames img of
                 [frame] \<Rightarrow> do {
                   e3 \<leftarrow> encodeElementHeader e2 (Tag elem) vr (of_nat (length frame));
                   Some (WriteBytes e3 frame)
                 }
               | _ \<Rightarrow> None))"

subsection \<open>Values of the fixed-width VRs\<close>

fun as_uint16 :: "val \<Rightarrow> uint16 option" where
  "as_uint16 (VUInt16 v) = Some v" | "as_uint16 _ = None"
fun as_uint32 :: "val \<Rightarrow> uint32 option" where
  "as_uint32 (VUInt32 v) = Some v" | "as_uint32 _ = None"
fun as_int32 :: "val \<Rightarrow> uint32 option" where
  "as_int32 (VInt32 v) = Some v" | "as_int32 _ = None"
fun as_int16 :: "val \<Rightarrow> uint16 option" where
  "as_int16 (VInt16 v) = Some v" | "as_int16 _ = None"
fun as_float32 :: "val \<Rightarrow> uint32 option" where
  "as_float32 (VFloat32 v) = Some v" | "as_float32 _ = None"
fun as_float64 :: "val \<Rightarrow> 64 word option" where
  "as_float64 (VFloat64 v) = Some v" | "as_float64 _ = None"
fun as_bytes :: "val \<Rightarrow> byte list option" where
  "as_bytes (VBytes v) = Some v" | "as_bytes _ = None"

text \<open>
  The loop shared by US, UL, SL, SS, FL/OF and FD/OD: a value of the wrong dynamic type
  sets an error on \<open>e\<close> and the loop continues; the others are written to \<open>sube\<close>.
\<close>

fun write_values ::
  "(val \<Rightarrow> 'a option) \<Rightarrow> (encoder \<Rightarrow> 'a \<Rightarrow> encoder option) \<Rightarrow> string \<Rightarrow> tag \<Rightarrow>
   encoder \<Rightarrow> encoder \<Rightarrow> val list \<Rightarrow> (encoder \<times> encoder) option" where
  "write_values proj wr ty t e sube [] = Some (e, sube)"
| "write_values proj wr ty t e sube (v # rest) =
     (case proj v of
        None \<Rightarrow> write_values proj wr ty t (SetError e (ErrExpectType ty t v)) sube rest
      | Some x \<Rightarrow> do { sube1 \<leftarrow> wr sube x; write_values proj wr ty t e sube1 rest })"

text \<open>OW: the 16-bit words are read in the native byte order and written in the encoder's.\<close>

fun read_uint16s :: "ByteOrder \<Rightarrow> byte list \<Rightarrow> uint16 list" where
  "read_uint16s b (x # y # rest) =
     (case b of
        LittleEndian \<Rightarrow> (ucast x OR push_bit 8 (ucast y))
      | BigEndian \<Rightarrow> (ucast y OR push_bit 8 (ucast x))) # read_uint16s b rest"
| "read_uint16s b _ = []"

fun write_uint16s :: "encoder \<Rightarrow> uint16 list \<Rightarrow> encoder option" where
  "write_uint16s e [] = Some e"
| "write_uint16s e (v # vs) = do { e1 \<leftarrow> WriteUInt16 e v; write_uint16s e1 vs }"

subsection \<open>Values written as text\<close>

definition hexdigit :: "nat \<Rightarrow> char" where
  "hexdigit n = ''0123456789ABCDEF'' ! (n mod 16)"

text \<open>fmt.Sprintf("%04X", v) of a uint16 and fmt.Sprintf("%08X", v) of a uint32.\<close>

definition fmt_04X :: "uint16 \<Rightarrow> string" where
  "fmt_04X v = map (\<lambda>i. hexdigit (unat (drop_bit (4 * i) v))) [3, 2, 1, 0]"

definition fmt_08X :: "uint32 \<Rightarrow> string" where
  "fmt_08X v = map (\<lambda>i. hexdigit (unat (drop_bit (4 * i) v))) [7, 6, 5, 4, 3, 2, 1, 0]"

definition backslash :: string where
  "backslash = [CHR 0x5C]"

text \<open>The type switch of the UI and default cases.\<close>

fun value_substr :: "'k writer_env \<Rightarrow> val \<Rightarrow> string" where
  "value_substr env (VString v) = v"
| "value_substr env (VTag v) = fmt_04X (Group v) @ fmt_04X (Element v)"
| "value_substr env (VUInt32 v) = fmt_08X v"
| "value_substr env (VBytes v) = string_of v"
| "value_substr env v = Sprint env v"

fun join_values :: "'k writer_env \<Rightarrow> string \<Rightarrow> nat \<Rightarrow> val list \<Rightarrow> string" where
  "join_values env s i [] = s"
| "join_values env s i (v # rest) =
     join_values env ((if i > 0 then s @ backslash else s) @ value_substr env v) (Suc i) rest"

definition write_text :: "'k writer_env \<Rightarrow> encoder \<Rightarrow> val list \<Rightarrow> byte \<Rightarrow> encoder" where
  "write_text env sube vals pad =
     (let s = join_values env '''' 0 vals;
          sube1 = WriteString sube s
      in if length s mod 2 = 1 then WriteByte sube1 pad else sube1)"

text \<open>
  The switch on the VR in the last branch of WriteElement, run on the pair (e, sube).
  AT and NA fall through to the default case.
\<close>

definition encode_value ::
  "'k writer_env \<Rightarrow> encoder \<Rightarrow> encoder \<Rightarrow> element \<Rightarrow> string \<Rightarrow> (encoder \<times> encoder) option" where
  "encode_value env e sube elem vr =
     (if vr = ''US'' then
        write_values as_uint16 WriteUInt16 ''uint16'' (Tag elem) e sube (Value elem)
      else if vr = ''UL'' then
        write_values as_uint32 WriteUInt32 ''uint32'' (Tag elem) e sube (Value elem)
      else if vr = ''SL'' then
        write_values as_int32 WriteUInt32 ''int32'' (Tag elem) e sube (Value elem)
      else if vr = ''SS'' then
        write_values as_int16 WriteUInt16 ''int16'' (Tag elem) e sube (Value elem)
      else if vr = ''FL'' \<or> vr = ''OF'' then
        write_values as_float32 WriteUInt32 ''float32'' (Tag elem) e sube (Value elem)
      else if vr = ''FD'' \<or> vr = ''OD'' then
        write_values as_float64 WriteUInt64 ''float64'' (Tag elem) e sube (Value elem)
      else if vr = ''OW'' \<or> vr = ''OB'' then
        (if length (Value elem) \<noteq> 1
         then Some (SetError e (ErrExpectSingleValue (Tag elem) (Value elem)), sube)
         else
           (case as_bytes (Value elem ! 0) of
              None \<Rightarrow> Some (SetError e (ErrExpectBinary (Tag elem) (Value elem ! 0)), sube)
            | Some bytes \<Rightarrow>
                if vr = ''OW'' then
                  (if length bytes mod 2 \<noteq> 0
                   then Some (SetError e (ErrExpectEvenLength (Tag elem) (length bytes)), sube)
                   else do {
                     sube1 \<leftarrow> write_uint16s sube (read_uint16s (NativeByteOrder env) bytes);
                     Some (e, sube1)
                   })
                else
                  (let sube1 = WriteBytes sube bytes
                   in Some (e, if length bytes mod 2 = 1 then WriteByte sube1 0 else sube1))))
      else if vr = ''UI'' then
        Some (e, write_text env sube (Value elem) 0)
      else if UndefinedLength elem \<and> vr = ''UN'' then
        Some (e, sube)
      else
        Some (e, write_text env sube (Value elem) 0x20))"

text \<open>
  The last branch of WriteElement: every VR other than SQ and NA. An undefined length is
  refused unless the VR is UN.
\<close>

definition WriteBasic :: "'k writer_env \<Rightarrow> encoder \<Rightarrow> element \<Rightarrow> string \<Rightarrow> encoder option" where
  "WriteBasic env e elem vr =
     (if UndefinedLength elem \<and> vr \<noteq> ''UN''
      then Some (SetError e (ErrUndefinedLengthUnsupported elem))
      else do {
        (e1, sube) \<leftarrow> encode_value env e (NewBytesEncoder (bo e) (implicit e)) elem vr;
        case err sube of
          Some x \<Rightarrow> Some (SetError e1 x)
        | None \<Rightarrow> do {
            e2 \<leftarrow> encodeElementHeader e1 (Tag elem) vr (of_nat (length (out sube)));
            Some (WriteBytes e2 (out sube))
          }
      })"

subsection \<open>WriteElement\<close>

text \<open>
  The loops over the values of an SQ or an Item stop WriteElement at the first value
  that is not an element (for SQ: not an Item element): \<open>Bad\<close> carries the encoder
  written so far and the offending value, \<open>Fin\<close> the encoder after the whole loop.
\<close>

datatype items_result = Bad encoder val | Fin encoder

fun WriteElement :: "'k writer_env \<Rightarrow> encoder \<Rightarrow> element \<Rightarrow> WriteOptSet \<Rightarrow> encoder option"
  and WriteItems ::
    "'k writer_env \<Rightarrow> bool \<Rightarrow> encoder \<Rightarrow> val list \<Rightarrow> WriteOptSet \<Rightarrow> items_result option"
where
  "WriteElement env e (MkElement t evr undef vals) opts =
     (case fst (verifyVROrDefault env t evr opts) of
        Inl x \<Rightarrow> Some (SetError e x)
      | Inr vr \<Rightarrow>
          if vr = '''' then None
          else if t = PixelData then WritePixelData e (MkElement t evr undef vals) vr
          else if vr = ''SQ'' \<or> vr = ''NA'' then
            (if undef then do {
               e1 \<leftarrow> encodeElementHeader e t vr undefinedLength;
               r \<leftarrow> WriteItems env (vr = ''SQ'') e1 vals opts;
               case r of
                 Bad e2 v \<Rightarrow>
                   Some (SetError e2 (if vr = ''SQ'' then ErrSQNotItem v else ErrItemNotElement v))
               | Fin e2 \<Rightarrow>
                   encodeElementHeader e2
                     (if vr = ''SQ'' then SequenceDelimitationItem else ItemDelimitationItem) '''' 0
             }
             else do {
               r \<leftarrow> WriteItems env (vr = ''SQ'') (NewBytesEncoder (bo e) (implicit e)) vals opts;
               case r of
                 Bad sube v \<Rightarrow>
                   Some (SetError e (if vr = ''SQ'' then ErrSQNotItem v else ErrItemNotElement v))
               | Fin sube \<Rightarrow>
                   (case err sube of
                      Some x \<Rightarrow> Some (SetError e x)
                    | None \<Rightarrow> do {
                        e1 \<leftarrow> encodeElementHeader e t vr (of_nat (length (out sube)));
                        Some (WriteBytes e1 (out sube))
                      })
             })
          else WriteBasic env e (MkElement t evr undef vals) vr)"
| "WriteItems env needItem e [] opts = Some (Fin e)"
| "WriteItems env needItem e (v # rest) opts =
     (case v of
        VElement subelem \<Rightarrow>
          if needItem \<and> Tag subelem \<noteq> Item then Some (Bad e v)
          else do {
            e1 \<leftarrow> WriteElement env e subelem opts;
            WriteItems env needItem e1 rest opts
          }
      | _ \<Rightarrow> Some (Bad e v))"

section \<open>The file header and the data set writer\<close>

text \<open>
  The two closures of WriteFileHeader. Both write into \<open>subEncoder\<close> and record the tag
  in \<open>tagsUsed\<close>.
\<close>

definition writeRequiredMetaElem ::
  "'k writer_env \<Rightarrow> element list \<Rightarrow> WriteOptSet \<Rightarrow> encoder \<times> tag list \<Rightarrow> tag \<Rightarrow>
   (encoder \<times> tag list) option" where
  "writeRequiredMetaElem env metaElems opts st t =
     (case st of (subEncoder, tagsUsed) \<Rightarrow>
        (case FindElementByTag env metaElems t of
           Some elem \<Rightarrow> do {
             s1 \<leftarrow> WriteElement env subEncoder elem opts;
             Some (s1, t # tagsUsed)
           }
         | None \<Rightarrow> Some (SetError subEncoder (ErrMetaNotFound t), t # tagsUsed)))"

definition writeOptionalMetaElem ::
  "'k writer_env \<Rightarrow> element list \<Rightarrow> WriteOptSet \<Rightarrow> encoder \<times> tag list \<Rightarrow> tag \<Rightarrow> val \<Rightarrow>
   (encoder \<times> tag list) option" where
  "writeOptionalMetaElem env metaElems opts st t defaultValue =
     (case st of (subEncoder, tagsUsed) \<Rightarrow>
        (case FindElementByTag env metaElems t of
           Some elem \<Rightarrow> do {
             s1 \<leftarrow> WriteElement env subEncoder elem opts;
             Some (s1, t # tagsUsed)
           }
         | None \<Rightarrow> do {
             d \<leftarrow> MustNewElement env t defaultValue;
             s1 \<leftarrow> WriteElement env subEncoder d opts;
             Some (s1, t # tagsUsed)
           }))"

text \<open>The loop over the remaining elements of the meta group.\<close>

fun write_other_meta ::
  "'k writer_env \<Rightarrow> WriteOptSet \<Rightarrow> tag list \<Rightarrow> encoder \<Rightarrow> element list \<Rightarrow> encoder option" where
  "write_other_meta env opts tagsUsed subEncoder [] = Some subEncoder"
| "write_other_meta env opts tagsUsed subEncoder (elem # rest) =
     (if Group (Tag elem) = MetadataGroup \<and> Tag elem \<notin> set tagsUsed then do {
        s1 \<leftarrow> WriteElement env subEncoder elem opts;
        write_other_meta env opts tagsUsed s1 rest
      }
      else write_other_meta env opts tagsUsed subEncoder rest)"

text \<open>
  The meta block built in the sub-encoder: the six named elements, then the other
  elements of group 2.
\<close>

definition write_meta_block ::
  "'k writer_env \<Rightarrow> element list \<Rightarrow> WriteOptSet \<Rightarrow> encoder option" where
  "write_meta_block env metaElems opts = do {
     let st0 = (NewBytesEncoder (Some LittleEndian) ExplicitVR, [FileMetaInformationGroupLength]);
     st1 \<leftarrow> writeOptionalMetaElem env metaElems opts st0 FileMetaInformationVersion
              (VBytes (bytes_of ''0 1''));
     st2 \<leftarrow> writeRequiredMetaElem env metaElems opts st1 MediaStorageSOPClassUID;
     st3 \<leftarrow> writeRequiredMetaElem env metaElems opts st2 MediaStorageSOPInstanceUID;
     st4 \<leftarrow> writeRequiredMetaElem env metaElems opts st3 TransferSyntaxUID;
     st5 \<leftarrow> writeOptionalMetaElem env metaElems opts st4 ImplementationClassUID
              (VString GoDICOMImplementationClassUID);
     st6 \<leftarrow> writeOptionalMetaElem env metaElems opts st5 ImplementationVersionName
              (VString GoDICOMImplementationVersionName);
     write_other_meta env opts (snd st6) (fst st6) metaElems
   }"

text \<open>
  WriteFileHeader. The transfer syntax pushed at the start is popped on every return
  (the deferred call).
\<close>

definition WriteFileHeader ::
  "'k writer_env \<Rightarrow> encoder \<Rightarrow> element list \<Rightarrow> WriteOptSet \<Rightarrow> encoder option" where
  "WriteFileHeader env e metaElems opts = do {
     let e0 = PushTransferSyntax e (Some LittleEndian) ExplicitVR;
     subEncoder \<leftarrow> write_meta_block env metaElems opts;
     case err subEncoder of
       Some x \<Rightarrow> PopTransferSyntax (SetError e0 x)
     | None \<Rightarrow> do {
         let metaBytes = out subEncoder;
         let e1 = WriteString (WriteZeros e0 128) ''DICM'';
         lenElem \<leftarrow> MustNewElement env FileMetaInformationGroupLength
                      (VUInt32 (of_nat (length metaBytes)));
         e2 \<leftarrow> WriteElement env e1 lenElem opts;
         PopTransferSyntax (WriteBytes e2 metaBytes)
       }
   }"

text \<open>Element.GetCleanString and getTransferSyntax.\<close>

definition GetCleanString :: "'k writer_env \<Rightarrow> element \<Rightarrow> error + string" where
  "GetCleanString env elem =
     (case GetString env elem of
        Inl x \<Rightarrow> Inl x
      | Inr s \<Rightarrow> Inr (FilterNonPrintable (IsPrint env) s))"

definition getTransferSyntax ::
  "'k writer_env \<Rightarrow> element list \<Rightarrow> error + (ByteOrder option \<times> IsImplicitVR)" where
  "getTransferSyntax env elems =
     (case FindElementByTag env elems TransferSyntaxUID of
        None \<Rightarrow> Inl (ErrElementNotFound TransferSyntaxUID)
      | Some elem \<Rightarrow>
          (case GetCleanString env elem of
             Inl x \<Rightarrow> Inl x
           | Inr transferSyntaxUID \<Rightarrow> ParseTransferSyntaxUID env transferSyntaxUID))"

text \<open>Write options are functions on the option set, applied in order.\<close>

type_synonym WriteOption = "WriteOptSet \<Rightarrow> WriteOptSet"

definition toWriteOptSet :: "WriteOption list \<Rightarrow> WriteOptSet" where
  "toWriteOptSet opts = fold (\<lambda>opt optSet. opt optSet) opts \<lparr>SkipVRVerification = False\<rparr>"

definition SkipVRVerificationOption :: WriteOption where
  "SkipVRVerificationOption optSet = optSet\<lparr>SkipVRVerification := True\<rparr>"

text \<open>The loop of WriteDataSet over the elements of the data set.\<close>

fun write_body :: "'k writer_env \<Rightarrow> WriteOptSet \<Rightarrow> encoder \<Rightarrow> element list \<Rightarrow> encoder option" where
  "write_body env optSet e [] = Some e"
| "write_body env optSet e (elem # rest) =
     (if Group (Tag elem) \<noteq> MetadataGroup \<and> Group (Tag elem) mod 2 = 0 then do {
        e1 \<leftarrow> WriteElement env e elem optSet;
        write_body env optSet e1 rest
      }
      else write_body env optSet e rest)"

text \<open>
  WriteDataSet: the bytes written to the stream and the error returned. The stream is an
  in-memory byte sequence; failures of the underlying writer are not modelled.
\<close>

definition WriteDataSet ::
  "'k writer_env \<Rightarrow> element list \<Rightarrow> WriteOption list \<Rightarrow> (byte list \<times> error option) option" where
  "WriteDataSet env ds opts = do {
     let optSet = toWriteOptSet opts;
     let e = \<lparr>out = [], err = None, bo = None, implicit = UnknownVR, oldTransferSyntaxes = []\<rparr>;
     let metaElems = filter (\<lambda>elem. Group (Tag elem) = MetadataGroup) ds;
     e1 \<leftarrow> WriteFileHeader env e metaElems optSet;
     if err e1 \<noteq> None then Some (out e1, err e1)
     else
       (case getTransferSyntax env ds of
          Inl x \<Rightarrow> Some (out e1, Some x)
        | Inr (endian, impl) \<Rightarrow> do {
            e2 \<leftarrow> write_body env optSet (PushTransferSyntax e1 endian impl) ds;
            e3 \<leftarrow> PopTransferSyntax e2;
            Some (out e3, err e3)
          })
   }"

section \<open>Character sets (package dicomio)\<close>

text \<open>
  The character maps of golang.org/x/text/encoding/charmap that the code names, and a
  decoder (Go \<^verbatim>\<open>*encoding.Decoder\<close>): either the decoder of a character map or the decoder
  of an encoding found in htmlindex. A nil decoder is \<open>None\<close>.
\<close>

datatype Charmap = ISO8859_5 | KOI8R | KOI8U | Windows1251 | Windows1250 | CodePage866

datatype 'enc Decoder = CharmapDecoder Charmap | HtmlDecoder 'enc

record 'enc CodingSystem =
  Alphabetic :: "'enc Decoder option"
  Ideographic :: "'enc Decoder option"
  Phonetic :: "'enc Decoder option"

text \<open>
  The libraries the character-set code calls are parameters: htmlindex.Get (\<open>None\<close> when
  it returns an error), strings.ToUpper, and the String method of a character map's
  decoder (\<open>None\<close> when it returns an error).
\<close>

record 'enc charset_env =
  htmlindex_Get :: "string \<Rightarrow> 'enc option"
  ToUpper :: "string \<Rightarrow> string"
  charmap_String :: "Charmap \<Rightarrow> string \<Rightarrow> string option"

definition htmlEncodingNames :: "string \<Rightarrow> string option" where
  "htmlEncodingNames = map_of
     [('''', ''''),
      (''ISO 2022 IR 6'', ''iso-8859-1''),
      (''ISO_IR 13'', ''shift_jis''),
      (''ISO 2022 IR 13'', ''shift_jis''),
      (''ISO_IR 100'', ''iso-8859-1''),
      (''ISO 2022 IR 100'', ''iso-8859-1''),
      (''ISO_IR 101'', ''iso-8859-2''),
      (''ISO 2022 IR 101'', ''iso-8859-2''),
      (''ISO_IR 109'', ''iso-8859-3''),
      (''ISO 2022 IR 109'', ''iso-8859-3''),
      (''ISO_IR 110'', ''iso-8859-4''),
      (''ISO 2022 IR 110'', ''iso-8859-4''),
      (''ISO_IR 126'', ''iso-ir-126''),
      (''ISO 2022 IR 126'', ''iso-ir-126''),
      (''ISO_IR 127'', ''iso-ir-127''),
      (''ISO 2022 IR 127'', ''iso-ir-127''),
      (''ISO_IR 138'', ''iso-ir-138''),
      (''ISO 2022 IR 138'', ''iso-ir-138''),
      (''ISO_IR 144'', ''iso-8859-5''),
      (''ISO 2022 IR 144'', ''iso-8859-5''),
      (''ISO_IR 148'', ''iso-ir-148''),
      (''ISO 2022 IR 148'', ''iso-ir-148''),
      (''ISO 2022 IR 149'', ''euc-kr''),
      (''ISO 2022 IR 159'', ''iso-2022-jp''),
      (''ISO_IR 166'', ''iso-ir-166''),
      (''ISO 2022 IR 166'', ''iso-ir-166''),
      (''ISO 2022 IR 87'', ''iso-2022-jp''),
      (''ISO_IR 192'', ''utf-8''),
      (''GB18030'', ''gb18030''),
      (''CP1250HACK'', ''windows-1250''),
      (''ISO_IR 146'', ''koi8-r''),
      (''ISO 2022 IR 146'', ''koi8-r''),
      (''WINDOWS-1251'', ''windows-1251''),
      (''CP1251'', ''windows-1251''),
      (''KOI8-R'', ''koi8-r''),
      (''KOI8-U'', ''koi8-u''),
      (''CP866'', ''ibm866''),
      (''IBM866'', ''ibm866'')]"

definition getCustomDecoder :: "string \<Rightarrow> 'enc Decoder option" where
  "getCustomDecoder encodingName =
     (if encodingName = ''iso-8859-5'' then Some (CharmapDecoder ISO8859_5)
      else if encodingName = ''koi8-r'' then Some (CharmapDecoder KOI8R)
      else if encodingName = ''koi8-u'' then Some (CharmapDecoder KOI8U)
      else if encodingName = ''windows-1251'' then Some (CharmapDecoder Windows1251)
      else if encodingName = ''windows-1250'' then Some (CharmapDecoder Windows1250)
      else if encodingName = ''ibm866'' then Some (CharmapDecoder CodePage866)
      else None)"

definition alternatives :: "string \<Rightarrow> Charmap option" where
  "alternatives = map_of
     [(''CYRILLIC'', ISO8859_5),
      (''ISO-8859-5'', ISO8859_5),
      (''ISO8859-5'', ISO8859_5),
      (''KOI8R'', KOI8R),
      (''KOI-8-R'', KOI8R),
      (''KOI8U'', KOI8U),
      (''KOI-8-U'', KOI8U),
      (''WIN-1251'', Windows1251),
      (''WIN1251'', Windows1251),
      (''WINDOWS1251'', Windows1251),
      (''CP-1251'', Windows1251),
      (''CP-866'', CodePage866),
      (''CP866'', CodePage866),
      (''DOS-866'', CodePage866),
      (''IBM-866'', CodePage866)]"

definition tryAlternativeEncodings :: "'enc charset_env \<Rightarrow> string \<Rightarrow> 'enc Decoder option" where
  "tryAlternativeEncodings env name =
     (let upperName = ToUpper env name in
      case alternatives upperName of
        Some cm \<Rightarrow> Some (CharmapDecoder cm)
      | None \<Rightarrow> None)"

text \<open>
  The body of the loop of ParseSpecificCharacterSet: the decoder appended for one name
  (possibly nil) and the log lines of that iteration.
\<close>

definition utf8_fallback :: "'enc charset_env \<Rightarrow> 'enc Decoder option" where
  "utf8_fallback env =
     (case htmlindex_Get env ''utf-8'' of Some d \<Rightarrow> Some (HtmlDecoder d) | None \<Rightarrow> None)"

definition parse_charset_name ::
  "'enc charset_env \<Rightarrow> bool \<Rightarrow> string \<Rightarrow> 'enc Decoder option \<times> logline list" where
  "parse_charset_name env CP1250Fix name0 =
     (let name = (if CP1250Fix \<and> name0 = ''ISO_IR 100'' then ''CP1250HACK'' else name0);
          normalizedName = Join (Fields (TrimSpace name)) '' '';
          log0 = [(2, LogUsingCodingSystem normalizedName)]
      in
        case htmlEncodingNames normalizedName of
          None \<Rightarrow>
            (case tryAlternativeEncodings env normalizedName of
               Some altDecoder \<Rightarrow> (Some altDecoder, log0 @ [(2, LogFoundAlternative normalizedName)])
             | None \<Rightarrow> (utf8_fallback env, log0 @ [(1, LogUnknownCharset normalizedName)]))
        | Some htmlName \<Rightarrow>
            if htmlName \<noteq> '''' then
              (case getCustomDecoder htmlName of
                 Some customDecoder \<Rightarrow> (Some customDecoder, log0)
               | None \<Rightarrow>
                   (case htmlindex_Get env htmlName of
                      Some d \<Rightarrow> (Some (HtmlDecoder d), log0)
                    | None \<Rightarrow>
                        (case getCustomDecoder normalizedName of
                           Some customDecoder \<Rightarrow>
                             (Some customDecoder,
                              log0 @ [(1, LogNotInHtmlindex htmlName normalizedName)])
                         | None \<Rightarrow>
                             (case utf8_fallback env of
                                Some c \<Rightarrow>
                                  (Some c,
                                   log0 @ [(1, LogNotInHtmlindex htmlName normalizedName),
                                           (1, LogUTF8Fallback normalizedName)])
                              | None \<Rightarrow>
                                  (None, log0 @ [(1, LogNotInHtmlindex htmlName normalizedName)])))))
            else (None, log0))"

text \<open>
  ParseSpecificCharacterSet: the coding system, the error returned (always nil) and the
  log lines.
\<close>

definition ParseSpecificCharacterSet ::
  "'enc charset_env \<Rightarrow> string list \<Rightarrow> bool \<Rightarrow>
   ('enc CodingSystem \<times> error option) \<times> logline list" where
  "ParseSpecificCharacterSet env encodingNames CP1250Fix =
     (let results = map (parse_charset_name env CP1250Fix) encodingNames;
          decoders = map fst results;
          logs = concat (map snd results)
      in
        if length decoders = 0 then
          ((\<lparr>Alphabetic = None, Ideographic = None, Phonetic = None\<rparr>, None), logs)
        else if length decoders = 1 then
          ((\<lparr>Alphabetic = decoders ! 0, Ideographic = decoders ! 0, Phonetic = decoders ! 0\<rparr>,
            None), logs)
        else if length decoders = 2 then
          ((\<lparr>Alphabetic = decoders ! 0, Ideographic = decoders ! 1, Phonetic = decoders ! 1\<rparr>,
            None), logs)
        else
          ((\<lparr>Alphabetic = decoders ! 0, Ideographic = decoders ! 1, Phonetic = decoders ! 2\<rparr>,
            None), logs))"

section \<open>Cyrillic auto-detection\<close>

text \<open>containsCyrillic: some rune lies in one of the four Cyrillic blocks.\<close>

definition is_cyrillic :: "nat \<Rightarrow> bool" where
  "is_cyrillic r =
     ((0x0400 \<le> r \<and> r \<le> 0x04FF) \<or> (0x0500 \<le> r \<and> r \<le> 0x052F)
      \<or> (0x2DE0 \<le> r \<and> r \<le> 0x2DFF) \<or> (0xA640 \<le> r \<and> r \<le> 0xA69F))"

definition containsCyrillic :: "string \<Rightarrow> bool" where
  "containsCyrillic text = list_ex (\<lambda>(r, src, ok). is_cyrillic r) (runes text)"

text \<open>
  containsGarbage counts, over the runes of the string, the occurrences of U+FFFD and
  of the runes 0x80..0xFF. The source compares the quotient of the two counters, taken
  in float64, with 0.2; for every string of fewer than 2^50 runes that comparison holds
  exactly when five times the garbage count exceeds the number of runes, which is what
  is written here.
\<close>

definition garbage_of :: "nat \<Rightarrow> nat" where
  "garbage_of r = (if r = 0xFFFD then 1 else 0) + (if 0x80 \<le> r \<and> r \<le> 0xFF then 1 else 0)"

definition garbageCount :: "string \<Rightarrow> nat" where
  "garbageCount s = sum_list (map (\<lambda>(r, src, ok). garbage_of r) (runes s))"

definition totalRunes :: "string \<Rightarrow> nat" where
  "totalRunes s = length (runes s)"

definition containsGarbage :: "string \<Rightarrow> bool" where
  "containsGarbage s = (totalRunes s > 0 \<and> 5 * garbageCount s > totalRunes s)"

definition encodings :: "(string \<times> Charmap) list" where
  "encodings =
     [(''windows-1251'', Windows1251), (''koi8-r'', KOI8R), (''iso-8859-5'', ISO8859_5),
      (''cp866'', CodePage866)]"

text \<open>One attempt: the decoding is accepted when it succeeds and contains Cyrillic.\<close>

definition try_decode :: "'enc charset_env \<Rightarrow> Charmap \<Rightarrow> string \<Rightarrow> string option" where
  "try_decode env cm text =
     (case charmap_String env cm text of
        Some decoded \<Rightarrow> if containsCyrillic decoded then Some decoded else None
      | None \<Rightarrow> None)"

text \<open>The first loop: the entry named by defaultEncoding is tried, then the loop breaks.\<close>

fun try_default ::
  "'enc charset_env \<Rightarrow> (string \<times> Charmap) list \<Rightarrow> string \<Rightarrow> string \<Rightarrow> string option" where
  "try_default env [] defaultEncoding text = None"
| "try_default env ((name, cm) # rest) defaultEncoding text =
     (if name = defaultEncoding then try_decode env cm text
      else try_default env rest defaultEncoding text)"

text \<open>The second loop: every entry but the one named by defaultEncoding, in order.\<close>

fun try_others ::
  "'enc charset_env \<Rightarrow> (string \<times> Charmap) list \<Rightarrow> string \<Rightarrow> string \<Rightarrow> string option" where
  "try_others env [] defaultEncoding text = None"
| "try_others env ((name, cm) # rest) defaultEncoding text =
     (if name = defaultEncoding then try_others env rest defaultEncoding text
      else
        (case try_decode env cm text of
           Some decoded \<Rightarrow> Some decoded
         | None \<Rightarrow> try_others env rest defaultEncoding text))"

definition detectCyrillicEncoding :: "'enc charset_env \<Rightarrow> string \<Rightarrow> string \<Rightarrow> string" where
  "detectCyrillicEncoding env text defaultEncoding =
     (if ValidString text then text
      else
        (case (if defaultEncoding \<noteq> '''' then try_default env encodings defaultEncoding text
               else None) of
           Some decoded \<Rightarrow> decoded
         | None \<Rightarrow>
             (case try_others env encodings defaultEncoding text of
                Some decoded \<Rightarrow> decoded
              | None \<Rightarrow> text)))"

section \<open>Reading a data set\<close>

record ReadOptions =
  DropPixelData :: bool
  ReturnTags :: "tag list option"
  StopAtTag :: "tag option"
  CP1250Fix :: bool
  DefaultCyrillicEncoding :: string

text \<open>
  Modelled from the spec: dicomio.Decoder is not part of the sources at hand. Following
  the ByteCursor of the specification it holds the unread input, the number of bytes
  consumed, a sticky error, the stack of (byte order, VR mode) frames and the installed
  coding system. Parsing halts once an error is set, so EOF holds then as well as at the
  end of the input.
\<close>

record 'enc decoder =
  input :: "byte list"
  bytesRead :: nat
  derr :: "error option"
  dbo :: "ByteOrder option"
  dimplicit :: IsImplicitVR
  dstack :: "(ByteOrder option \<times> IsImplicitVR) list"
  codingSystem :: "'enc CodingSystem"

definition NewDecoder :: "byte list \<Rightarrow> ByteOrder option \<Rightarrow> IsImplicitVR \<Rightarrow> 'enc decoder" where
  "NewDecoder bs b i =
     \<lparr>input = bs, bytesRead = 0, derr = None, dbo = b, dimplicit = i, dstack = [],
      codingSystem = \<lparr>Alphabetic = None, Ideographic = None, Phonetic = None\<rparr>\<rparr>"

definition EOF :: "'enc decoder \<Rightarrow> bool" where
  "EOF d = (derr d \<noteq> None \<or> input d = [])"

definition BytesRead :: "'enc decoder \<Rightarrow> nat" where
  "BytesRead d = bytesRead d"

definition DSetError :: "'enc decoder \<Rightarrow> error \<Rightarrow> 'enc decoder" where
  "DSetError d x = (if derr d = None then d\<lparr>derr := Some x\<rparr> else d)"

definition SetCodingSystem :: "'enc decoder \<Rightarrow> 'enc CodingSystem \<Rightarrow> 'enc decoder" where
  "SetCodingSystem d cs = d\<lparr>codingSystem := cs\<rparr>"

definition DPushTransferSyntax ::
  "'enc decoder \<Rightarrow> ByteOrder option \<Rightarrow> IsImplicitVR \<Rightarrow> 'enc decoder" where
  "DPushTransferSyntax d b i =
     d\<lparr>dbo := b, dimplicit := i, dstack := (dbo d, dimplicit d) # dstack d\<rparr>"

definition DPopTransferSyntax :: "'enc decoder \<Rightarrow> 'enc decoder option" where
  "DPopTransferSyntax d =
     (case dstack d of
        [] \<Rightarrow> None
      | (b, i) # rest \<Rightarrow> Some (d\<lparr>dbo := b, dimplicit := i, dstack := rest\<rparr>))"

text \<open>
  What ReadElement returns: the end-of-data sentinel, nil after a parse error, or an
  element.
\<close>

datatype read_result = EndOfDataElement | NilElement | ReadElem element

text \<open>
  ReadElement, ParseFileHeader and Element.GetStrings are not part of the sources at
  hand and are parameters, next to the parameters of the writer and of the
  character-set code.
\<close>

record ('k, 'enc) reader_env =
  wenv :: "'k writer_env"
  cenv :: "'enc charset_env"
  ReadElement :: "ReadOptions \<Rightarrow> 'enc decoder \<Rightarrow> read_result \<times> 'enc decoder"
  ParseFileHeader :: "'enc decoder \<Rightarrow> element list \<times> 'enc decoder"
  GetStrings :: "element \<Rightarrow> error + string list"

text \<open>
  Modelled from the spec: tagInList is not part of the sources at hand. ReturnTags is a
  whitelist of the tags to return, so tagInList is membership in that list.
\<close>

definition tagInList :: "tag \<Rightarrow> tag list \<Rightarrow> bool" where
  "tagInList t tags = (t \<in> set tags)"

definition GetCleanStrings :: "('k, 'enc) reader_env \<Rightarrow> element \<Rightarrow> error + string list" where
  "GetCleanStrings env elem =
     (case GetStrings env elem of
        Inl x \<Rightarrow> Inl x
      | Inr strs \<Rightarrow> Inr (map (FilterNonPrintable (IsPrint (wenv env))) strs))"

text \<open>
  processMultiValueDSElement: a single string value that contains a backslash is split
  at the backslashes and each part is trimmed.
\<close>

definition processMultiValueDSElement :: "element \<Rightarrow> element" where
  "processMultiValueDSElement elem =
     (case Value elem of
        [VString strVal] \<Rightarrow>
          if Contains strVal (CHR 0x5C)
          then MkElement (Tag elem) (VR elem) (UndefinedLength elem)
                 (map (\<lambda>part. VString (TrimSpace part)) (Split strVal (CHR 0x5C)))
          else elem
      | _ \<Rightarrow> elem)"

subsection \<open>The body of the loop of ReadDataSet\<close>

text \<open>
  Step 1: a SpecificCharacterSet element installs its coding system on the decoder and
  sets the flag charsetSet; a failure is recorded on the decoder.
\<close>

definition install_charset ::
  "('k, 'enc) reader_env \<Rightarrow> ReadOptions \<Rightarrow> element \<Rightarrow> 'enc decoder \<times> bool \<Rightarrow> 'enc decoder \<times> bool"
  where
  "install_charset env options elem st =
     (case st of (buffer, charsetSet) \<Rightarrow>
        if Tag elem = SpecificCharacterSet then
          (case GetCleanStrings env elem of
             Inl x \<Rightarrow> (DSetError buffer x, charsetSet)
           | Inr encodingNames \<Rightarrow>
               (case fst (ParseSpecificCharacterSet (cenv env) encodingNames (CP1250Fix options)) of
                  (cs, Some x) \<Rightarrow> (DSetError buffer x, charsetSet)
                | (cs, None) \<Rightarrow> (SetCodingSystem buffer cs, True)))
        else (buffer, charsetSet))"

text \<open>
  Step 2: while no character set has been installed, a first value that is a non-empty
  string with garbage is passed to detectCyrillicEncoding; when the result differs, it
  becomes the only value of the element.
\<close>

definition autodetect :: "('k, 'enc) reader_env \<Rightarrow> ReadOptions \<Rightarrow> bool \<Rightarrow> element \<Rightarrow> element" where
  "autodetect env options charsetSet elem =
     (if \<not> charsetSet then
        (case Value elem of
           VString strVal # _ \<Rightarrow>
             if strVal \<noteq> '''' \<and> containsGarbage strVal then
               (let decoded = detectCyrillicEncoding (cenv env) strVal (DefaultCyrillicEncoding options)
                in if decoded \<noteq> strVal
                   then MkElement (Tag elem) (VR elem) (UndefinedLength elem) [VString decoded]
                   else elem)
             else elem
         | _ \<Rightarrow> elem)
      else elem)"

text \<open>Step 3: the values of a DS element are split.\<close>

definition split_ds :: "element \<Rightarrow> element" where
  "split_ds elem = (if VR elem = ''DS'' then processMultiValueDSElement elem else elem)"

text \<open>
  Step 4: the element is appended when no ReturnTags are given or its tag is in the
  list; its string values are cleaned first.
\<close>

definition clean_value :: "('k, 'enc) reader_env \<Rightarrow> val \<Rightarrow> val" where
  "clean_value env v =
     (case v of
        VString strVal \<Rightarrow> VString (FilterNonPrintable (IsPrint (wenv env)) strVal)
      | _ \<Rightarrow> v)"

definition clean_element :: "('k, 'enc) reader_env \<Rightarrow> element \<Rightarrow> element" where
  "clean_element env elem =
     MkElement (Tag elem) (VR elem) (UndefinedLength elem) (map (clean_value env) (Value elem))"

definition append_element ::
  "('k, 'enc) reader_env \<Rightarrow> ReadOptions \<Rightarrow> element \<Rightarrow> element list \<Rightarrow> element list" where
  "append_element env options elem file =
     (case ReturnTags options of
        None \<Rightarrow> file @ [clean_element env elem]
      | Some tags \<Rightarrow>
          if tagInList (Tag elem) tags then file @ [clean_element env elem] else file)"

definition ReadDataSet_body ::
  "('k, 'enc) reader_env \<Rightarrow> ReadOptions \<Rightarrow> element \<Rightarrow> 'enc decoder \<times> bool \<times> element list \<Rightarrow>
   'enc decoder \<times> bool \<times> element list" where
  "ReadDataSet_body env options elem st =
     (case st of (buffer, charsetSet, file) \<Rightarrow>
        (case install_charset env options elem (buffer, charsetSet) of
           (buffer1, charsetSet1) \<Rightarrow>
             (buffer1, charsetSet1,
              append_element env options
                (split_ds (autodetect env options charsetSet1 elem)) file)))"

subsection \<open>ReadDataSet\<close>

text \<open>
  The loop runs on fuel: \<open>None\<close> means that the fuel ran out. Within the fuel, the loop
  either panics (ReadElement consumed nothing) or returns the elements and the decoder.
\<close>

datatype 'a outcome = Panicked | Returned 'a

fun ReadDataSet_loop ::
  "nat \<Rightarrow> ('k, 'enc) reader_env \<Rightarrow> ReadOptions \<Rightarrow> 'enc decoder \<Rightarrow> bool \<Rightarrow> element list \<Rightarrow>
   (element list \<times> 'enc decoder) outcome option" where
  "ReadDataSet_loop 0 env options buffer charsetSet file = None"
| "ReadDataSet_loop (Suc n) env options buffer charsetSet file =
     (if EOF buffer then Some (Returned (file, buffer))
      else
        (case ReadElement env options buffer of
           (r, buffer1) \<Rightarrow>
             if BytesRead buffer1 \<le> BytesRead buffer then Some Panicked
             else
               (case r of
                  EndOfDataElement \<Rightarrow> Some (Returned (file, buffer1))
                | NilElement \<Rightarrow> ReadDataSet_loop n env options buffer1 charsetSet file
                | ReadElem elem \<Rightarrow>
                    (case ReadDataSet_body env options elem (buffer1, charsetSet, file) of
                       (buffer2, charsetSet2, file2) \<Rightarrow>
                         ReadDataSet_loop n env options buffer2 charsetSet2 file2))))"

text \<open>
  ReadDataSet: the data set (nil is \<open>None\<close>) and the error returned, or a panic.
\<close>

definition ReadDataSet ::
  "nat \<Rightarrow> ('k, 'enc) reader_env \<Rightarrow> byte list \<Rightarrow> ReadOptions \<Rightarrow>
   (element list option \<times> error option) outcome option" where
  "ReadDataSet fuel env inp options =
     (case ParseFileHeader env (NewDecoder inp (Some LittleEndian) ExplicitVR) of
        (metaElems, buffer) \<Rightarrow>
          (case derr buffer of
             Some x \<Rightarrow> Some (Returned (None, Some x))
           | None \<Rightarrow>
               (case getTransferSyntax (wenv env) metaElems of
                  Inl x \<Rightarrow> Some (Returned (None, Some x))
                | Inr (endian, impl) \<Rightarrow>
                    (case ReadDataSet_loop fuel env options
                            (DPushTransferSyntax buffer endian impl) False metaElems of
                       None \<Rightarrow> None
                     | Some Panicked \<Rightarrow> Some Panicked
                     | Some (Returned (file, buffer1)) \<Rightarrow>
                         Some (Returned (Some file, derr buffer1))))))"

section \<open>Statements of the specification\<close>

text \<open>
  The payload of an AT element in the words of the specification: for each tag value
  the group, then the element, both in the byte order of the transfer syntax.
\<close>

definition AT_payload_spec :: "ByteOrder \<Rightarrow> tag list \<Rightarrow> byte list" where
  "AT_payload_spec b tags =
     concat (map (\<lambda>t. uint16_bytes b (Group t) @ uint16_bytes b (Element t)) tags)"

text \<open>
  The payload of an AT element as the writer produces it: each tag value as eight
  upper-case hexadecimal digits, the values joined by a backslash, and a space appended
  when the length is odd.
\<close>

definition AT_text :: "tag list \<Rightarrow> string" where
  "AT_text tags = Join (map (\<lambda>t. fmt_04X (Group t) @ fmt_04X (Element t)) tags) backslash"

definition AT_payload :: "tag list \<Rightarrow> byte list" where
  "AT_payload tags =
     bytes_of (if length (AT_text tags) mod 2 = 1 then AT_text tags @ '' '' else AT_text tags)"

text \<open>Writing a list of elements one after the other.\<close>

fun write_elements ::
  "'k writer_env \<Rightarrow> WriteOptSet \<Rightarrow> encoder \<Rightarrow> element list \<Rightarrow> encoder option" where
  "write_elements env optSet e [] = Some e"
| "write_elements env optSet e (elem # rest) = do {
     e1 \<leftarrow> WriteElement env e elem optSet;
     write_elements env optSet e1 rest
   }"

text \<open>The elements that WriteDataSet writes after the header, in the words of the specification.\<close>

definition body_elements :: "element list \<Rightarrow> element list" where
  "body_elements ds =
     filter (\<lambda>elem. even (unat (Group (Tag elem))) \<and> Group (Tag elem) \<noteq> 0x0002) ds"

text \<open>
  The priority list of the auto-detection in the words of the specification: the
  default encoding first when it is one of the four names windows-1251, koi8-r,
  iso-8859-5 and cp866, then these four in that order; the first candidate whose
  decoding succeeds and contains Cyrillic is accepted.
\<close>

definition candidates :: "string \<Rightarrow> Charmap list" where
  "candidates defaultEncoding =
     (case map_of encodings defaultEncoding of Some cm \<Rightarrow> [cm] | None \<Rightarrow> [])
     @ [Windows1251, KOI8R, ISO8859_5, CodePage866]"

fun first_accepted :: "'enc charset_env \<Rightarrow> Charmap list \<Rightarrow> string \<Rightarrow> string option" where
  "first_accepted env [] text = None"
| "first_accepted env (cm # rest) text =
     (case try_decode env cm text of
        Some decoded \<Rightarrow> Some decoded
      | None \<Rightarrow> first_accepted env rest text)"

text \<open>
  The elements that the loop of ReadDataSet reads, each as it is after the steps 1 to 3
  of its iteration, whether or not step 4 returns it. The loop ends as the loop of
  ReadDataSet does; the list ReturnTags is not consulted.
\<close>

fun elements_read ::
  "nat \<Rightarrow> ('k, 'enc) reader_env \<Rightarrow> ReadOptions \<Rightarrow> 'enc decoder \<Rightarrow> bool \<Rightarrow> element list \<Rightarrow>
   (element list \<times> 'enc decoder) outcome option" where
  "elements_read 0 env options buffer charsetSet seen = None"
| "elements_read (Suc n) env options buffer charsetSet seen =
     (if EOF buffer then Some (Returned (seen, buffer))
      else
        (case ReadElement env options buffer of
           (r, buffer1) \<Rightarrow>
             if BytesRead buffer1 \<le> BytesRead buffer then Some Panicked
             else
               (case r of
                  EndOfDataElement \<Rightarrow> Some (Returned (seen, buffer1))
                | NilElement \<Rightarrow> elements_read n env options buffer1 charsetSet seen
                | ReadElem elem \<Rightarrow>
                    (case install_charset env options elem (buffer1, charsetSet) of
                       (buffer2, charsetSet2) \<Rightarrow>
                         elements_read n env options buffer2 charsetSet2
                           (seen @ [split_ds (autodetect env options charsetSet2 elem)])))))"

text \<open>
  The elements returned under a ReturnTags list, in the words of the specification: of
  the elements read, those whose tag is in the list, in their order, with their string
  values cleaned.
\<close>

definition returned_elements ::
  "('k, 'enc) reader_env \<Rightarrow> tag list \<Rightarrow> element list \<Rightarrow> element list" where
  "returned_elements env tags seen =
     map (clean_element env) (filter (\<lambda>elem. Tag elem \<in> set tags) seen)"

text \<open>The encoder carried by the result of a loop over sub-elements.\<close>

fun result_encoder :: "items_result \<Rightarrow> encoder" where
  "result_encoder (Bad e v) = e"
| "result_encoder (Fin e) = e"

text \<open>A text value as bytes, with the padding byte appended when its length is odd.\<close>

definition padded :: "byte \<Rightarrow> string \<Rightarrow> byte list" where
  "padded pad s = bytes_of s @ (if length s mod 2 = 1 then [pad] else [])"

section \<open>A sample environment\<close>

text \<open>
  Concrete collaborators on which the theorems below are exercised. The dictionary
  holds a few tags of the DICOM data dictionary; the kinds of VR are those the
  specification names, refined as in the tag dictionary.
\<close>

datatype VRKind =
    VRStringList | VRBytes | VRString | VRUInt16List | VRUInt32List | VRInt16List
  | VRInt32List | VRFloat32List | VRFloat64List | VRSequence | VRItem | VRTagList | VRDate
  | VRPixelData

definition sample_Find :: "tag \<Rightarrow> TagInfo option" where
  "sample_Find = map_of
     [(FileMetaInformationGroupLength,
         \<lparr>TagInfoVR = ''UL'', TagInfoName = ''FileMetaInformationGroupLength''\<rparr>),
      (FileMetaInformationVersion,
         \<lparr>TagInfoVR = ''OB'', TagInfoName = ''FileMetaInformationVersion''\<rparr>),
      (MediaStorageSOPClassUID,
         \<lparr>TagInfoVR = ''UI'', TagInfoName = ''MediaStorageSOPClassUID''\<rparr>),
      (MediaStorageSOPInstanceUID,
         \<lparr>TagInfoVR = ''UI'', TagInfoName = ''MediaStorageSOPInstanceUID''\<rparr>),
      (TransferSyntaxUID, \<lparr>TagInfoVR = ''UI'', TagInfoName = ''TransferSyntaxUID''\<rparr>),
      (ImplementationClassUID,
         \<lparr>TagInfoVR = ''UI'', TagInfoName = ''ImplementationClassUID''\<rparr>),
      (ImplementationVersionName,
         \<lparr>TagInfoVR = ''SH'', TagInfoName = ''ImplementationVersionName''\<rparr>),
      (SpecificCharacterSet, \<lparr>TagInfoVR = ''CS'', TagInfoName = ''SpecificCharacterSet''\<rparr>),
      (\<lparr>Group = 0x0010, Element = 0x0010\<rparr>, \<lparr>TagInfoVR = ''PN'', TagInfoName = ''PatientName''\<rparr>),
      (\<lparr>Group = 0x0010, Element = 0x0020\<rparr>, \<lparr>TagInfoVR = ''LO'', TagInfoName = ''PatientID''\<rparr>),
      (\<lparr>Group = 0x0028, Element = 0x0009\<rparr>,
         \<lparr>TagInfoVR = ''AT'', TagInfoName = ''FrameIncrementPointer''\<rparr>),
      (\<lparr>Group = 0x0028, Element = 0x0010\<rparr>, \<lparr>TagInfoVR = ''US'', TagInfoName = ''Rows''\<rparr>)]"

definition sample_GetVRKind :: "tag \<Rightarrow> string \<Rightarrow> VRKind" where
  "sample_GetVRKind t vr =
     (if t = Item then VRItem
      else if t = PixelData then VRPixelData
      else if vr = ''DA'' then VRDate
      else if vr = ''AT'' then VRTagList
      else if vr = ''OW'' \<or> vr = ''OB'' then VRBytes
      else if vr = ''LT'' \<or> vr = ''UT'' then VRString
      else if vr = ''UL'' then VRUInt32List
      else if vr = ''SL'' then VRInt32List
      else if vr = ''US'' then VRUInt16List
      else if vr = ''SS'' then VRInt16List
      else if vr = ''FL'' then VRFloat32List
      else if vr = ''FD'' then VRFloat64List
      else if vr = ''SQ'' then VRSequence
      else VRStringList)"

definition sample_FindElementByTag :: "element list \<Rightarrow> tag \<Rightarrow> element option" where
  "sample_FindElementByTag elems t = find (\<lambda>elem. Tag elem = t) elems"

text \<open>The sample MustNewElement takes the VR from the dictionary and panics on an unknown tag.\<close>

definition sample_MustNewElement :: "tag \<Rightarrow> val \<Rightarrow> element option" where
  "sample_MustNewElement t v =
     (case sample_Find t of
        None \<Rightarrow> None
      | Some ti \<Rightarrow> Some (MkElement t (TagInfoVR ti) False [v]))"

definition sample_GetString :: "element \<Rightarrow> error + string" where
  "sample_GetString elem =
     (case Value elem of
        [VString s] \<Rightarrow> Inr s
      | _ \<Rightarrow> Inl (ErrExternal ''no single string value''))"

definition sample_ParseTransferSyntaxUID ::
  "string \<Rightarrow> error + (ByteOrder option \<times> IsImplicitVR)" where
  "sample_ParseTransferSyntaxUID uid =
     (if uid = ''1.2.840.10008.1.2'' then Inr (Some LittleEndian, ImplicitVR)
      else if uid = ''1.2.840.10008.1.2.1'' then Inr (Some LittleEndian, ExplicitVR)
      else if uid = ''1.2.840.10008.1.2.2'' then Inr (Some BigEndian, ExplicitVR)
      else Inl (ErrExternal ''unknown transfer syntax''))"

text \<open>
  The sample IsPrint covers the graphic ASCII characters and the runes from U+00A1 on;
  the sample Sprint is only reached for values that are neither strings, tags, uint32
  nor bytes.
\<close>

definition sample_IsPrint :: "nat \<Rightarrow> bool" where
  "sample_IsPrint r = ((0x20 \<le> r \<and> r \<le> 0x7E) \<or> 0xA1 \<le> r)"

definition sample_wenv :: "VRKind writer_env" where
  "sample_wenv =
     \<lparr>Find = sample_Find, GetVRKind = sample_GetVRKind, Sprint = (\<lambda>v. ''?''),
      NativeByteOrder = LittleEndian, FindElementByTag = sample_FindElementByTag,
      MustNewElement = sample_MustNewElement, GetString = sample_GetString,
      ParseTransferSyntaxUID = sample_ParseTransferSyntaxUID, IsPrint = sample_IsPrint\<rparr>"

definition sample_opts :: WriteOptSet where
  "sample_opts = \<lparr>SkipVRVerification = False\<rparr>"

definition sample_encoder :: encoder where
  "sample_encoder = NewBytesEncoder (Some LittleEndian) ExplicitVR"

text \<open>
  The Windows-1251 code page: ASCII below 0x80, the table below for 0x80..0xBF and the
  letters U+0410..U+044F from 0xC0 on. The KOI8-R code page: ASCII below 0x80 and the
  table below from 0x80 on. The tables of the other character maps are not reproduced;
  the sample decoder reports an error for them.
\<close>

definition win1251_high :: "nat list" where
  "win1251_high =
     [0x0402, 0x0403, 0x201A, 0x0453, 0x201E, 0x2026, 0x2020, 0x2021,
      0x20AC, 0x2030, 0x0409, 0x2039, 0x040A, 0x040C, 0x040B, 0x040F,
      0x0452, 0x2018, 0x2019, 0x201C, 0x201D, 0x2022, 0x2013, 0x2014,
      0xFFFD, 0x2122, 0x0459, 0x203A, 0x045A, 0x045C, 0x045B, 0x045F,
      0x00A0, 0x040E, 0x045E, 0x0408, 0x00A4, 0x0490, 0x00A6, 0x00A7,
      0x0401, 0x00A9, 0x0404, 0x00AB, 0x00AC, 0x00AD, 0x00AE, 0x0407,
      0x00B0, 0x00B1, 0x0406, 0x0456, 0x0491, 0x00B5, 0x00B6, 0x00B7,
      0x0451, 0x2116, 0x0454, 0x00BB, 0x0458, 0x0405, 0x0455, 0x0457]"

definition win1251_rune :: "nat \<Rightarrow> nat" where
  "win1251_rune b =
     (if b < 0x80 then b
      else if b < 0xC0 then win1251_high ! (b - 0x80)
      else 0x0410 + (b - 0xC0))"

definition koi8r_high :: "nat list" where
  "koi8r_high =
     [0x2500, 0x2502, 0x250C, 0x2510, 0x2514, 0x2518, 0x251C, 0x2524,
      0x252C, 0x2534, 0x253C, 0x2580, 0x2584, 0x2588, 0x258C, 0x2590,
      0x2591, 0x2592, 0x2593, 0x2320, 0x25A0, 0x2219, 0x221A, 0x2248,
      0x2264, 0x2265, 0x00A0, 0x2321, 0x00B0, 0x00B2, 0x00B7, 0x00F7,
      0x2550, 0x2551, 0x2552, 0x0451, 0x2553, 0x2554, 0x2555, 0x2556,
      0x2557, 0x2558, 0x2559, 0x255A, 0x255B, 0x255C, 0x255D, 0x255E,
      0x255F, 0x2560, 0x2561, 0x0401, 0x2562, 0x2563, 0x2564, 0x2565,
      0x2566, 0x2567, 0x2568, 0x2569, 0x256A, 0x256B, 0x256C, 0x00A9,
      0x044E, 0x0430, 0x0431, 0x0446, 0x0434, 0x0435, 0x0444, 0x0433,
      0x0445, 0x0438, 0x0439, 0x043A, 0x043B, 0x043C, 0x043D, 0x043E,
      0x043F, 0x044F, 0x0440, 0x0441, 0x0442, 0x0443, 0x0436, 0x0432,
      0x044C, 0x044B, 0x0437, 0x0448, 0x044D, 0x0449, 0x0447, 0x044A,
      0x042E, 0x0410, 0x0411, 0x0426, 0x0414, 0x0415, 0x0424, 0x0413,
      0x0425, 0x0418, 0x0419, 0x041A, 0x041B, 0x041C, 0x041D, 0x041E,
      0x041F, 0x042F, 0x0420, 0x0421, 0x0422, 0x0423, 0x0416, 0x0412,
      0x042C, 0x042B, 0x0417, 0x0428, 0x042D, 0x0429, 0x0427, 0x042A]"

definition koi8r_rune :: "nat \<Rightarrow> nat" where
  "koi8r_rune b = (if b < 0x80 then b else koi8r_high ! (b - 0x80))"

definition sample_charmap_String :: "Charmap \<Rightarrow> string \<Rightarrow> string option" where
  "sample_charmap_String cm s =
     (case cm of
        Windows1251 \<Rightarrow> Some (concat (map (\<lambda>c. EncodeRune (win1251_rune (of_char c))) s))
      | KOI8R \<Rightarrow> Some (concat (map (\<lambda>c. EncodeRune (koi8r_rune (of_char c))) s))
      | _ \<Rightarrow> None)"

text \<open>The sample ToUpper maps the ASCII letters, as strings.ToUpper does on ASCII strings.\<close>

definition sample_ToUpper :: "string \<Rightarrow> string" where
  "sample_ToUpper s =
     map (\<lambda>c. if (0x61::nat) \<le> of_char c \<and> of_char c \<le> (0x7A::nat)
              then char_of (of_char c - (32::nat)) else c) s"

text \<open>The sample htmlindex knows the encodings by these names and returns the name.\<close>

definition sample_htmlindex_Get :: "string \<Rightarrow> string option" where
  "sample_htmlindex_Get name =
     (if name \<in> set [''utf-8'', ''iso-8859-1'', ''iso-8859-2'', ''iso-8859-3'', ''iso-8859-4'',
                      ''shift_jis'', ''euc-kr'', ''iso-2022-jp'', ''gb18030'']
      then Some name else None)"

definition sample_cenv :: "string charset_env" where
  "sample_cenv =
     \<lparr>htmlindex_Get = sample_htmlindex_Get, ToUpper = sample_ToUpper,
      charmap_String = sample_charmap_String\<rparr>"

text \<open>
  The sample ReadElement is a toy reader: it consumes one byte, which selects a
  SpecificCharacterSet element (1), a PatientName element (2) or a parse error. The
  bytes of the name are decoded with the installed ideographic decoder when it is one
  of the tabulated character maps, and passed through otherwise. The sample
  ParseFileHeader consumes nothing and returns three meta elements.
\<close>

definition sample_meta :: "element list" where
  "sample_meta =
     [MkElement MediaStorageSOPClassUID ''UI'' False [VString ''1.2''],
      MkElement MediaStorageSOPInstanceUID ''UI'' False [VString ''1.3''],
      MkElement TransferSyntaxUID ''UI'' False [VString ''1.2.840.10008.1.2.1'']]"

definition sample_charset_elem :: element where
  "sample_charset_elem = MkElement SpecificCharacterSet ''CS'' False [VString ''WINDOWS-1251'']"

definition sample_name_bytes :: string where
  "sample_name_bytes = [CHR 0xD0, CHR 0xE5, CHR 0xF2, CHR 0xF0]"

definition sample_decode_text :: "string decoder \<Rightarrow> string \<Rightarrow> string" where
  "sample_decode_text d raw =
     (case Ideographic (codingSystem d) of
        Some (CharmapDecoder cm) \<Rightarrow>
          (case sample_charmap_String cm raw of Some s \<Rightarrow> s | None \<Rightarrow> raw)
      | _ \<Rightarrow> raw)"

definition sample_name_elem :: "string \<Rightarrow> element" where
  "sample_name_elem s = MkElement \<lparr>Group = 0x0010, Element = 0x0010\<rparr> ''PN'' False [VString s]"

definition sample_ReadElement ::
  "ReadOptions \<Rightarrow> string decoder \<Rightarrow> read_result \<times> string decoder" where
  "sample_ReadElement options d =
     (case input d of
        [] \<Rightarrow> (NilElement, DSetError d (ErrExternal ''unexpected end of input''))
      | b # rest \<Rightarrow>
          (if b = 1 then ReadElem sample_charset_elem
           else if b = 2 then ReadElem (sample_name_elem (sample_decode_text d sample_name_bytes))
           else NilElement,
           d\<lparr>input := rest, bytesRead := bytesRead d + 1\<rparr>))"

definition sample_GetStrings :: "element \<Rightarrow> error + string list" where
  "sample_GetStrings elem =
     (if list_all (\<lambda>v. case v of VString s \<Rightarrow> True | _ \<Rightarrow> False) (Value elem)
      then Inr (map (\<lambda>v. case v of VString s \<Rightarrow> s | _ \<Rightarrow> '''') (Value elem))
      else Inl (ErrExternal ''string value not found''))"

definition sample_renv :: "(VRKind, string) reader_env" where
  "sample_renv =
     \<lparr>wenv = sample_wenv, cenv = sample_cenv, ReadElement = sample_ReadElement,
      ParseFileHeader = (\<lambda>d. (sample_meta, d)), GetStrings = sample_GetStrings\<rparr>"

definition sample_options :: ReadOptions where
  "sample_options =
     \<lparr>DropPixelData = False, ReturnTags = Some [\<lparr>Group = 0x0010, Element = 0x0010\<rparr>],
      StopAtTag = None, CP1250Fix = False, DefaultCyrillicEncoding = ''''\<rparr>"

text \<open>The decoder on which the loop of ReadDataSet starts for the input \<open>inp\<close>.\<close>

definition sample_loop_decoder :: "byte list \<Rightarrow> string decoder" where
  "sample_loop_decoder inp =
     DPushTransferSyntax (NewDecoder inp (Some LittleEndian) ExplicitVR)
       (Some LittleEndian) ExplicitVR"

definition sample_cs :: "string CodingSystem" where
  "sample_cs =
     \<lparr>Alphabetic = Some (CharmapDecoder Windows1251),
      Ideographic = Some (CharmapDecoder Windows1251),
      Phonetic = Some (CharmapDecoder Windows1251)\<rparr>"

text \<open>
  The decoders of two sample runs: on the input 1, 2 (a SpecificCharacterSet element,
  then a PatientName element) and on the input 2 (a PatientName element alone).
\<close>

definition sample_decoder :: "string decoder" where
  "sample_decoder = sample_loop_decoder [1, 2]"

definition sample_decoder1 :: "string decoder" where
  "sample_decoder1 = sample_decoder\<lparr>input := [2], bytesRead := 1\<rparr>"

definition sample_decoder2 :: "string decoder" where
  "sample_decoder2 = (SetCodingSystem sample_decoder1 sample_cs)\<lparr>input := [], bytesRead := 2\<rparr>"

definition sample_name_decoder :: "string decoder" where
  "sample_name_decoder = sample_loop_decoder [2]"

definition sample_name_decoder1 :: "string decoder" where
  "sample_name_decoder1 = sample_name_decoder\<lparr>input := [], bytesRead := 1\<rparr>"

text \<open>
  A sample data set: the three meta elements above, a PatientName, a private element of
  the odd group 0x0011 and a PatientID.
\<close>

definition sample_PatientName :: element where
  "sample_PatientName =
     MkElement \<lparr>Group = 0x0010, Element = 0x0010\<rparr> ''PN'' False [VString ''A^B'']"

definition sample_private :: element where
  "sample_private = MkElement \<lparr>Group = 0x0011, Element = 0x0010\<rparr> ''LO'' False [VString ''X'']"

definition sample_PatientID :: element where
  "sample_PatientID =
     MkElement \<lparr>Group = 0x0010, Element = 0x0020\<rparr> ''LO'' False [VString ''42'']"

definition sample_ds :: "element list" where
  "sample_ds = sample_meta @ [sample_PatientName, sample_private, sample_PatientID]"

text \<open>The bytes of the meta block of the sample, element by element.\<close>

definition sample_meta_bytes :: "byte list" where
  "sample_meta_bytes =
     [0x02, 0x00, 0x01, 0x00, 0x4F, 0x42, 0x00, 0x00, 0x04, 0x00, 0x00, 0x00] @ padded 0 ''0 1''
     @ [0x02, 0x00, 0x02, 0x00, 0x55, 0x49, 0x04, 0x00] @ padded 0 ''1.2''
     @ [0x02, 0x00, 0x03, 0x00, 0x55, 0x49, 0x04, 0x00] @ padded 0 ''1.3''
     @ [0x02, 0x00, 0x10, 0x00, 0x55, 0x49, 0x14, 0x00] @ padded 0 ''1.2.840.10008.1.2.1''
     @ [0x02, 0x00, 0x12, 0x00, 0x55, 0x49, 0x1E, 0x00] @ padded 0 ''1.2.826.0.1.3680043.9.7133.1.1''
     @ [0x02, 0x00, 0x13, 0x00, 0x53, 0x48, 0x0C, 0x00] @ padded 0x20 ''GODICOM_1_1''"

definition sample_meta_encoder :: encoder where
  "sample_meta_encoder =
     (NewBytesEncoder (Some LittleEndian) ExplicitVR)\<lparr>out := sample_meta_bytes\<rparr>"

definition sample_header_bytes :: "byte list" where
  "sample_header_bytes =
     replicate 128 0 @ bytes_of ''DICM''
     @ [0x02, 0x00, 0x00, 0x00, 0x55, 0x4C, 0x04, 0x00, 0x7E, 0x00, 0x00, 0x00]
     @ sample_meta_bytes"

definition sample_file_encoder :: encoder where
  "sample_file_encoder =
     \<lparr>out = [], err = None, bo = None, implicit = UnknownVR, oldTransferSyntaxes = []\<rparr>"

section \<open>Properties of the character-set code\<close>






text \<open>
  C7. The coding system is filled by the number of names: none gives three nil
  decoders, one name gives its decoder in all three slots, two names give (a, b, b) and
  three names give (a, b, c), where the decoder of a name is the one the loop body
  computes for it.
\<close>

theorem ParseSpecificCharacterSet_triple:
  "fst (fst (ParseSpecificCharacterSet env [] fix)) =
     \<lparr>Alphabetic = None, Ideographic = None, Phonetic = None\<rparr> \<and>
   fst (fst (ParseSpecificCharacterSet env [a] fix)) =
     \<lparr>Alphabetic = fst (parse_charset_name env fix a),
      Ideographic = fst (parse_charset_name env fix a),
      Phonetic = fst (parse_charset_name env fix a)\<rparr> \<and>
   fst (fst (ParseSpecificCharacterSet env [a, b] fix)) =
     \<lparr>Alphabetic = fst (parse_charset_name env fix a),
      Ideographic = fst (parse_charset_name env fix b),
      Phonetic = fst (parse_charset_name env fix b)\<rparr> \<and>
   fst (fst (ParseSpecificCharacterSet env [a, b, c] fix)) =
     \<lparr>Alphabetic = fst (parse_charset_name env fix a),
      Ideographic = fst (parse_charset_name env fix b),
      Phonetic = fst (parse_charset_name env fix c)\<rparr>"
  by (simp add: ParseSpecificCharacterSet_def Let_def)

lemma sample_decoders:
  "fst (parse_charset_name sample_cenv False ''ISO_IR 144'') = Some (CharmapDecoder ISO8859_5)"
  "fst (parse_charset_name sample_cenv False ''ISO_IR 192'') = Some (HtmlDecoder ''utf-8'')"
  "fst (parse_charset_name sample_cenv False ''win1251'') = Some (CharmapDecoder Windows1251)"
  by (simp_all add: parse_charset_name_def htmlEncodingNames_def getCustomDecoder_def
      tryAlternativeEncodings_def alternatives_def sample_cenv_def sample_ToUpper_def
      sample_htmlindex_Get_def Fields_def TrimSpace_def rune_is_space_def IsSpace_def
      rune_bytes_def Let_def char_of_def bit_iff_odd)

theorem ParseSpecificCharacterSet_triple_witness:
  "fst (fst (ParseSpecificCharacterSet sample_cenv [''ISO_IR 144''] False)) =
     \<lparr>Alphabetic = Some (CharmapDecoder ISO8859_5),
      Ideographic = Some (CharmapDecoder ISO8859_5),
      Phonetic = Some (CharmapDecoder ISO8859_5)\<rparr> \<and>
   fst (fst (ParseSpecificCharacterSet sample_cenv [''ISO_IR 144'', ''ISO_IR 192''] False)) =
     \<lparr>Alphabetic = Some (CharmapDecoder ISO8859_5),
      Ideographic = Some (HtmlDecoder ''utf-8''),
      Phonetic = Some (HtmlDecoder ''utf-8'')\<rparr> \<and>
   fst (fst (ParseSpecificCharacterSet sample_cenv
              [''ISO_IR 144'', ''ISO_IR 192'', ''win1251''] False)) =
     \<lparr>Alphabetic = Some (CharmapDecoder ISO8859_5),
      Ideographic = Some (HtmlDecoder ''utf-8''),
      Phonetic = Some (CharmapDecoder Windows1251)\<rparr>"
  using ParseSpecificCharacterSet_triple
    [of sample_cenv False "''ISO_IR 144''" "''ISO_IR 192''" "''win1251''"]
  by (simp add: sample_decoders)

section \<open>Properties of the Cyrillic auto-detection\<close>

lemma sample_latin_valid: "ValidString [CHR 0xC3, CHR 0xBF]"
  by (simp add: ValidString_def first_info_def)

lemma sample_latin_garbage: "containsGarbage [CHR 0xC3, CHR 0xBF]"
  by (simp add: containsGarbage_def totalRunes_def garbageCount_def garbage_of_def first_info_def)

text \<open>
  C10. detectCyrillicEncoding returns a valid UTF-8 string unchanged, whatever the
  default encoding, and the auto-detection step of ReadDataSet leaves an element whose
  first value is such a string as it is, even when the garbage heuristic flags it.
\<close>

theorem detectCyrillicEncoding_valid_utf8:
  "ValidString text \<Longrightarrow>
     detectCyrillicEncoding chenv text defaultEncoding = text \<and>
     autodetect env options charsetSet (MkElement t vr undef (VString text # rest)) =
       MkElement t vr undef (VString text # rest)"
  by (simp add: detectCyrillicEncoding_def autodetect_def)

theorem detectCyrillicEncoding_valid_utf8_witness:
  "ValidString [CHR 0xC3, CHR 0xBF] \<and> containsGarbage [CHR 0xC3, CHR 0xBF] \<and>
   detectCyrillicEncoding sample_cenv [CHR 0xC3, CHR 0xBF] ''windows-1251'' =
     [CHR 0xC3, CHR 0xBF] \<and>
   autodetect sample_renv sample_options False (sample_name_elem [CHR 0xC3, CHR 0xBF]) =
     sample_name_elem [CHR 0xC3, CHR 0xBF]"
  using detectCyrillicEncoding_valid_utf8 [OF sample_latin_valid, of sample_cenv
      "''windows-1251''" sample_renv sample_options False
      "\<lparr>Group = 0x0010, Element = 0x0010\<rparr>" "''PN''" False "[]"]
    sample_latin_valid sample_latin_garbage
  by (simp add: sample_name_elem_def)

section \<open>Properties of the loop of ReadDataSet\<close>

lemma Tag_autodetect: "Tag (autodetect env options cs elem) = Tag elem"
  by (simp add: autodetect_def Let_def split: list.splits val.splits)

lemma Tag_split_ds: "Tag (split_ds elem) = Tag elem"
  by (simp add: split_ds_def processMultiValueDSElement_def split: list.splits val.splits)

lemma Tag_clean_element: "Tag (clean_element env elem) = Tag elem"
  by (simp add: clean_element_def)

lemma install_charset_ok:
  "Tag elem = SpecificCharacterSet \<Longrightarrow> GetCleanStrings env elem = Inr names \<Longrightarrow>
   install_charset env options elem (buffer, charsetSet) =
     (SetCodingSystem buffer
        (fst (fst (ParseSpecificCharacterSet (cenv env) names (CP1250Fix options)))),
      True)"
  by (simp add: install_charset_def ParseSpecificCharacterSet_def Let_def)

lemma append_element_ReturnTags:
  "ReturnTags options = Some tags \<Longrightarrow>
   append_element env options elem (file @ returned_elements env tags seen) =
     file @ returned_elements env tags (seen @ [elem])"
  by (simp add: append_element_def tagInList_def returned_elements_def)

text \<open>
  Under a ReturnTags list the loop of ReadDataSet keeps, of the elements read, those
  whose tag is in the list; the decoder, a panic and the end of the loop are those of
  the loop that collects every element.
\<close>

lemma loop_elements_read:
  assumes "ReturnTags options = Some tags"
  shows "ReadDataSet_loop fuel env options buffer charsetSet
           (file @ returned_elements env tags seen) =
         (case elements_read fuel env options buffer charsetSet seen of
            None \<Rightarrow> None
          | Some Panicked \<Rightarrow> Some Panicked
          | Some (Returned (seen', buffer')) \<Rightarrow>
              Some (Returned (file @ returned_elements env tags seen', buffer')))"
proof (induction fuel arbitrary: buffer charsetSet seen)
  case 0
  show ?case by simp
next
  case (Suc n)
  show ?case
  proof (cases "EOF buffer")
    case True
    then show ?thesis by simp
  next
    case False
    obtain r buffer1 where re: "ReadElement env options buffer = (r, buffer1)"
      by (cases "ReadElement env options buffer")
    show ?thesis
    proof (cases "BytesRead buffer1 \<le> BytesRead buffer")
      case True
      with False re show ?thesis by simp
    next
      case progress: False
      show ?thesis
      proof (cases r)
        case EndOfDataElement
        with False re progress show ?thesis by simp
      next
        case NilElement
        with False re progress Suc.IH [of buffer1 charsetSet seen] show ?thesis by simp
      next
        case (ReadElem elem)
        obtain buffer2 cs2 where ic:
          "install_charset env options elem (buffer1, charsetSet) = (buffer2, cs2)"
          by (cases "install_charset env options elem (buffer1, charsetSet)")
        have body: "ReadDataSet_body env options elem
            (buffer1, charsetSet, file @ returned_elements env tags seen) =
            (buffer2, cs2, file @ returned_elements env tags
               (seen @ [split_ds (autodetect env options cs2 elem)]))"
          by (simp add: ReadDataSet_body_def ic append_element_ReturnTags [OF assms])
        from False re progress ReadElem ic body
          Suc.IH [of buffer2 cs2 "seen @ [split_ds (autodetect env options cs2 elem)]"]
        show ?thesis by simp
      qed
    qed
  qed
qed

lemma loop_step:
  assumes "\<not> EOF buffer0" "ReadElement env options buffer0 = (ReadElem elem, buffer1)"
    "BytesRead buffer0 < BytesRead buffer1"
    "install_charset env options elem (buffer1, charsetSet) = (buffer2, charsetSet2)"
  shows "ReadDataSet_loop (Suc n) env options buffer0 charsetSet file =
         ReadDataSet_loop n env options buffer2 charsetSet2
           (append_element env options (split_ds (autodetect env options charsetSet2 elem)) file)"
  using assms by (simp add: ReadDataSet_body_def)

lemma ReadDataSet_unfold:
  assumes "ParseFileHeader env (NewDecoder inp (Some LittleEndian) ExplicitVR) = (metaElems, buffer)"
    "derr buffer = None" "getTransferSyntax (wenv env) metaElems = Inr (endian, impl)"
  shows "ReadDataSet fuel env inp options =
    (case ReadDataSet_loop fuel env options (DPushTransferSyntax buffer endian impl) False
            metaElems of
       None \<Rightarrow> None
     | Some Panicked \<Rightarrow> Some Panicked
     | Some (Returned (file, buffer1)) \<Rightarrow> Some (Returned (Some file, derr buffer1)))"
  using assms by (simp add: ReadDataSet_def)

text \<open>
  C9. Let ReturnTags be a list. When the file header and the transfer syntax have been
  read, the data set that ReadDataSet returns consists of the meta elements of the
  header followed by, of the elements that the loop reads, exactly those whose tag is in
  the list, in their order, each cleaned; the decoder, a panic and the lack of fuel are
  those of the loop that collects every element, which does not look at the list. In
  one iteration, whatever the element, the loop goes on with the decoder and the flag
  that step 1 leaves and has appended the element exactly when its tag is in the list.
  Step 1 installs the parsed coding system of a SpecificCharacterSet element whose
  strings can be read, whether or not its tag is in the list, so every later call of
  ReadElement runs on a decoder on which that coding system has been installed.
\<close>

theorem ReturnTags_filter_keeps_charset:
  "ReturnTags options = Some tags \<Longrightarrow>
   (ParseFileHeader env (NewDecoder inp (Some LittleEndian) ExplicitVR) = (metaElems, buffer) \<longrightarrow>
    derr buffer = None \<longrightarrow> getTransferSyntax (wenv env) metaElems = Inr (endian, impl) \<longrightarrow>
      ReadDataSet fuel env inp options =
        (case elements_read fuel env options (DPushTransferSyntax buffer endian impl) False [] of
           None \<Rightarrow> None
         | Some Panicked \<Rightarrow> Some Panicked
         | Some (Returned (seen, buffer')) \<Rightarrow>
             Some (Returned
               (Some (metaElems @ map (clean_element env)
                                    (filter (\<lambda>elem. Tag elem \<in> set tags) seen)),
                derr buffer')))) \<and>
   (\<not> EOF buffer0 \<longrightarrow> ReadElement env options buffer0 = (ReadElem elem, buffer1) \<longrightarrow>
    BytesRead buffer0 < BytesRead buffer1 \<longrightarrow>
    install_charset env options elem (buffer1, charsetSet) = (buffer2, charsetSet2) \<longrightarrow>
      ReadDataSet_loop (Suc n) env options buffer0 charsetSet file =
        ReadDataSet_loop n env options buffer2 charsetSet2
          (if Tag elem \<in> set tags
           then file @ [clean_element env (split_ds (autodetect env options charsetSet2 elem))]
           else file) \<and>
      Tag (clean_element env (split_ds (autodetect env options charsetSet2 elem))) = Tag elem) \<and>
   (Tag elem = SpecificCharacterSet \<longrightarrow> GetCleanStrings env elem = Inr names \<longrightarrow>
      install_charset env options elem (buffer1, charsetSet) =
        (SetCodingSystem buffer1
           (fst (fst (ParseSpecificCharacterSet (cenv env) names (CP1250Fix options)))),
         True))"
proof (intro conjI impI)
  assume rt: "ReturnTags options = Some tags"
  {
    assume h: "ParseFileHeader env (NewDecoder inp (Some LittleEndian) ExplicitVR) =
        (metaElems, buffer)" "derr buffer = None"
      "getTransferSyntax (wenv env) metaElems = Inr (endian, impl)"
    have "ReadDataSet_loop fuel env options (DPushTransferSyntax buffer endian impl) False
            (metaElems @ returned_elements env tags []) =
         (case elements_read fuel env options (DPushTransferSyntax buffer endian impl) False [] of
            None \<Rightarrow> None
          | Some Panicked \<Rightarrow> Some Panicked
          | Some (Returned (seen', buffer')) \<Rightarrow>
              Some (Returned (metaElems @ returned_elements env tags seen', buffer')))"
      by (rule loop_elements_read [OF rt])
    then show "ReadDataSet fuel env inp options =
        (case elements_read fuel env options (DPushTransferSyntax buffer endian impl) False [] of
           None \<Rightarrow> None
         | Some Panicked \<Rightarrow> Some Panicked
         | Some (Returned (seen, buffer')) \<Rightarrow>
             Some (Returned
               (Some (metaElems @ map (clean_element env)
                                    (filter (\<lambda>elem. Tag elem \<in> set tags) seen)),
                derr buffer')))"
      unfolding ReadDataSet_unfold [OF h]
      by (simp add: returned_elements_def split: option.splits outcome.splits)
  }
  {
    assume s: "\<not> EOF buffer0" "ReadElement env options buffer0 = (ReadElem elem, buffer1)"
      "BytesRead buffer0 < BytesRead buffer1"
      "install_charset env options elem (buffer1, charsetSet) = (buffer2, charsetSet2)"
    show "ReadDataSet_loop (Suc n) env options buffer0 charsetSet file =
        ReadDataSet_loop n env options buffer2 charsetSet2
          (if Tag elem \<in> set tags
           then file @ [clean_element env (split_ds (autodetect env options charsetSet2 elem))]
           else file)"
      unfolding loop_step [OF s]
      by (simp add: append_element_def rt tagInList_def Tag_split_ds Tag_autodetect)
    show "Tag (clean_element env (split_ds (autodetect env options charsetSet2 elem))) = Tag elem"
      by (simp add: Tag_clean_element Tag_split_ds Tag_autodetect)
  }
  {
    assume "Tag elem = SpecificCharacterSet" "GetCleanStrings env elem = Inr names"
    then show "install_charset env options elem (buffer1, charsetSet) =
        (SetCodingSystem buffer1
           (fst (fst (ParseSpecificCharacterSet (cenv env) names (CP1250Fix options)))),
         True)"
      by (rule install_charset_ok)
  }
qed

lemmas meta_tag_defs = FileMetaInformationGroupLength_def
  FileMetaInformationVersion_def MediaStorageSOPClassUID_def MediaStorageSOPInstanceUID_def
  TransferSyntaxUID_def ImplementationClassUID_def ImplementationVersionName_def
  SpecificCharacterSet_def

lemma sample_name_decoded:
  "sample_charmap_String Windows1251 sample_name_bytes =
     Some [CHR 0xD0, CHR 0xA0, CHR 0xD0, CHR 0xB5, CHR 0xD1, CHR 0x82, CHR 0xD1, CHR 0x80]"
  by (simp add: sample_charmap_String_def sample_name_bytes_def win1251_rune_def EncodeRune_def
      char_of_def bit_iff_odd)

lemma sample_name_koi8r:
  "sample_charmap_String KOI8R sample_name_bytes =
     Some [CHR 0xD0, CHR 0xBF, CHR 0xD0, CHR 0x95, CHR 0xD0, CHR 0xA0, CHR 0xD0, CHR 0x9F]"
  by (simp add: sample_charmap_String_def sample_name_bytes_def koi8r_rune_def koi8r_high_def
      EncodeRune_def char_of_def bit_iff_odd)

lemma sample_uid_clean:
  "FilterNonPrintable sample_IsPrint ''1.2.840.10008.1.2.1'' = ''1.2.840.10008.1.2.1''"
  by (simp add: FilterNonPrintable_def sample_IsPrint_def EncodeRune_def char_of_def bit_iff_odd)

lemma sample_meta_syntax:
  "getTransferSyntax (wenv sample_renv) sample_meta = Inr (Some LittleEndian, ExplicitVR)"
proof -
  have f: "FindElementByTag sample_wenv sample_meta TransferSyntaxUID =
     Some (MkElement TransferSyntaxUID ''UI'' False [VString ''1.2.840.10008.1.2.1''])"
    by (simp add: sample_wenv_def sample_FindElementByTag_def sample_meta_def meta_tag_defs)
  have g: "GetCleanString sample_wenv
      (MkElement TransferSyntaxUID ''UI'' False [VString ''1.2.840.10008.1.2.1'']) =
      Inr ''1.2.840.10008.1.2.1''"
    by (simp add: GetCleanString_def sample_wenv_def sample_GetString_def sample_uid_clean)
  have p: "ParseTransferSyntaxUID sample_wenv ''1.2.840.10008.1.2.1'' =
      Inr (Some LittleEndian, ExplicitVR)"
    by (simp add: sample_wenv_def sample_ParseTransferSyntaxUID_def)
  have w: "wenv sample_renv = sample_wenv" by (simp add: sample_renv_def)
  show ?thesis
    by (simp add: w getTransferSyntax_def f g p)
qed

lemma sample_header:
  "ParseFileHeader sample_renv (NewDecoder inp (Some LittleEndian) ExplicitVR) =
     (sample_meta, NewDecoder inp (Some LittleEndian) ExplicitVR)"
  "derr (NewDecoder inp (Some LittleEndian) ExplicitVR :: string decoder) = None"
  by (simp_all add: sample_renv_def NewDecoder_def)

lemma sample_env_fields:
  "ReadElement sample_renv = sample_ReadElement" "wenv sample_renv = sample_wenv"
  "cenv sample_renv = sample_cenv" "GetStrings sample_renv = sample_GetStrings"
  "IsPrint (wenv sample_renv) = sample_IsPrint"
  by (simp_all add: sample_renv_def sample_wenv_def)

lemma sample_read:
  "input d = 1 # rest \<Longrightarrow>
   sample_ReadElement options d =
     (ReadElem sample_charset_elem, d\<lparr>input := rest, bytesRead := bytesRead d + 1\<rparr>)"
  "input d = 2 # rest \<Longrightarrow>
   sample_ReadElement options d =
     (ReadElem (sample_name_elem (sample_decode_text d sample_name_bytes)),
      d\<lparr>input := rest, bytesRead := bytesRead d + 1\<rparr>)"
  by (simp_all add: sample_ReadElement_def)

lemma sample_clean_ascii:
  "FilterNonPrintable sample_IsPrint ''WINDOWS-1251'' = ''WINDOWS-1251''"
  by (simp add: FilterNonPrintable_def sample_IsPrint_def EncodeRune_def char_of_def bit_iff_odd)

lemma sample_clean_name:
  "FilterNonPrintable sample_IsPrint
     [CHR 0xD0, CHR 0xA0, CHR 0xD0, CHR 0xB5, CHR 0xD1, CHR 0x82, CHR 0xD1, CHR 0x80] =
     [CHR 0xD0, CHR 0xA0, CHR 0xD0, CHR 0xB5, CHR 0xD1, CHR 0x82, CHR 0xD1, CHR 0x80]"
  by (simp add: FilterNonPrintable_def sample_IsPrint_def first_info_def EncodeRune_def
      char_of_def bit_iff_odd)

lemma sample_clean_koi8r:
  "FilterNonPrintable sample_IsPrint
     [CHR 0xD0, CHR 0xBF, CHR 0xD0, CHR 0x95, CHR 0xD0, CHR 0xA0, CHR 0xD0, CHR 0x9F] =
     [CHR 0xD0, CHR 0xBF, CHR 0xD0, CHR 0x95, CHR 0xD0, CHR 0xA0, CHR 0xD0, CHR 0x9F]"
  by (simp add: FilterNonPrintable_def sample_IsPrint_def first_info_def EncodeRune_def
      char_of_def bit_iff_odd)

lemma sample_charset_strings:
  "GetCleanStrings sample_renv sample_charset_elem = Inr [''WINDOWS-1251'']"
  by (simp add: GetCleanStrings_def sample_renv_def sample_GetStrings_def sample_charset_elem_def
      sample_wenv_def sample_clean_ascii)

lemma sample_charset_parsed:
  "fst (fst (ParseSpecificCharacterSet sample_cenv [''WINDOWS-1251''] False)) = sample_cs"
  by (simp add: ParseSpecificCharacterSet_def parse_charset_name_def htmlEncodingNames_def
      getCustomDecoder_def Fields_def TrimSpace_def rune_is_space_def IsSpace_def
      rune_bytes_def Let_def sample_cs_def)

lemma sample_install:
  "install_charset sample_renv sample_options sample_charset_elem (d, cs) =
     (SetCodingSystem d sample_cs, True)"
proof -
  have t: "Tag sample_charset_elem = SpecificCharacterSet"
    by (simp add: sample_charset_elem_def)
  show ?thesis
    using install_charset_ok [OF t sample_charset_strings, of sample_options d cs]
    by (simp add: sample_env_fields sample_options_def sample_charset_parsed)
qed

lemma sample_name_no_charset:
  "install_charset sample_renv options (sample_name_elem s) (d, cs) = (d, cs)"
  by (simp add: install_charset_def sample_name_elem_def SpecificCharacterSet_def)

lemma sample_split:
  "split_ds (sample_name_elem s) = sample_name_elem s"
  "split_ds sample_charset_elem = sample_charset_elem"
  by (simp_all add: split_ds_def sample_name_elem_def sample_charset_elem_def)

lemma sample_installed_text:
  "sample_decode_text (SetCodingSystem d sample_cs) sample_name_bytes =
     [CHR 0xD0, CHR 0xA0, CHR 0xD0, CHR 0xB5, CHR 0xD1, CHR 0x82, CHR 0xD1, CHR 0x80]"
  by (simp add: sample_decode_text_def SetCodingSystem_def sample_cs_def sample_name_decoded)

lemma sample_raw_text:
  "sample_decode_text (sample_loop_decoder inp) raw = raw"
  "sample_decode_text sample_name_decoder raw = raw"
  by (simp_all add: sample_decode_text_def sample_name_decoder_def sample_loop_decoder_def
      DPushTransferSyntax_def NewDecoder_def)

lemma sample_loop_decoder_fields:
  "input (sample_loop_decoder inp) = inp" "bytesRead (sample_loop_decoder inp) = 0"
  "derr (sample_loop_decoder inp) = None"
  by (simp_all add: sample_loop_decoder_def DPushTransferSyntax_def NewDecoder_def)

text \<open>
  The sample run: the input selects a SpecificCharacterSet element (WINDOWS-1251) and a
  PatientName element, and only the tag of PatientName is in ReturnTags.
\<close>

lemma sample_reads:
  "ReadElement sample_renv sample_options sample_decoder =
     (ReadElem sample_charset_elem, sample_decoder1)"
  "ReadElement sample_renv sample_options (SetCodingSystem sample_decoder1 sample_cs) =
     (ReadElem (sample_name_elem
        [CHR 0xD0, CHR 0xA0, CHR 0xD0, CHR 0xB5, CHR 0xD1, CHR 0x82, CHR 0xD1, CHR 0x80]),
      sample_decoder2)"
proof -
  show "ReadElement sample_renv sample_options sample_decoder =
     (ReadElem sample_charset_elem, sample_decoder1)"
    using sample_read(1) [of sample_decoder "[2]" sample_options]
    by (simp add: sample_env_fields sample_decoder_def sample_decoder1_def
        sample_loop_decoder_fields)
  show "ReadElement sample_renv sample_options (SetCodingSystem sample_decoder1 sample_cs) =
     (ReadElem (sample_name_elem
        [CHR 0xD0, CHR 0xA0, CHR 0xD0, CHR 0xB5, CHR 0xD1, CHR 0x82, CHR 0xD1, CHR 0x80]),
      sample_decoder2)"
    using sample_read(2) [of "SetCodingSystem sample_decoder1 sample_cs" "[]" sample_options]
    by (simp add: sample_env_fields sample_installed_text sample_decoder2_def)
      (simp add: SetCodingSystem_def sample_decoder1_def)
qed

lemma sample_progress:
  "\<not> EOF sample_decoder" "\<not> EOF (SetCodingSystem sample_decoder1 sample_cs)"
  "EOF sample_decoder2"
  "BytesRead sample_decoder < BytesRead sample_decoder1"
  "BytesRead (SetCodingSystem sample_decoder1 sample_cs) < BytesRead sample_decoder2"
  "derr sample_decoder2 = None"
  "\<not> BytesRead sample_decoder1 \<le> BytesRead sample_decoder"
  "\<not> BytesRead sample_decoder2 \<le> BytesRead (SetCodingSystem sample_decoder1 sample_cs)"
  by (simp_all add: EOF_def BytesRead_def SetCodingSystem_def sample_decoder2_def
      sample_decoder1_def sample_decoder_def sample_loop_decoder_fields)

lemma elements_read_step:
  assumes "\<not> EOF buffer0" "ReadElement env options buffer0 = (ReadElem elem, buffer1)"
    "BytesRead buffer0 < BytesRead buffer1"
    "install_charset env options elem (buffer1, charsetSet) = (buffer2, charsetSet2)"
  shows "elements_read (Suc n) env options buffer0 charsetSet seen =
         elements_read n env options buffer2 charsetSet2
           (seen @ [split_ds (autodetect env options charsetSet2 elem)])"
  using assms by simp

lemma elements_read_EOF:
  "EOF buffer \<Longrightarrow>
   elements_read (Suc n) env options buffer charsetSet seen = Some (Returned (seen, buffer))"
  by simp

lemma loop_EOF:
  "EOF buffer \<Longrightarrow>
   ReadDataSet_loop (Suc n) env options buffer charsetSet file = Some (Returned (file, buffer))"
  by simp

lemma sample_elements_read:
  "elements_read 3 sample_renv sample_options sample_decoder False [] =
     Some (Returned
       ([sample_charset_elem,
         sample_name_elem
           [CHR 0xD0, CHR 0xA0, CHR 0xD0, CHR 0xB5, CHR 0xD1, CHR 0x82, CHR 0xD1, CHR 0x80]],
        sample_decoder2))"
proof -
  let ?d1 = "SetCodingSystem sample_decoder1 sample_cs"
  let ?name = "sample_name_elem
           [CHR 0xD0, CHR 0xA0, CHR 0xD0, CHR 0xB5, CHR 0xD1, CHR 0x82, CHR 0xD1, CHR 0x80]"
  have a: "autodetect sample_renv sample_options True elem = elem" for elem
    by (simp add: autodetect_def)
  have "elements_read (Suc (Suc (Suc 0))) sample_renv sample_options sample_decoder False [] =
      elements_read (Suc (Suc 0)) sample_renv sample_options ?d1 True [sample_charset_elem]"
    using elements_read_step [OF sample_progress(1) sample_reads(1) sample_progress(4)
        sample_install, where n = "Suc (Suc 0)" and seen = "[]" and charsetSet = False]
    by (simp add: a sample_split del: elements_read.simps)
  also have "\<dots> = elements_read (Suc 0) sample_renv sample_options sample_decoder2 True
      [sample_charset_elem, ?name]"
    using elements_read_step [OF sample_progress(2) sample_reads(2) sample_progress(5)
        sample_name_no_charset, where n = "Suc 0" and seen = "[sample_charset_elem]"
          and charsetSet = True]
    by (simp add: a sample_split del: elements_read.simps)
  also have "\<dots> = Some (Returned ([sample_charset_elem, ?name], sample_decoder2))"
    by (rule elements_read_EOF [OF sample_progress(3)])
  finally have s3:
    "elements_read (Suc (Suc (Suc 0))) sample_renv sample_options sample_decoder False [] =
      Some (Returned ([sample_charset_elem, ?name], sample_decoder2))" .
  show ?thesis unfolding numeral_3_eq_3 by (rule s3)
qed

text \<open>
  For a text that is not valid UTF-8, the two loops of detectCyrillicEncoding search
  the priority list of the specification.
\<close>

lemma detect_first_accepted:
  assumes "\<not> ValidString text"
  shows "detectCyrillicEncoding env text d =
         (case first_accepted env (candidates d) text of Some decoded \<Rightarrow> decoded | None \<Rightarrow> text)"
proof -
  consider "d = ''windows-1251''" | "d = ''koi8-r''" | "d = ''iso-8859-5''" | "d = ''cp866''"
    | "d \<noteq> ''windows-1251''" "d \<noteq> ''koi8-r''" "d \<noteq> ''iso-8859-5''" "d \<noteq> ''cp866''"
    by blast
  then show ?thesis
  proof cases
    case 1
    then show ?thesis using assms
      by (simp add: detectCyrillicEncoding_def encodings_def candidates_def split: option.splits)
  next
    case 2
    then show ?thesis using assms
      by (simp add: detectCyrillicEncoding_def encodings_def candidates_def split: option.splits)
  next
    case 3
    then show ?thesis using assms
      by (simp add: detectCyrillicEncoding_def encodings_def candidates_def split: option.splits)
  next
    case 4
    then show ?thesis using assms
      by (simp add: detectCyrillicEncoding_def encodings_def candidates_def split: option.splits)
  next
    case 5
    then show ?thesis using assms
      by (simp add: detectCyrillicEncoding_def encodings_def candidates_def split: option.splits)
  qed
qed

lemma autodetect_first_value:
  assumes "strVal \<noteq> ''''" "containsGarbage strVal"
  shows "autodetect env options False (MkElement t vr undef (VString strVal # rest)) =
    (if ValidString strVal then MkElement t vr undef (VString strVal # rest)
     else
       (case first_accepted (cenv env) (candidates (DefaultCyrillicEncoding options)) strVal of
          Some decoded \<Rightarrow>
            if decoded \<noteq> strVal then MkElement t vr undef [VString decoded]
            else MkElement t vr undef (VString strVal # rest)
        | None \<Rightarrow> MkElement t vr undef (VString strVal # rest)))"
proof (cases "ValidString strVal")
  case True
  then show ?thesis using assms by (simp add: autodetect_def detectCyrillicEncoding_def)
next
  case False
  then show ?thesis using assms
    by (simp add: autodetect_def detect_first_accepted Let_def split: option.splits)
qed

lemma sample_name_invalid: "\<not> ValidString sample_name_bytes"
  by (simp add: sample_name_bytes_def ValidString_def first_info_def)

lemma sample_name_garbage: "containsGarbage sample_name_bytes"
  by (simp add: sample_name_bytes_def containsGarbage_def totalRunes_def garbageCount_def
      garbage_of_def first_info_def RuneError_def)

lemma sample_name_cyrillic:
  "containsCyrillic [CHR 0xD0, CHR 0xA0, CHR 0xD0, CHR 0xB5, CHR 0xD1, CHR 0x82, CHR 0xD1, CHR 0x80]"
  "containsCyrillic [CHR 0xD0, CHR 0xBF, CHR 0xD0, CHR 0x95, CHR 0xD0, CHR 0xA0, CHR 0xD0, CHR 0x9F]"
  by (simp_all add: containsCyrillic_def first_info_def is_cyrillic_def)

lemma sample_try_decode:
  "try_decode sample_cenv Windows1251 sample_name_bytes =
     Some [CHR 0xD0, CHR 0xA0, CHR 0xD0, CHR 0xB5, CHR 0xD1, CHR 0x82, CHR 0xD1, CHR 0x80]"
  "try_decode sample_cenv KOI8R sample_name_bytes =
     Some [CHR 0xD0, CHR 0xBF, CHR 0xD0, CHR 0x95, CHR 0xD0, CHR 0xA0, CHR 0xD0, CHR 0x9F]"
  by (simp_all add: try_decode_def sample_cenv_def sample_name_decoded sample_name_koi8r
      sample_name_cyrillic)

lemma sample_candidates:
  "candidates '''' = [Windows1251, KOI8R, ISO8859_5, CodePage866]"
  "candidates ''KOI8-R'' = [Windows1251, KOI8R, ISO8859_5, CodePage866]"
  "candidates ''koi8-r'' = [KOI8R, Windows1251, KOI8R, ISO8859_5, CodePage866]"
  by (simp_all add: candidates_def encodings_def)

lemma sample_name_accepted:
  "first_accepted sample_cenv (candidates '''') sample_name_bytes =
     Some [CHR 0xD0, CHR 0xA0, CHR 0xD0, CHR 0xB5, CHR 0xD1, CHR 0x82, CHR 0xD1, CHR 0x80]"
  "first_accepted sample_cenv (candidates ''KOI8-R'') sample_name_bytes =
     Some [CHR 0xD0, CHR 0xA0, CHR 0xD0, CHR 0xB5, CHR 0xD1, CHR 0x82, CHR 0xD1, CHR 0x80]"
  "first_accepted sample_cenv (candidates ''koi8-r'') sample_name_bytes =
     Some [CHR 0xD0, CHR 0xBF, CHR 0xD0, CHR 0x95, CHR 0xD0, CHR 0xA0, CHR 0xD0, CHR 0x9F]"
  "first_accepted sample_cenv (KOI8R # candidates '''') sample_name_bytes =
     Some [CHR 0xD0, CHR 0xBF, CHR 0xD0, CHR 0x95, CHR 0xD0, CHR 0xA0, CHR 0xD0, CHR 0x9F]"
  by (simp_all add: sample_candidates sample_try_decode)

lemma sample_latin_accepted:
  "first_accepted sample_cenv (candidates '''') [CHR 0xC3, CHR 0xBF] =
     Some [CHR 0xD0, CHR 0x93, CHR 0xD1, CHR 0x97]"
  by (simp add: candidates_def encodings_def try_decode_def sample_cenv_def
      sample_charmap_String_def win1251_rune_def win1251_high_def EncodeRune_def
      containsCyrillic_def first_info_def is_cyrillic_def char_of_def bit_iff_odd)

lemma sample_latin_clean:
  "FilterNonPrintable sample_IsPrint [CHR 0xC3, CHR 0xBF] = [CHR 0xC3, CHR 0xBF]"
  by (simp add: FilterNonPrintable_def sample_IsPrint_def first_info_def EncodeRune_def
      char_of_def bit_iff_odd)

lemma body_steps:
  "install_charset env options elem (buffer, cs) = (b1, c1) \<Longrightarrow>
   autodetect env options c1 elem = e1 \<Longrightarrow> split_ds e1 = e2 \<Longrightarrow>
   append_element env options e2 file = f \<Longrightarrow>
   ReadDataSet_body env options elem (buffer, cs, file) = (b1, c1, f)"
  by (simp add: ReadDataSet_body_def)

lemma sample_name_append:
  "ReturnTags options = Some [\<lparr>Group = 0x0010, Element = 0x0010\<rparr>] \<Longrightarrow>
   FilterNonPrintable sample_IsPrint s = s \<Longrightarrow>
   append_element sample_renv options (sample_name_elem s) file = file @ [sample_name_elem s]"
  by (simp add: append_element_def tagInList_def clean_element_def
      clean_value_def sample_renv_def sample_wenv_def sample_name_elem_def)

lemma sample_ReturnTags:
  "ReturnTags sample_options = Some [\<lparr>Group = 0x0010, Element = 0x0010\<rparr>]"
  "ReturnTags (sample_options\<lparr>DefaultCyrillicEncoding := d\<rparr>) =
     Some [\<lparr>Group = 0x0010, Element = 0x0010\<rparr>]"
  by (simp_all add: sample_options_def)

lemma sample_KOI8R_registered:
  "fst (parse_charset_name sample_cenv False ''KOI8-R'') = Some (CharmapDecoder KOI8R)"
  by (simp add: parse_charset_name_def htmlEncodingNames_def getCustomDecoder_def Fields_def
      TrimSpace_def rune_is_space_def IsSpace_def rune_bytes_def Let_def)

text \<open>
  C3, as stated, fails in two ways. On a valid UTF-8 string: the two bytes C3 BF (the
  rune U+00FF) are flagged as garbage and their Windows-1251 decoding contains Cyrillic,
  yet the iteration of ReadDataSet appends the element with its value unchanged. On a
  default encoding that is set but is not one of the four names: KOI8-R, the name under
  which the character-set code itself knows the KOI8-R character map, is ignored, so for
  the bytes D0 E5 F2 F0 the iteration takes the Windows-1251 decoding although the
  KOI8-R decoding, first in the list of the claim, succeeds and contains Cyrillic.
\<close>

theorem autodetect_valid_utf8_counterexample:
  "containsGarbage [CHR 0xC3, CHR 0xBF] \<and>
   first_accepted sample_cenv (candidates (DefaultCyrillicEncoding sample_options))
       [CHR 0xC3, CHR 0xBF] = Some [CHR 0xD0, CHR 0x93, CHR 0xD1, CHR 0x97] \<and>
   ReadDataSet_body sample_renv sample_options (sample_name_elem [CHR 0xC3, CHR 0xBF])
       (sample_decoder, False, []) =
     (sample_decoder, False, [sample_name_elem [CHR 0xC3, CHR 0xBF]]) \<and>
   containsGarbage sample_name_bytes \<and>
   fst (parse_charset_name sample_cenv False ''KOI8-R'') = Some (CharmapDecoder KOI8R) \<and>
   first_accepted sample_cenv (KOI8R # [Windows1251, KOI8R, ISO8859_5, CodePage866])
       sample_name_bytes =
     Some [CHR 0xD0, CHR 0xBF, CHR 0xD0, CHR 0x95, CHR 0xD0, CHR 0xA0, CHR 0xD0, CHR 0x9F] \<and>
   ReadDataSet_body sample_renv (sample_options\<lparr>DefaultCyrillicEncoding := ''KOI8-R''\<rparr>)
       (sample_name_elem sample_name_bytes) (sample_decoder, False, []) =
     (sample_decoder, False,
      [sample_name_elem
         [CHR 0xD0, CHR 0xA0, CHR 0xD0, CHR 0xB5, CHR 0xD1, CHR 0x82, CHR 0xD1, CHR 0x80]])"
proof -
  have a: "autodetect sample_renv sample_options False (sample_name_elem [CHR 0xC3, CHR 0xBF]) =
        sample_name_elem [CHR 0xC3, CHR 0xBF]"
    using sample_latin_valid
    by (simp add: autodetect_def detectCyrillicEncoding_def sample_name_elem_def)
  have b: "ReadDataSet_body sample_renv sample_options (sample_name_elem [CHR 0xC3, CHR 0xBF])
       (sample_decoder, False, []) =
     (sample_decoder, False, [sample_name_elem [CHR 0xC3, CHR 0xBF]])"
    using body_steps [OF sample_name_no_charset a sample_split(1)
        sample_name_append [OF sample_ReturnTags(1) sample_latin_clean], of sample_decoder "[]"]
    by simp
  have ne: "sample_name_bytes \<noteq> ''''" by (simp add: sample_name_bytes_def)
  have ne2: "[CHR 0xD0, CHR 0xA0, CHR 0xD0, CHR 0xB5, CHR 0xD1, CHR 0x82, CHR 0xD1, CHR 0x80] \<noteq>
      sample_name_bytes"
    by (simp add: sample_name_bytes_def)
  have a2: "autodetect sample_renv (sample_options\<lparr>DefaultCyrillicEncoding := ''KOI8-R''\<rparr>) False
        (sample_name_elem sample_name_bytes) =
      sample_name_elem
         [CHR 0xD0, CHR 0xA0, CHR 0xD0, CHR 0xB5, CHR 0xD1, CHR 0x82, CHR 0xD1, CHR 0x80]"
    unfolding sample_name_elem_def autodetect_first_value [OF ne sample_name_garbage]
    using sample_name_invalid ne2
    by (simp add: sample_env_fields sample_name_accepted)
  have b2: "ReadDataSet_body sample_renv (sample_options\<lparr>DefaultCyrillicEncoding := ''KOI8-R''\<rparr>)
       (sample_name_elem sample_name_bytes) (sample_decoder, False, []) =
     (sample_decoder, False,
      [sample_name_elem
         [CHR 0xD0, CHR 0xA0, CHR 0xD0, CHR 0xB5, CHR 0xD1, CHR 0x82, CHR 0xD1, CHR 0x80]])"
    using body_steps [OF sample_name_no_charset a2 sample_split(1)
        sample_name_append [OF sample_ReturnTags(2) sample_clean_name], of sample_decoder "[]"]
    by simp
  have c: "first_accepted sample_cenv (KOI8R # [Windows1251, KOI8R, ISO8859_5, CodePage866])
       sample_name_bytes =
     Some [CHR 0xD0, CHR 0xBF, CHR 0xD0, CHR 0x95, CHR 0xD0, CHR 0xA0, CHR 0xD0, CHR 0x9F]"
    using sample_name_accepted(4) by (simp only: sample_candidates)
  have l: "first_accepted sample_cenv (candidates (DefaultCyrillicEncoding sample_options))
       [CHR 0xC3, CHR 0xBF] = Some [CHR 0xD0, CHR 0x93, CHR 0xD1, CHR 0x97]"
    using sample_latin_accepted by (simp add: sample_options_def)
  from sample_latin_garbage l b sample_name_garbage sample_KOI8R_registered c b2
  show ?thesis by blast
qed

text \<open>
  C3 (amended). Let an iteration of the loop of ReadDataSet read an element whose first
  value is a non-empty string flagged as garbage, while no character set has been
  installed, this element included (the flag charsetSet is false before and after
  step 1). When the string is valid UTF-8 the element goes on unchanged to the steps 3
  and 4. Otherwise the string is decoded against the priority list: the default
  encoding first when it is one of the four names windows-1251, koi8-r, iso-8859-5 and
  cp866, then these four in that order. The first decoding that succeeds and contains a
  Cyrillic rune becomes the only value of the element, unless it equals the string;
  when no candidate is accepted the element is unchanged. The loop goes on with the
  data set to which step 4 has added that element.
\<close>

theorem autodetect_priority_list:
  "\<not> EOF buffer0 \<Longrightarrow>
   ReadElement env options buffer0 =
     (ReadElem (MkElement t vr undef (VString strVal # rest)), buffer1) \<Longrightarrow>
   BytesRead buffer0 < BytesRead buffer1 \<Longrightarrow>
   install_charset env options (MkElement t vr undef (VString strVal # rest)) (buffer1, False) =
     (buffer2, False) \<Longrightarrow>
   strVal \<noteq> '''' \<Longrightarrow> containsGarbage strVal \<Longrightarrow>
   ReadDataSet_loop (Suc n) env options buffer0 False file =
     ReadDataSet_loop n env options buffer2 False
       (append_element env options
          (split_ds
             (if ValidString strVal then MkElement t vr undef (VString strVal # rest)
              else
                (case first_accepted (cenv env) (candidates (DefaultCyrillicEncoding options))
                        strVal of
                   Some decoded \<Rightarrow>
                     if decoded \<noteq> strVal then MkElement t vr undef [VString decoded]
                     else MkElement t vr undef (VString strVal # rest)
                 | None \<Rightarrow> MkElement t vr undef (VString strVal # rest))))
          file)"
proof -
  assume step: "\<not> EOF buffer0"
    "ReadElement env options buffer0 =
       (ReadElem (MkElement t vr undef (VString strVal # rest)), buffer1)"
    "BytesRead buffer0 < BytesRead buffer1"
    "install_charset env options (MkElement t vr undef (VString strVal # rest)) (buffer1, False) =
       (buffer2, False)"
    and str: "strVal \<noteq> ''''" "containsGarbage strVal"
  show ?thesis
    by (simp only: loop_step [OF step] autodetect_first_value [OF str])
qed

lemma sample_name_read:
  "ReadElement sample_renv options sample_name_decoder =
     (ReadElem (sample_name_elem sample_name_bytes), sample_name_decoder1)"
  using sample_read(2) [of sample_name_decoder "[]" options]
  by (simp add: sample_env_fields sample_raw_text sample_name_decoder_def
      sample_name_decoder1_def sample_loop_decoder_fields)

lemma sample_name_progress:
  "\<not> EOF sample_name_decoder" "EOF sample_name_decoder1"
  "BytesRead sample_name_decoder < BytesRead sample_name_decoder1"
  "derr sample_name_decoder1 = None"
  by (simp_all add: EOF_def BytesRead_def sample_name_decoder1_def sample_name_decoder_def
      sample_loop_decoder_fields)

lemma sample_pushed:
  "DPushTransferSyntax (NewDecoder [1, 2] (Some LittleEndian) ExplicitVR)
     (Some LittleEndian) ExplicitVR = sample_decoder"
  "DPushTransferSyntax (NewDecoder [2] (Some LittleEndian) ExplicitVR)
     (Some LittleEndian) ExplicitVR = sample_name_decoder"
  by (simp_all add: sample_decoder_def sample_name_decoder_def sample_loop_decoder_def)

theorem autodetect_priority_list_witness:
  "\<not> EOF sample_name_decoder \<and>
   ReadElement sample_renv (sample_options\<lparr>DefaultCyrillicEncoding := ''koi8-r''\<rparr>)
       sample_name_decoder =
     (ReadElem (sample_name_elem sample_name_bytes), sample_name_decoder1) \<and>
   BytesRead sample_name_decoder < BytesRead sample_name_decoder1 \<and>
   install_charset sample_renv (sample_options\<lparr>DefaultCyrillicEncoding := ''koi8-r''\<rparr>)
       (sample_name_elem sample_name_bytes) (sample_name_decoder1, False) =
     (sample_name_decoder1, False) \<and>
   sample_name_bytes \<noteq> '''' \<and> containsGarbage sample_name_bytes \<and>
   \<not> ValidString sample_name_bytes \<and>
   first_accepted sample_cenv (candidates ''koi8-r'') sample_name_bytes =
     Some [CHR 0xD0, CHR 0xBF, CHR 0xD0, CHR 0x95, CHR 0xD0, CHR 0xA0, CHR 0xD0, CHR 0x9F] \<and>
   ReadDataSet 2 sample_renv [2] (sample_options\<lparr>DefaultCyrillicEncoding := ''koi8-r''\<rparr>) =
     Some (Returned
       (Some (sample_meta @
          [sample_name_elem
             [CHR 0xD0, CHR 0xBF, CHR 0xD0, CHR 0x95, CHR 0xD0, CHR 0xA0, CHR 0xD0, CHR 0x9F]]),
        None))"
proof -
  let ?options = "sample_options\<lparr>DefaultCyrillicEncoding := ''koi8-r''\<rparr>"
  let ?koi = "[CHR 0xD0, CHR 0xBF, CHR 0xD0, CHR 0x95, CHR 0xD0, CHR 0xA0, CHR 0xD0, CHR 0x9F]"
  have ne: "sample_name_bytes \<noteq> ''''" by (simp add: sample_name_bytes_def)
  have ne2: "?koi \<noteq> sample_name_bytes" by (simp add: sample_name_bytes_def)
  have ic: "install_charset sample_renv ?options
       (MkElement \<lparr>Group = 0x0010, Element = 0x0010\<rparr> ''PN'' False
          [VString sample_name_bytes]) (sample_name_decoder1, False) =
     (sample_name_decoder1, False)"
    using sample_name_no_charset [of ?options sample_name_bytes sample_name_decoder1 False]
    by (simp add: sample_name_elem_def)
  have re: "ReadElement sample_renv ?options sample_name_decoder =
     (ReadElem (MkElement \<lparr>Group = 0x0010, Element = 0x0010\<rparr> ''PN'' False
                  [VString sample_name_bytes]), sample_name_decoder1)"
    using sample_name_read [of ?options] by (simp add: sample_name_elem_def)
  have d: "DefaultCyrillicEncoding ?options = ''koi8-r''" by simp
  have step: "ReadDataSet_loop (Suc (Suc 0)) sample_renv ?options sample_name_decoder False
        sample_meta =
      ReadDataSet_loop (Suc 0) sample_renv ?options sample_name_decoder1 False
        (sample_meta @ [sample_name_elem ?koi])"
    unfolding autodetect_priority_list [OF sample_name_progress(1) re sample_name_progress(3) ic
        ne sample_name_garbage, of "Suc 0" sample_meta]
    using sample_name_invalid ne2
      sample_name_append [OF sample_ReturnTags(2) sample_clean_koi8r, of "''koi8-r''" sample_meta]
      sample_split(1) [of ?koi]
    by (simp add: sample_env_fields d sample_name_accepted sample_name_elem_def
        del: ReadDataSet_loop.simps)
  have eof: "ReadDataSet_loop (Suc 0) sample_renv ?options sample_name_decoder1 False
        (sample_meta @ [sample_name_elem ?koi]) =
      Some (Returned (sample_meta @ [sample_name_elem ?koi], sample_name_decoder1))"
    by (rule loop_EOF [OF sample_name_progress(2)])
  have loop: "ReadDataSet_loop 2 sample_renv ?options sample_name_decoder False
        sample_meta =
      Some (Returned (sample_meta @ [sample_name_elem ?koi], sample_name_decoder1))"
    unfolding numeral_2_eq_2 step by (rule eof)
  have r: "ReadDataSet 2 sample_renv [2] ?options =
     Some (Returned (Some (sample_meta @ [sample_name_elem ?koi]), None))"
    unfolding ReadDataSet_unfold [OF sample_header sample_meta_syntax] sample_pushed loop
    by (simp add: sample_name_progress(4))
  from sample_name_progress(1) sample_name_read [of ?options] sample_name_progress(3)
    sample_name_no_charset [of ?options sample_name_bytes sample_name_decoder1 False]
    ne sample_name_garbage sample_name_invalid sample_name_accepted(3) r
  show ?thesis by blast
qed

lemma sample_clean_element:
  "clean_element sample_renv (sample_name_elem s) =
     sample_name_elem (FilterNonPrintable sample_IsPrint s)"
  by (simp add: clean_element_def clean_value_def sample_renv_def sample_wenv_def
      sample_name_elem_def)

theorem ReturnTags_filter_keeps_charset_witness:
  "ReturnTags sample_options = Some [\<lparr>Group = 0x0010, Element = 0x0010\<rparr>] \<and>
   Tag sample_charset_elem = SpecificCharacterSet \<and>
   Tag sample_charset_elem \<notin> set [\<lparr>Group = 0x0010, Element = 0x0010\<rparr>] \<and>
   GetCleanStrings sample_renv sample_charset_elem = Inr [''WINDOWS-1251''] \<and>
   install_charset sample_renv sample_options sample_charset_elem (sample_decoder1, False) =
     (SetCodingSystem sample_decoder1 sample_cs, True) \<and>
   ReadDataSet_loop 3 sample_renv sample_options sample_decoder False sample_meta =
     ReadDataSet_loop 2 sample_renv sample_options (SetCodingSystem sample_decoder1 sample_cs)
       True sample_meta \<and>
   elements_read 3 sample_renv sample_options sample_decoder False [] =
     Some (Returned
       ([sample_charset_elem,
         sample_name_elem
           [CHR 0xD0, CHR 0xA0, CHR 0xD0, CHR 0xB5, CHR 0xD1, CHR 0x82, CHR 0xD1, CHR 0x80]],
        sample_decoder2)) \<and>
   ReadDataSet 3 sample_renv [1, 2] sample_options =
     Some (Returned
       (Some (sample_meta @
          [sample_name_elem
             [CHR 0xD0, CHR 0xA0, CHR 0xD0, CHR 0xB5, CHR 0xD1, CHR 0x82, CHR 0xD1, CHR 0x80]]),
        None))"
proof -
  let ?name = "sample_name_elem
           [CHR 0xD0, CHR 0xA0, CHR 0xD0, CHR 0xB5, CHR 0xD1, CHR 0x82, CHR 0xD1, CHR 0x80]"
  have t: "Tag sample_charset_elem = SpecificCharacterSet"
    by (simp add: sample_charset_elem_def)
  have nt: "Tag sample_charset_elem \<notin> set [\<lparr>Group = 0x0010, Element = 0x0010\<rparr>]"
    by (simp add: sample_charset_elem_def SpecificCharacterSet_def)
  have tn: "Tag ?name \<in> set [\<lparr>Group = 0x0010, Element = 0x0010\<rparr>]"
    by (simp add: sample_name_elem_def)
  note th = ReturnTags_filter_keeps_charset [OF sample_ReturnTags(1),
      where env = sample_renv and inp = "[1, 2]" and metaElems = sample_meta
        and buffer = "NewDecoder [1, 2] (Some LittleEndian) ExplicitVR"
        and endian = "Some LittleEndian" and impl = ExplicitVR and fuel = 3
        and ?buffer0.0 = sample_decoder and elem = sample_charset_elem
        and ?buffer1.0 = sample_decoder1 and charsetSet = False
        and ?buffer2.0 = "SetCodingSystem sample_decoder1 sample_cs" and ?charsetSet2.0 = True
        and n = 2 and names = "[''WINDOWS-1251'']"]
  have i: "install_charset sample_renv sample_options sample_charset_elem (sample_decoder1, False) =
     (SetCodingSystem sample_decoder1 sample_cs, True)"
    using th [THEN conjunct2, THEN conjunct2, rule_format, OF t sample_charset_strings]
    by (simp add: sample_env_fields sample_options_def sample_charset_parsed)
  have "ReadDataSet_loop (Suc 2) sample_renv sample_options sample_decoder False sample_meta =
     ReadDataSet_loop 2 sample_renv sample_options (SetCodingSystem sample_decoder1 sample_cs)
       True sample_meta"
    using th [THEN conjunct2, THEN conjunct1, rule_format,
        OF sample_progress(1) sample_reads(1) sample_progress(4) i] nt
    by (simp del: ReadDataSet_loop.simps)
  moreover have "Suc 2 = (3::nat)" by simp
  ultimately have s: "ReadDataSet_loop 3 sample_renv sample_options sample_decoder False
       sample_meta =
     ReadDataSet_loop 2 sample_renv sample_options (SetCodingSystem sample_decoder1 sample_cs)
       True sample_meta"
    by (simp del: ReadDataSet_loop.simps)
  have r: "ReadDataSet 3 sample_renv [1, 2] sample_options =
     Some (Returned (Some (sample_meta @ [?name]), None))"
    using th [THEN conjunct1, rule_format, OF sample_header sample_meta_syntax] nt tn
    by (simp add: sample_pushed sample_elements_read sample_progress(6) sample_clean_element
        sample_clean_name)
  from sample_ReturnTags(1) t nt sample_charset_strings i s sample_elements_read r
  show ?thesis by blast
qed

section \<open>Properties of the element writer\<close>

lemma sample_Find_PatientName:
  "Find sample_wenv \<lparr>Group = 0x0010, Element = 0x0010\<rparr> =
     Some \<lparr>TagInfoVR = ''PN'', TagInfoName = ''PatientName''\<rparr>"
  by (simp add: sample_wenv_def sample_Find_def FileMetaInformationGroupLength_def
      FileMetaInformationVersion_def MediaStorageSOPClassUID_def MediaStorageSOPInstanceUID_def
      TransferSyntaxUID_def ImplementationClassUID_def ImplementationVersionName_def
      SpecificCharacterSet_def)

lemma sample_kinds:
  "GetVRKind sample_wenv \<lparr>Group = 0x0010, Element = 0x0010\<rparr> ''PN'' = VRStringList"
  "GetVRKind sample_wenv \<lparr>Group = 0x0010, Element = 0x0010\<rparr> ''LO'' = VRStringList"
  "GetVRKind sample_wenv \<lparr>Group = 0x0010, Element = 0x0010\<rparr> ''US'' = VRUInt16List"
  by (simp_all add: sample_wenv_def sample_GetVRKind_def Item_def PixelData_def)

text \<open>
  C4. Let the caller supply a non-empty VR that differs from the VR the dictionary
  gives for the tag. Without SkipVRVerification, verifyVROrDefault returns an error
  when the kinds of the two VRs differ, and WriteElement then only sets that error on
  the encoder; when the kinds agree it returns the supplied VR and logs a line at
  level 1. With SkipVRVerification it returns the supplied VR and logs nothing. In
  both accepting cases WriteElement goes on with the supplied VR in place of the VR of
  the dictionary: it writes PixelData, a sequence or an item, or a basic element with
  that VR, which under explicit VR is also the VR written in the header.
\<close>

theorem verifyVROrDefault_kinds:
  "vr \<noteq> '''' \<Longrightarrow> Find env t = Some tagInfo \<Longrightarrow> TagInfoVR tagInfo \<noteq> vr \<Longrightarrow>
   (\<not> SkipVRVerification opts \<and> GetVRKind env t (TagInfoVR tagInfo) \<noteq> GetVRKind env t vr \<longrightarrow>
      verifyVROrDefault env t vr opts = (Inl (ErrVRMismatch t vr (TagInfoVR tagInfo)), []) \<and>
      WriteElement env e (MkElement t vr undef vals) opts =
        Some (SetError e (ErrVRMismatch t vr (TagInfoVR tagInfo)))) \<and>
   (\<not> SkipVRVerification opts \<and> GetVRKind env t (TagInfoVR tagInfo) = GetVRKind env t vr \<longrightarrow>
      verifyVROrDefault env t vr opts =
        (Inr vr, [(1, LogVRValueMismatch t vr (TagInfoVR tagInfo))])) \<and>
   (SkipVRVerification opts \<longrightarrow> verifyVROrDefault env t vr opts = (Inr vr, [])) \<and>
   (SkipVRVerification opts \<or> GetVRKind env t (TagInfoVR tagInfo) = GetVRKind env t vr \<longrightarrow>
      WriteElement env e (MkElement t vr undef vals) opts =
        (if t = PixelData then WritePixelData e (MkElement t vr undef vals) vr
         else if vr = ''SQ'' \<or> vr = ''NA'' then
           (if undef then do {
              e1 \<leftarrow> encodeElementHeader e t vr undefinedLength;
              r \<leftarrow> WriteItems env (vr = ''SQ'') e1 vals opts;
              case r of
                Bad e2 v \<Rightarrow>
                  Some (SetError e2 (if vr = ''SQ'' then ErrSQNotItem v else ErrItemNotElement v))
              | Fin e2 \<Rightarrow>
                  encodeElementHeader e2
                    (if vr = ''SQ'' then SequenceDelimitationItem else ItemDelimitationItem) '''' 0
            }
            else do {
              r \<leftarrow> WriteItems env (vr = ''SQ'') (NewBytesEncoder (bo e) (implicit e)) vals opts;
              case r of
                Bad sube v \<Rightarrow>
                  Some (SetError e (if vr = ''SQ'' then ErrSQNotItem v else ErrItemNotElement v))
              | Fin sube \<Rightarrow>
                  (case err sube of
                     Some x \<Rightarrow> Some (SetError e x)
                   | None \<Rightarrow> do {
                       e1 \<leftarrow> encodeElementHeader e t vr (of_nat (length (out sube)));
                       Some (WriteBytes e1 (out sube))
                     })
            })
         else WriteBasic env e (MkElement t vr undef vals) vr))"
proof -
  assume h: "vr \<noteq> ''''" "Find env t = Some tagInfo" "TagInfoVR tagInfo \<noteq> vr"
  have v: "verifyVROrDefault env t vr opts =
      (if SkipVRVerification opts then (Inr vr, [])
       else if GetVRKind env t (TagInfoVR tagInfo) \<noteq> GetVRKind env t vr
       then (Inl (ErrVRMismatch t vr (TagInfoVR tagInfo)), [])
       else (Inr vr, [(1, LogVRValueMismatch t vr (TagInfoVR tagInfo))]))"
    using h by (simp add: verifyVROrDefault_def)
  show ?thesis
    using h(1) by (auto simp: v)
qed

subsection \<open>Text values\<close>

lemma even_length_word32: "even n \<Longrightarrow> (of_nat n :: uint32) mod 2 = 0"
  by (metis even_iff_mod_2_eq_zero even_of_nat)

lemma err_NewBytesEncoder: "err (NewBytesEncoder b i) = None"
  by (simp add: NewBytesEncoder_def)

lemma Join_cons: "Join (x # xs) sep = x @ concat (map (\<lambda>y. sep @ y) xs)"
  by (induction xs arbitrary: x) simp_all

lemma join_values_pos:
  "0 < i \<Longrightarrow>
   join_values env s i vals = s @ concat (map (\<lambda>v. backslash @ value_substr env v) vals)"
  by (induction vals arbitrary: s i) simp_all

lemma join_values_Join:
  "join_values env '''' 0 vals = Join (map (value_substr env) vals) backslash"
proof (cases vals)
  case Nil
  then show ?thesis by simp
next
  case (Cons v rest)
  then show ?thesis
    by (simp add: join_values_pos Join_cons comp_def)
qed

lemma write_text_tags:
  "write_text env (NewBytesEncoder b i) (map VTag tags) 0x20 =
     (NewBytesEncoder b i)\<lparr>out := AT_payload tags\<rparr>"
  by (simp add: write_text_def join_values_Join comp_def AT_payload_def AT_text_def Let_def
      WriteString_def WriteByte_def WriteBytes_def NewBytesEncoder_def bytes_of_def)

lemma WriteElement_AT:
  assumes "fst (verifyVROrDefault env t evr opts) = Inr ''AT''" "t \<noteq> PixelData"
  shows "WriteElement env e (MkElement t evr False (map VTag tags)) opts =
    (case encodeElementHeader e t ''AT'' (of_nat (length (AT_payload tags))) of
       None \<Rightarrow> None
     | Some e1 \<Rightarrow> Some (WriteBytes e1 (AT_payload tags)))"
  using assms
  by (simp add: WriteBasic_def encode_value_def write_text_tags err_NewBytesEncoder
      split: option.splits)

lemma length_fmt_04X: "length (fmt_04X v) = 4"
  by (simp add: fmt_04X_def)

lemma length_AT_text: "length (AT_text (t # tags)) = 9 * length tags + 8"
  by (simp add: AT_text_def Join_cons length_concat comp_def length_fmt_04X backslash_def
      sum_list_triv)

lemma length_AT_payload:
  "tags \<noteq> [] \<Longrightarrow> length (AT_payload tags) = 2 * ((9 * length tags) div 2)"
proof (cases tags)
  case Nil
  then show "tags \<noteq> [] \<Longrightarrow> ?thesis" by simp
next
  case (Cons t rest)
  have "length (AT_payload (t # rest)) = 2 * ((9 * length (t # rest)) div 2)"
    unfolding AT_payload_def bytes_of_def using length_AT_text [of t rest]
    by (simp split: if_splits) presburger
  with Cons show ?thesis by simp
qed

lemma even_length_AT_payload: "even (length (AT_payload tags))"
  by (simp add: AT_payload_def bytes_of_def) presburger

lemma encodeElementHeader_short:
  assumes "bo e = Some b" "implicit e = ExplicitVR" "Group t \<noteq> itemSeqGroup"
    "length vr = 2" "vr \<notin> set longVRs" "vl mod 2 = 0"
  shows "encodeElementHeader e t vr vl =
    Some (e\<lparr>out := out e @ uint16_bytes b (Group t) @ uint16_bytes b (Element t) @ bytes_of vr
                    @ uint16_bytes b (ucast vl)\<rparr>)"
  using assms
  by (simp add: encodeElementHeader_def WriteUInt16_def WriteBytes_def WriteString_def Let_def)

lemma WriteElement_AT_explicit:
  assumes "fst (verifyVROrDefault env t evr opts) = Inr ''AT''" "t \<noteq> PixelData"
    "bo e = Some b" "implicit e = ExplicitVR" "Group t \<noteq> itemSeqGroup"
  shows "WriteElement env e (MkElement t evr False (map VTag tags)) opts =
    Some (e\<lparr>out := out e @ uint16_bytes b (Group t) @ uint16_bytes b (Element t) @ bytes_of ''AT''
                    @ uint16_bytes b (ucast (of_nat (length (AT_payload tags)) :: uint32))
                    @ AT_payload tags\<rparr>)"
proof -
  have h: "encodeElementHeader e t ''AT'' (of_nat (length (AT_payload tags))) =
      Some (e\<lparr>out := out e @ uint16_bytes b (Group t) @ uint16_bytes b (Element t)
                      @ bytes_of ''AT''
                      @ uint16_bytes b (ucast (of_nat (length (AT_payload tags)) :: uint32))\<rparr>)"
    using assms(3-5) even_length_word32 [OF even_length_AT_payload, of tags]
    by (intro encodeElementHeader_short) (simp_all add: longVRs_def)
  show ?thesis
    by (simp only: WriteElement_AT [OF assms(1,2)] h) (simp add: WriteBytes_def)
qed

lemma sample_verify_AT:
  "fst (verifyVROrDefault sample_wenv \<lparr>Group = 0x0028, Element = 0x0009\<rparr> ''AT'' sample_opts) =
     Inr ''AT''"
  by (simp add: verifyVROrDefault_def sample_wenv_def sample_Find_def sample_opts_def
      FileMetaInformationGroupLength_def
      FileMetaInformationVersion_def MediaStorageSOPClassUID_def MediaStorageSOPInstanceUID_def
      TransferSyntaxUID_def ImplementationClassUID_def ImplementationVersionName_def
      SpecificCharacterSet_def)

lemma sample_AT_payload:
  "AT_payload [\<lparr>Group = 0x0018, Element = 0x1063\<rparr>] = bytes_of ''00181063''"
  by (simp add: AT_payload_def AT_text_def fmt_04X_def hexdigit_def)

lemma sample_AT_written:
  "WriteElement sample_wenv sample_encoder
       (MkElement \<lparr>Group = 0x0028, Element = 0x0009\<rparr> ''AT'' False
          [VTag \<lparr>Group = 0x0018, Element = 0x1063\<rparr>]) sample_opts =
     Some (sample_encoder\<lparr>out :=
        [0x28, 0x00, 0x09, 0x00, 0x41, 0x54, 0x08, 0x00,
         0x30, 0x30, 0x31, 0x38, 0x31, 0x30, 0x36, 0x33]\<rparr>)"
  using WriteElement_AT_explicit [OF sample_verify_AT, of sample_encoder LittleEndian
      "[\<lparr>Group = 0x0018, Element = 0x1063\<rparr>]"]
  by (simp add: sample_AT_payload PixelData_def itemSeqGroup_def sample_encoder_def
      NewBytesEncoder_def uint16_bytes_def bytes_of_def del: WriteElement.simps)

text \<open>
  C1, as stated, fails: for the AT element (0028,0009) holding the tag (0018,1063) the
  writer emits, after the 8-byte header, the eight ASCII characters 00181063 and not
  the four bytes 18 00 63 10 that the group and the element take in little-endian
  order. Two kinds of AT element get no payload at all: with the tag of PixelData the
  writer takes the PixelData branch, whose assertion on the frames panics for a tag
  value, and with an undefined length it only sets an error on the encoder.
\<close>

theorem WriteElement_AT_counterexample:
  "WriteElement sample_wenv sample_encoder
       (MkElement \<lparr>Group = 0x0028, Element = 0x0009\<rparr> ''AT'' False
          [VTag \<lparr>Group = 0x0018, Element = 0x1063\<rparr>]) sample_opts =
     Some (sample_encoder\<lparr>out :=
        [0x28, 0x00, 0x09, 0x00, 0x41, 0x54, 0x08, 0x00,
         0x30, 0x30, 0x31, 0x38, 0x31, 0x30, 0x36, 0x33]\<rparr>) \<and>
   AT_payload_spec LittleEndian [\<lparr>Group = 0x0018, Element = 0x1063\<rparr>] =
     [0x18, 0x00, 0x63, 0x10] \<and>
   WriteElement sample_wenv sample_encoder
       (MkElement \<lparr>Group = 0x0028, Element = 0x0009\<rparr> ''AT'' False
          [VTag \<lparr>Group = 0x0018, Element = 0x1063\<rparr>]) sample_opts \<noteq>
     Some (sample_encoder\<lparr>out :=
        [0x28, 0x00, 0x09, 0x00, 0x41, 0x54, 0x04, 0x00]
        @ AT_payload_spec LittleEndian [\<lparr>Group = 0x0018, Element = 0x1063\<rparr>]\<rparr>) \<and>
   fst (verifyVROrDefault sample_wenv PixelData ''AT'' sample_opts) = Inr ''AT'' \<and>
   WriteElement sample_wenv sample_encoder
       (MkElement PixelData ''AT'' False [VTag \<lparr>Group = 0x0018, Element = 0x1063\<rparr>])
       sample_opts = None \<and>
   WriteElement sample_wenv sample_encoder
       (MkElement \<lparr>Group = 0x0028, Element = 0x0009\<rparr> ''AT'' True
          [VTag \<lparr>Group = 0x0018, Element = 0x1063\<rparr>]) sample_opts =
     Some (SetError sample_encoder
             (ErrUndefinedLengthUnsupported
                (MkElement \<lparr>Group = 0x0028, Element = 0x0009\<rparr> ''AT'' True
                   [VTag \<lparr>Group = 0x0018, Element = 0x1063\<rparr>])))"
proof -
  have s: "AT_payload_spec LittleEndian [\<lparr>Group = 0x0018, Element = 0x1063\<rparr>] =
     [0x18, 0x00, 0x63, 0x10]"
    by (simp add: AT_payload_spec_def uint16_bytes_def)
  have d: "sample_encoder\<lparr>out :=
        [0x28, 0x00, 0x09, 0x00, 0x41, 0x54, 0x08, 0x00,
         0x30, 0x30, 0x31, 0x38, 0x31, 0x30, 0x36, 0x33]\<rparr> \<noteq>
      sample_encoder\<lparr>out := [0x28, 0x00, 0x09, 0x00, 0x41, 0x54, 0x04, 0x00]
        @ [0x18, 0x00, 0x63, 0x10]\<rparr>"
    by (simp add: sample_encoder_def NewBytesEncoder_def)
  have w: "WriteElement sample_wenv sample_encoder
       (MkElement \<lparr>Group = 0x0028, Element = 0x0009\<rparr> ''AT'' False
          [VTag \<lparr>Group = 0x0018, Element = 0x1063\<rparr>]) sample_opts \<noteq>
     Some (sample_encoder\<lparr>out :=
        [0x28, 0x00, 0x09, 0x00, 0x41, 0x54, 0x04, 0x00]
        @ AT_payload_spec LittleEndian [\<lparr>Group = 0x0018, Element = 0x1063\<rparr>]\<rparr>)"
    using d by (simp add: sample_AT_written s del: WriteElement.simps)
  have v: "fst (verifyVROrDefault sample_wenv PixelData ''AT'' sample_opts) = Inr ''AT''"
    by (simp add: verifyVROrDefault_def sample_wenv_def sample_Find_def sample_opts_def
      PixelData_def FileMetaInformationGroupLength_def
      FileMetaInformationVersion_def MediaStorageSOPClassUID_def MediaStorageSOPInstanceUID_def
      TransferSyntaxUID_def ImplementationClassUID_def ImplementationVersionName_def
      SpecificCharacterSet_def)
  have p: "WriteElement sample_wenv sample_encoder
       (MkElement PixelData ''AT'' False [VTag \<lparr>Group = 0x0018, Element = 0x1063\<rparr>])
       sample_opts = None"
    by (simp add: v WritePixelData_def)
  have u: "WriteElement sample_wenv sample_encoder
       (MkElement \<lparr>Group = 0x0028, Element = 0x0009\<rparr> ''AT'' True
          [VTag \<lparr>Group = 0x0018, Element = 0x1063\<rparr>]) sample_opts =
     Some (SetError sample_encoder
             (ErrUndefinedLengthUnsupported
                (MkElement \<lparr>Group = 0x0028, Element = 0x0009\<rparr> ''AT'' True
                   [VTag \<lparr>Group = 0x0018, Element = 0x1063\<rparr>])))"
    by (simp add: sample_verify_AT WriteBasic_def PixelData_def)
  from sample_AT_written s w v p u show ?thesis by blast
qed

text \<open>
  C1 (amended). For an element other than PixelData whose VR resolves to AT, with a
  defined length and tag values, WriteElement writes the header for the length of the
  text payload and then that payload: each tag as eight upper-case hexadecimal digits
  (group, then element), the tags joined by a backslash, and a space appended when the
  length is odd. The payload does not depend on the byte order; for a non-empty list
  of n tags it takes 9n - 1 bytes rounded up to an even number. Under explicit VR, on
  an encoder with a byte order and for a tag outside the group of the items, the header
  is the tag, the letters AT and the 16-bit length, in the byte order of the encoder.
\<close>

theorem WriteElement_AT_hex_text:
  "fst (verifyVROrDefault env t evr opts) = Inr ''AT'' \<Longrightarrow> t \<noteq> PixelData \<Longrightarrow>
   WriteElement env e (MkElement t evr False (map VTag tags)) opts =
     (case encodeElementHeader e t ''AT'' (of_nat (length (AT_payload tags))) of
        None \<Rightarrow> None
      | Some e1 \<Rightarrow> Some (WriteBytes e1 (AT_payload tags))) \<and>
   (tags \<noteq> [] \<longrightarrow> length (AT_payload tags) = 2 * ((9 * length tags) div 2)) \<and>
   (bo e = Some b \<longrightarrow> implicit e = ExplicitVR \<longrightarrow> Group t \<noteq> itemSeqGroup \<longrightarrow>
      WriteElement env e (MkElement t evr False (map VTag tags)) opts =
        Some (e\<lparr>out := out e @ uint16_bytes b (Group t) @ uint16_bytes b (Element t)
                        @ bytes_of ''AT''
                        @ uint16_bytes b (ucast (of_nat (length (AT_payload tags)) :: uint32))
                        @ AT_payload tags\<rparr>))"
  using WriteElement_AT [of env t evr opts e tags] length_AT_payload [of tags]
    WriteElement_AT_explicit [of env t evr opts e b tags]
  by blast

theorem WriteElement_AT_hex_text_witness:
  "fst (verifyVROrDefault sample_wenv \<lparr>Group = 0x0028, Element = 0x0009\<rparr> ''AT'' sample_opts) =
     Inr ''AT'' \<and>
   \<lparr>Group = 0x0028, Element = 0x0009\<rparr> \<noteq> PixelData \<and>
   length (AT_payload [\<lparr>Group = 0x0018, Element = 0x1063\<rparr>]) = 8 \<and>
   WriteElement sample_wenv sample_encoder
       (MkElement \<lparr>Group = 0x0028, Element = 0x0009\<rparr> ''AT'' False
          [VTag \<lparr>Group = 0x0018, Element = 0x1063\<rparr>]) sample_opts =
     Some (sample_encoder\<lparr>out :=
        [0x28, 0x00, 0x09, 0x00, 0x41, 0x54, 0x08, 0x00,
         0x30, 0x30, 0x31, 0x38, 0x31, 0x30, 0x36, 0x33]\<rparr>)"
proof -
  have np: "\<lparr>Group = 0x0028, Element = 0x0009\<rparr> \<noteq> PixelData"
    by (simp add: PixelData_def)
  note th = WriteElement_AT_hex_text [OF sample_verify_AT np, of sample_encoder
      "[\<lparr>Group = 0x0018, Element = 0x1063\<rparr>]" LittleEndian]
  have l: "length (AT_payload [\<lparr>Group = 0x0018, Element = 0x1063\<rparr>]) = 8"
    using th [THEN conjunct2, THEN conjunct1] by simp
  have w: "WriteElement sample_wenv sample_encoder
       (MkElement \<lparr>Group = 0x0028, Element = 0x0009\<rparr> ''AT'' False
          [VTag \<lparr>Group = 0x0018, Element = 0x1063\<rparr>]) sample_opts =
     Some (sample_encoder\<lparr>out :=
        [0x28, 0x00, 0x09, 0x00, 0x41, 0x54, 0x08, 0x00,
         0x30, 0x30, 0x31, 0x38, 0x31, 0x30, 0x36, 0x33]\<rparr>)"
    using th [THEN conjunct2, THEN conjunct2]
    by (simp add: sample_AT_payload itemSeqGroup_def sample_encoder_def
      NewBytesEncoder_def uint16_bytes_def bytes_of_def del: WriteElement.simps)
  show ?thesis
    using np sample_verify_AT l w by blast
qed

subsection \<open>UN elements of undefined length\<close>

lemma replicate_two: "replicate 2 x = [x, x]"
  by (simp add: numeral_2_eq_2)

lemma WriteElement_UN_undefined:
  assumes "fst (verifyVROrDefault env t evr opts) = Inr ''UN''" "t \<noteq> PixelData"
  shows "WriteElement env e (MkElement t evr True vals) opts =
    (case encodeElementHeader e t ''UN'' 0 of
       None \<Rightarrow> None
     | Some e1 \<Rightarrow> Some (WriteBytes e1 []))"
  using assms
  by (simp add: WriteBasic_def encode_value_def NewBytesEncoder_def split: option.splits)

text \<open>
  C2. The code at the failing input: an element (0008,9999) with VR UN and undefined
  length, written under explicit VR little endian. No error is set, but the twelve
  bytes of a header with length zero are written: the tag, the letters UN, two reserved
  bytes and the 32-bit length 0.
\<close>

theorem WriteElement_UN_undefined_length_header:
  "WriteElement sample_wenv sample_encoder
       (MkElement \<lparr>Group = 0x0008, Element = 0x9999\<rparr> ''UN'' True [VBytes [1, 2]]) sample_opts =
     Some (sample_encoder\<lparr>out :=
        [0x08, 0x00, 0x99, 0x99, 0x55, 0x4E, 0x00, 0x00, 0x00, 0x00, 0x00, 0x00]\<rparr>)"
proof -
  have v: "fst (verifyVROrDefault sample_wenv \<lparr>Group = 0x0008, Element = 0x9999\<rparr> ''UN''
              sample_opts) = Inr ''UN''"
    by (simp add: verifyVROrDefault_def sample_wenv_def sample_Find_def sample_opts_def
      FileMetaInformationGroupLength_def
      FileMetaInformationVersion_def MediaStorageSOPClassUID_def MediaStorageSOPInstanceUID_def
      TransferSyntaxUID_def ImplementationClassUID_def ImplementationVersionName_def
      SpecificCharacterSet_def)
  have np: "\<lparr>Group = 0x0008, Element = 0x9999\<rparr> \<noteq> PixelData"
    by (simp add: PixelData_def)
  have h: "encodeElementHeader sample_encoder \<lparr>Group = 0x0008, Element = 0x9999\<rparr> ''UN'' 0 =
      Some (sample_encoder\<lparr>out :=
        [0x08, 0x00, 0x99, 0x99, 0x55, 0x4E, 0x00, 0x00, 0x00, 0x00, 0x00, 0x00]\<rparr>)"
    by (simp add: encodeElementHeader_def sample_encoder_def NewBytesEncoder_def WriteUInt16_def
        WriteUInt32_def WriteBytes_def WriteString_def WriteZeros_def Let_def itemSeqGroup_def
        longVRs_def uint16_bytes_def uint32_bytes_def bytes_of_def undefinedLength_def
        replicate_two)
  show ?thesis
    by (simp only: WriteElement_UN_undefined [OF v np] h) (simp add: WriteBytes_def)
qed

section \<open>The output only grows\<close>

lemma out_SetError: "out (SetError e x) = out e"
  by (simp add: SetError_def)

lemma prefix_encodeElementHeader:
  "encodeElementHeader e t vr vl = Some e' \<Longrightarrow> prefix (out e) (out e')"
  by (auto simp: encodeElementHeader_def WriteUInt16_def WriteUInt32_def WriteBytes_def
      WriteString_def WriteZeros_def Let_def
      split: option.splits if_splits Option.bind_splits)

lemma prefix_writeRawItem: "writeRawItem e d = Some e' \<Longrightarrow> prefix (out e) (out e')"
  by (auto simp: writeRawItem_def WriteBytes_def split: Option.bind_splits
      dest!: prefix_encodeElementHeader elim: prefix_order.trans)

lemma prefix_write_frames: "write_frames e fs = Some e' \<Longrightarrow> prefix (out e) (out e')"
proof (induction fs arbitrary: e)
  case Nil
  then show ?case by simp
next
  case (Cons f fs)
  then show ?case
    by (auto split: Option.bind_splits dest!: prefix_writeRawItem elim: prefix_order.trans)
qed

lemma prefix_writeBasicOffsetTable:
  "writeBasicOffsetTable e offs = Some e' \<Longrightarrow> prefix (out e) (out e')"
  by (auto simp: writeBasicOffsetTable_def split: Option.bind_splits dest!: prefix_writeRawItem)

lemma prefix_WritePixelData:
  assumes "WritePixelData e elem vr = Some e'"
  shows "prefix (out e) (out e')"
proof -
  from assms obtain v0 rest where v: "Value elem = v0 # rest"
    by (cases "Value elem") (auto simp: WritePixelData_def Let_def)
  define e1 where "e1 = (if length (Value elem) \<noteq> 1 then SetError e ErrPixelDataValue else e)"
  define img where
    "img = (case v0 of VPixelDataInfo p \<Rightarrow> p | _ \<Rightarrow> \<lparr>Offsets = [], Frames = []\<rparr>)"
  define e2 where
    "e2 = (if \<not> (case v0 of VPixelDataInfo p \<Rightarrow> True | _ \<Rightarrow> False)
           then SetError e1 ErrPixelDataValue else e1)"
  have o: "out e2 = out e"
    by (simp add: e2_def e1_def out_SetError)
  show ?thesis
  proof (cases "UndefinedLength elem")
    case True
    with assms v obtain e3 e4 e5 where
      h1: "encodeElementHeader e2 (Tag elem) vr undefinedLength = Some e3"
      and h2: "writeBasicOffsetTable e3 (Offsets img) = Some e4"
      and h3: "write_frames e4 (Frames img) = Some e5"
      and h4: "encodeElementHeader e5 SequenceDelimitationItem '''' 0 = Some e'"
      unfolding WritePixelData_def Let_def e2_def e1_def img_def
      by (auto split: Option.bind_splits simp del: write_frames.simps)
    from prefix_encodeElementHeader [OF h1] prefix_writeBasicOffsetTable [OF h2]
      prefix_write_frames [OF h3] prefix_encodeElementHeader [OF h4] o
    show ?thesis by (metis prefix_order.trans)
  next
    case False
    with assms v obtain frame e3 where
      h1: "encodeElementHeader e2 (Tag elem) vr (of_nat (length frame)) = Some e3"
      and h2: "e' = WriteBytes e3 frame"
      unfolding WritePixelData_def Let_def e2_def e1_def img_def
      by (auto split: Option.bind_splits list.splits)
    from prefix_encodeElementHeader [OF h1] o h2 show ?thesis
      by (auto simp: WriteBytes_def prefix_def)
  qed
qed

lemma write_values_out:
  "write_values proj wr ty t e sube vals = Some (e1, sube1) \<Longrightarrow> out e1 = out e"
proof (induction vals arbitrary: e sube)
  case Nil
  then show ?case by simp
next
  case (Cons v vals)
  then show ?case
    by (auto simp: out_SetError split: option.splits Option.bind_splits)
qed

lemma encode_value_out_OW:
  assumes "encode_value env e sube elem ''OW'' = Some (e1, sube1)"
  shows "out e1 = out e"
  using assms
  apply (simp add: encode_value_def)
  apply (simp split: if_splits option.splits)
  apply (auto simp: out_SetError split: Option.bind_splits)
  done

lemma encode_value_out_OB:
  assumes "encode_value env e sube elem ''OB'' = Some (e1, sube1)"
  shows "out e1 = out e"
  using assms
  apply (simp add: encode_value_def Let_def)
  apply (simp split: if_splits option.splits)
  apply (auto simp: out_SetError Let_def split: Option.bind_splits)
  done

lemma encode_value_out:
  assumes "encode_value env e sube elem vr = Some (e1, sube1)"
  shows "out e1 = out e"
proof (cases "vr \<in> set [''US'', ''UL'', ''SL'', ''SS'', ''FL'', ''OF'', ''FD'', ''OD'']")
  case True
  then consider "vr = ''US''" | "vr = ''UL''" | "vr = ''SL''" | "vr = ''SS''" | "vr = ''FL''"
    | "vr = ''OF''" | "vr = ''FD''" | "vr = ''OD''"
    by auto
  then show ?thesis
    using assms by cases (auto simp: encode_value_def dest: write_values_out)
next
  case False
  then have n: "vr \<noteq> ''US''" "vr \<noteq> ''UL''" "vr \<noteq> ''SL''" "vr \<noteq> ''SS''" "vr \<noteq> ''FL''"
    "vr \<noteq> ''OF''" "vr \<noteq> ''FD''" "vr \<noteq> ''OD''"
    by auto
  show ?thesis
  proof (cases "vr = ''OW'' \<or> vr = ''OB''")
    case True
    with assms show ?thesis
      using encode_value_out_OW encode_value_out_OB by blast
  next
    case False
    with assms n show ?thesis
      unfolding encode_value_def by (auto split: if_splits)
  qed
qed

lemma prefix_WriteBasic:
  assumes "WriteBasic env e elem vr = Some e'"
  shows "prefix (out e) (out e')"
proof (cases "UndefinedLength elem \<and> vr \<noteq> ''UN''")
  case True
  with assms show ?thesis by (auto simp: WriteBasic_def out_SetError)
next
  case False
  with assms obtain e1 sube where
    ev: "encode_value env e (NewBytesEncoder (bo e) (implicit e)) elem vr = Some (e1, sube)"
    and r: "(case err sube of
          Some x \<Rightarrow> Some (SetError e1 x)
        | None \<Rightarrow> do {
            e2 \<leftarrow> encodeElementHeader e1 (Tag elem) vr (of_nat (length (out sube)));
            Some (WriteBytes e2 (out sube))
          }) = Some e'"
    by (auto simp: WriteBasic_def split: Option.bind_splits)
  have o: "out e1 = out e" using ev by (rule encode_value_out)
  show ?thesis
  proof (cases "err sube")
    case None
    with r obtain e2 where h: "encodeElementHeader e1 (Tag elem) vr (of_nat (length (out sube))) = Some e2"
      and e': "e' = WriteBytes e2 (out sube)"
      by (auto split: Option.bind_splits)
    from prefix_encodeElementHeader [OF h] o e' show ?thesis
      by (auto simp: WriteBytes_def prefix_def)
  next
    case (Some x)
    with r o show ?thesis by (auto simp: out_SetError)
  qed
qed

lemma prefix_WriteElement:
  "WriteElement env e elem opts = Some e' \<Longrightarrow> prefix (out e) (out e')"
  and prefix_WriteItems:
  "WriteItems env needItem e vals opts = Some r \<Longrightarrow> prefix (out e) (out (result_encoder r))"
proof (induction env e elem opts and env needItem e vals opts arbitrary: e' and r
    rule: WriteElement_WriteItems.induct)
  case (1 env e t evr undef vals opts)
  show ?case
  proof (cases "fst (verifyVROrDefault env t evr opts)")
    case (Inl x)
    with "1.prems" show ?thesis by (auto simp: out_SetError)
  next
    case (Inr vr)
    show ?thesis
    proof (cases "vr = '''' \<or> t = PixelData \<or> \<not> (vr = ''SQ'' \<or> vr = ''NA'')")
      case True
      with "1.prems" Inr show ?thesis
        by (auto dest: prefix_WritePixelData prefix_WriteBasic split: if_splits)
    next
      case False
      then have c: "vr \<noteq> ''''" "t \<noteq> PixelData" "vr = ''SQ'' \<or> vr = ''NA''" by auto
      show ?thesis
      proof (cases undef)
        case True
        from "1.prems" Inr c True obtain e1 r where
          h: "encodeElementHeader e t vr undefinedLength = Some e1"
          and w: "WriteItems env (vr = ''SQ'') e1 vals opts = Some r"
          and f: "(case r of
                 Bad e2 v \<Rightarrow>
                   Some (SetError e2 (if vr = ''SQ'' then ErrSQNotItem v else ErrItemNotElement v))
               | Fin e2 \<Rightarrow>
                   encodeElementHeader e2
                     (if vr = ''SQ'' then SequenceDelimitationItem else ItemDelimitationItem) '''' 0)
               = Some e'"
          by (auto split: Option.bind_splits)
        have p1: "prefix (out e) (out e1)" using h by (rule prefix_encodeElementHeader)
        have p2: "prefix (out e1) (out (result_encoder r))"
          using "1.IH"(1) [OF Inr _ _ _ True h w] c by auto
        have p3: "prefix (out (result_encoder r)) (out e')"
          using f by (cases r) (auto simp: out_SetError dest: prefix_encodeElementHeader)
        from p1 p2 p3 show ?thesis by (meson prefix_order.trans)
      next
        case False
        from "1.prems" Inr c False obtain r where
          w: "WriteItems env (vr = ''SQ'') (NewBytesEncoder (bo e) (implicit e)) vals opts = Some r"
          and f: "(case r of
                 Bad sube v \<Rightarrow>
                   Some (SetError e (if vr = ''SQ'' then ErrSQNotItem v else ErrItemNotElement v))
               | Fin sube \<Rightarrow>
                   (case err sube of
                      Some x \<Rightarrow> Some (SetError e x)
                    | None \<Rightarrow> do {
                        e1 \<leftarrow> encodeElementHeader e t vr (of_nat (length (out sube)));
                        Some (WriteBytes e1 (out sube))
                      })) = Some e'"
          by (auto split: Option.bind_splits)
        show ?thesis
        proof (cases r)
          case (Bad sube v)
          with f show ?thesis by (auto simp: out_SetError)
        next
          case (Fin sube)
          show ?thesis
          proof (cases "err sube")
            case None
            with f Fin obtain e1 where
              h: "encodeElementHeader e t vr (of_nat (length (out sube))) = Some e1"
              and e': "e' = WriteBytes e1 (out sube)"
              by (auto split: Option.bind_splits)
            from prefix_encodeElementHeader [OF h] e' show ?thesis
              by (auto simp: WriteBytes_def prefix_def)
          next
            case (Some x)
            with f Fin show ?thesis by (auto simp: out_SetError)
          qed
        qed
      qed
    qed
  qed
next
  case (2 env needItem e opts)
  then show ?case by auto
next
  case (3 env needItem e v rest opts)
  show ?case
  proof (cases v)
    case (VElement subelem)
    show ?thesis
    proof (cases "needItem \<and> Tag subelem \<noteq> Item")
      case True
      with "3.prems" VElement show ?thesis by auto
    next
      case False
      with "3.prems" VElement obtain e1 where
        w1: "WriteElement env e subelem opts = Some e1"
        and w2: "WriteItems env needItem e1 rest opts = Some r"
        by (auto split: Option.bind_splits)
      have p1: "prefix (out e) (out e1)"
        using "3.IH"(1) [OF VElement False w1] .
      have p2: "prefix (out e1) (out (result_encoder r))"
        using "3.IH"(2) [OF VElement False w1 w2] .
      from p1 p2 show ?thesis by (meson prefix_order.trans)
    qed
  qed (use "3.prems" in auto)
qed

section \<open>Properties of WriteDataSet and WriteFileHeader\<close>

lemma even_word16: "((w::16 word) mod 2 = 0) = even (unat w)"
  by (simp add: even_iff_mod_2_eq_zero word_eq_iff_unsigned[where ?'a=nat] unat_mod_distrib)

lemma write_body_filter:
  "write_body env optSet e ds = write_elements env optSet e (body_elements ds)"
  by (induction ds arbitrary: e)
    (auto simp: body_elements_def MetadataGroup_def even_word16 split: Option.bind_splits
      simp del: WriteElement.simps)

lemma prefix_write_elements:
  "write_elements env optSet e elems = Some e' \<Longrightarrow> prefix (out e) (out e')"
proof (induction elems arbitrary: e)
  case Nil
  then show ?case by simp
next
  case (Cons elem elems)
  from Cons.prems obtain e1 where w: "WriteElement env e elem optSet = Some e1"
    and r: "write_elements env optSet e1 elems = Some e'"
    by (auto split: Option.bind_splits simp del: WriteElement.simps)
  from prefix_WriteElement [OF w] Cons.IH [OF r] show ?case
    by (meson prefix_order.trans)
qed

lemma out_PopTransferSyntax: "PopTransferSyntax e = Some e' \<Longrightarrow> out e' = out e \<and> err e' = err e"
  by (auto simp: PopTransferSyntax_def split: list.splits)

lemma out_PushTransferSyntax: "out (PushTransferSyntax e b i) = out e"
  by (simp add: PushTransferSyntax_def)

text \<open>
  C8. When the file header has been written without error and the transfer syntax of
  the data set is known, WriteDataSet writes, after the bytes of the header, the
  elements of the data set whose group is even and differs from the meta group 0x0002,
  one after the other in the order of the data set, and nothing else.
\<close>

theorem WriteDataSet_body_elements:
  "WriteFileHeader env
     \<lparr>out = [], err = None, bo = None, implicit = UnknownVR, oldTransferSyntaxes = []\<rparr>
     (filter (\<lambda>elem. Group (Tag elem) = MetadataGroup) ds) (toWriteOptSet opts) = Some e1 \<Longrightarrow>
   err e1 = None \<Longrightarrow> getTransferSyntax env ds = Inr (endian, impl) \<Longrightarrow>
   WriteDataSet env ds opts =
     (case write_elements env (toWriteOptSet opts) (PushTransferSyntax e1 endian impl)
             (body_elements ds) of
        None \<Rightarrow> None
      | Some e2 \<Rightarrow>
          (case PopTransferSyntax e2 of None \<Rightarrow> None | Some e3 \<Rightarrow> Some (out e3, err e3))) \<and>
   (\<forall>written r. WriteDataSet env ds opts = Some (written, r) \<longrightarrow> prefix (out e1) written)"
proof -
  assume h: "WriteFileHeader env
     \<lparr>out = [], err = None, bo = None, implicit = UnknownVR, oldTransferSyntaxes = []\<rparr>
     (filter (\<lambda>elem. Group (Tag elem) = MetadataGroup) ds) (toWriteOptSet opts) = Some e1"
    and ok: "err e1 = None" and ts: "getTransferSyntax env ds = Inr (endian, impl)"
  have eq: "WriteDataSet env ds opts =
     (case write_elements env (toWriteOptSet opts) (PushTransferSyntax e1 endian impl)
             (body_elements ds) of
        None \<Rightarrow> None
      | Some e2 \<Rightarrow>
          (case PopTransferSyntax e2 of None \<Rightarrow> None | Some e3 \<Rightarrow> Some (out e3, err e3)))"
    using h ok ts
    by (simp add: WriteDataSet_def Let_def write_body_filter split: option.splits Option.bind_splits)
  have pre: "\<forall>written r. WriteDataSet env ds opts = Some (written, r) \<longrightarrow> prefix (out e1) written"
  proof (intro allI impI)
    fix written r
    assume "WriteDataSet env ds opts = Some (written, r)"
    with eq obtain e2 e3 where
      w: "write_elements env (toWriteOptSet opts) (PushTransferSyntax e1 endian impl)
             (body_elements ds) = Some e2"
      and p: "PopTransferSyntax e2 = Some e3" and o: "written = out e3"
      by (auto split: option.splits)
    from prefix_write_elements [OF w] out_PopTransferSyntax [OF p] o
    show "prefix (out e1) written"
      by (simp add: out_PushTransferSyntax)
  qed
  from eq pre show ?thesis by blast
qed

lemma prefix_writeRequiredMetaElem:
  "writeRequiredMetaElem env metaElems opts (s, u) t = Some (s', u') \<Longrightarrow>
   prefix (out s) (out s')"
  by (auto simp: writeRequiredMetaElem_def out_SetError
      split: option.splits Option.bind_splits dest: prefix_WriteElement
      simp del: WriteElement.simps)

lemma prefix_writeOptionalMetaElem:
  "writeOptionalMetaElem env metaElems opts (s, u) t d = Some (s', u') \<Longrightarrow>
   prefix (out s) (out s')"
  by (auto simp: writeOptionalMetaElem_def
      split: option.splits Option.bind_splits dest: prefix_WriteElement
      simp del: WriteElement.simps)

lemma prefix_write_other_meta:
  "write_other_meta env opts u s elems = Some s' \<Longrightarrow> prefix (out s) (out s')"
proof (induction elems arbitrary: s)
  case Nil
  then show ?case by simp
next
  case (Cons elem elems)
  show ?case
  proof (cases "Group (Tag elem) = MetadataGroup \<and> Tag elem \<notin> set u")
    case True
    with Cons.prems obtain s1 where w: "WriteElement env s elem opts = Some s1"
      and r: "write_other_meta env opts u s1 elems = Some s'"
      by (auto split: Option.bind_splits simp del: WriteElement.simps)
    from prefix_WriteElement [OF w] Cons.IH [OF r] show ?thesis
      by (meson prefix_order.trans)
  next
    case False
    with Cons show ?thesis by auto
  qed
qed

lemma write_meta_block_first:
  assumes "write_meta_block env metaElems opts = Some s"
  shows "\<exists>s1 u1. writeOptionalMetaElem env metaElems opts
            (NewBytesEncoder (Some LittleEndian) ExplicitVR, [FileMetaInformationGroupLength])
            FileMetaInformationVersion (VBytes (bytes_of ''0 1'')) = Some (s1, u1) \<and>
          prefix (out s1) (out s)"
proof -
  from assms obtain s1 u1 s2 u2 s3 u3 s4 u4 s5 u5 s6 u6 where
    a1: "writeOptionalMetaElem env metaElems opts
            (NewBytesEncoder (Some LittleEndian) ExplicitVR, [FileMetaInformationGroupLength])
            FileMetaInformationVersion (VBytes (bytes_of ''0 1'')) = Some (s1, u1)"
    and a2: "writeRequiredMetaElem env metaElems opts (s1, u1) MediaStorageSOPClassUID = Some (s2, u2)"
    and a3: "writeRequiredMetaElem env metaElems opts (s2, u2) MediaStorageSOPInstanceUID = Some (s3, u3)"
    and a4: "writeRequiredMetaElem env metaElems opts (s3, u3) TransferSyntaxUID = Some (s4, u4)"
    and a5: "writeOptionalMetaElem env metaElems opts (s4, u4) ImplementationClassUID
              (VString GoDICOMImplementationClassUID) = Some (s5, u5)"
    and a6: "writeOptionalMetaElem env metaElems opts (s5, u5) ImplementationVersionName
              (VString GoDICOMImplementationVersionName) = Some (s6, u6)"
    and a7: "write_other_meta env opts u6 s6 metaElems = Some s"
    unfolding write_meta_block_def Let_def
    by (auto split: Option.bind_splits)
  from prefix_writeRequiredMetaElem [OF a2] prefix_writeRequiredMetaElem [OF a3]
    prefix_writeRequiredMetaElem [OF a4] prefix_writeOptionalMetaElem [OF a5]
    prefix_writeOptionalMetaElem [OF a6] prefix_write_other_meta [OF a7]
  have "prefix (out s1) (out s)"
    by (meson prefix_order.trans)
  with a1 show ?thesis by blast
qed

lemma verify_same:
  "Find env t = Some ti \<Longrightarrow> TagInfoVR ti = vr \<Longrightarrow> vr \<noteq> '''' \<Longrightarrow>
   fst (verifyVROrDefault env t vr opts) = Inr vr"
  by (simp add: verifyVROrDefault_def)

lemma WriteElement_basic:
  assumes "fst (verifyVROrDefault env t evr opts) = Inr vr" "vr \<noteq> []" "t \<noteq> PixelData"
    "vr \<noteq> ''SQ''" "vr \<noteq> ''NA''" "\<not> (undef \<and> vr \<noteq> ''UN'')"
    "encode_value env e (NewBytesEncoder (bo e) (implicit e)) (MkElement t evr undef vals) vr =
       Some (e1, sube)"
    "err sube = None"
    "encodeElementHeader e1 t vr (of_nat (length (out sube))) = Some e2"
  shows "WriteElement env e (MkElement t evr undef vals) opts = Some (WriteBytes e2 (out sube))"
  using assms by (auto simp: WriteBasic_def)

lemma meta_tags_not_PixelData:
  "FileMetaInformationGroupLength \<noteq> PixelData" "FileMetaInformationVersion \<noteq> PixelData"
  by (simp_all add: FileMetaInformationGroupLength_def FileMetaInformationVersion_def
      PixelData_def)

lemma WriteElement_GroupLength:
  assumes "Find env FileMetaInformationGroupLength = Some ti" "TagInfoVR ti = ''UL''"
    "bo e = Some LittleEndian" "implicit e = ExplicitVR"
  shows "WriteElement env e (MkElement FileMetaInformationGroupLength ''UL'' False [VUInt32 n]) opts =
    Some (e\<lparr>out := out e @ [0x02, 0x00, 0x00, 0x00, 0x55, 0x4C, 0x04, 0x00]
                    @ uint32_bytes LittleEndian n\<rparr>)"
proof -
  have v: "fst (verifyVROrDefault env FileMetaInformationGroupLength ''UL'' opts) = Inr ''UL''"
    using assms(1,2) by (simp add: verify_same)
  have ev: "encode_value env e (NewBytesEncoder (bo e) (implicit e))
        (MkElement FileMetaInformationGroupLength ''UL'' False [VUInt32 n]) ''UL'' =
      Some (e, (NewBytesEncoder (bo e) (implicit e))\<lparr>out := uint32_bytes LittleEndian n\<rparr>)"
    using assms(3)
    by (simp add: encode_value_def WriteUInt32_def WriteBytes_def NewBytesEncoder_def
        del: WriteElement.simps)
  have l: "length (uint32_bytes LittleEndian n) = 4"
    by (simp add: uint32_bytes_def)
  have h: "encodeElementHeader e FileMetaInformationGroupLength ''UL'' 4 =
      Some (e\<lparr>out := out e @ [0x02, 0x00, 0x00, 0x00, 0x55, 0x4C, 0x04, 0x00]\<rparr>)"
    using assms(3,4)
    by (simp add: encodeElementHeader_def WriteUInt16_def WriteBytes_def WriteString_def Let_def
        FileMetaInformationGroupLength_def itemSeqGroup_def longVRs_def uint16_bytes_def
        bytes_of_def undefinedLength_def)
  have h': "encodeElementHeader e FileMetaInformationGroupLength ''UL''
        (of_nat (length (out ((NewBytesEncoder (bo e) (implicit e))
                               \<lparr>out := uint32_bytes LittleEndian n\<rparr>)))) =
      Some (e\<lparr>out := out e @ [0x02, 0x00, 0x00, 0x00, 0x55, 0x4C, 0x04, 0x00]\<rparr>)"
    using h by (simp add: l)
  have "WriteElement env e (MkElement FileMetaInformationGroupLength ''UL'' False [VUInt32 n])
      opts =
    Some (WriteBytes (e\<lparr>out := out e @ [0x02, 0x00, 0x00, 0x00, 0x55, 0x4C, 0x04, 0x00]\<rparr>)
        (out ((NewBytesEncoder (bo e) (implicit e))\<lparr>out := uint32_bytes LittleEndian n\<rparr>)))"
    by (rule WriteElement_basic [OF v _ meta_tags_not_PixelData(1) _ _ _ ev _ h'])
      (simp_all add: NewBytesEncoder_def)
  then show ?thesis
    by (simp add: WriteBytes_def del: WriteElement.simps)
qed

lemma WriteElement_Version:
  assumes "Find env FileMetaInformationVersion = Some ti" "TagInfoVR ti = ''OB''"
    "bo e = Some LittleEndian" "implicit e = ExplicitVR"
  shows "WriteElement env e
      (MkElement FileMetaInformationVersion ''OB'' False [VBytes (bytes_of ''0 1'')]) opts =
    Some (e\<lparr>out := out e @ [0x02, 0x00, 0x01, 0x00, 0x4F, 0x42, 0x00, 0x00,
                             0x04, 0x00, 0x00, 0x00, 0x30, 0x20, 0x31, 0x00]\<rparr>)"
proof -
  have v: "fst (verifyVROrDefault env FileMetaInformationVersion ''OB'' opts) = Inr ''OB''"
    using assms(1,2) by (simp add: verify_same)
  have ev: "encode_value env e (NewBytesEncoder (bo e) (implicit e))
        (MkElement FileMetaInformationVersion ''OB'' False [VBytes (bytes_of ''0 1'')]) ''OB'' =
      Some (e, (NewBytesEncoder (bo e) (implicit e))\<lparr>out := [0x30, 0x20, 0x31, 0x00]\<rparr>)"
    by (simp add: encode_value_def WriteByte_def WriteBytes_def NewBytesEncoder_def bytes_of_def
        Let_def)
  have h: "encodeElementHeader e FileMetaInformationVersion ''OB'' 4 =
      Some (e\<lparr>out := out e @ [0x02, 0x00, 0x01, 0x00, 0x4F, 0x42, 0x00, 0x00,
                             0x04, 0x00, 0x00, 0x00]\<rparr>)"
    using assms(3,4)
    by (simp add: encodeElementHeader_def WriteUInt16_def WriteUInt32_def WriteBytes_def
        WriteString_def WriteZeros_def Let_def replicate_two
        FileMetaInformationVersion_def itemSeqGroup_def longVRs_def uint16_bytes_def
        uint32_bytes_def bytes_of_def undefinedLength_def)
  have h': "encodeElementHeader e FileMetaInformationVersion ''OB''
        (of_nat (length (out ((NewBytesEncoder (bo e) (implicit e))
                               \<lparr>out := [0x30, 0x20, 0x31, 0x00]\<rparr>)))) =
      Some (e\<lparr>out := out e @ [0x02, 0x00, 0x01, 0x00, 0x4F, 0x42, 0x00, 0x00,
                             0x04, 0x00, 0x00, 0x00]\<rparr>)"
    using h by simp
  have "WriteElement env e
      (MkElement FileMetaInformationVersion ''OB'' False [VBytes (bytes_of ''0 1'')]) opts =
    Some (WriteBytes (e\<lparr>out := out e @ [0x02, 0x00, 0x01, 0x00, 0x4F, 0x42, 0x00, 0x00,
                             0x04, 0x00, 0x00, 0x00]\<rparr>)
        (out ((NewBytesEncoder (bo e) (implicit e))\<lparr>out := [0x30, 0x20, 0x31, 0x00]\<rparr>)))"
    by (rule WriteElement_basic [OF v _ meta_tags_not_PixelData(2) _ _ _ ev _ h'])
      (simp_all add: NewBytesEncoder_def)
  then show ?thesis
    by (simp add: WriteBytes_def del: WriteElement.simps)
qed

lemma WriteFileHeader_bytes:
  assumes mb: "write_meta_block env metaElems opts = Some subEncoder"
    and ok: "err subEncoder = None"
    and dict: "Find env FileMetaInformationGroupLength = Some ti" "TagInfoVR ti = ''UL''"
    and mk: "MustNewElement env FileMetaInformationGroupLength
               (VUInt32 (of_nat (length (out subEncoder)))) =
             Some (MkElement FileMetaInformationGroupLength ''UL'' False
                     [VUInt32 (of_nat (length (out subEncoder)))])"
  shows "WriteFileHeader env e metaElems opts =
    Some (e\<lparr>out := out e @ replicate 128 0 @ bytes_of ''DICM''
                    @ [0x02, 0x00, 0x00, 0x00, 0x55, 0x4C, 0x04, 0x00]
                    @ uint32_bytes LittleEndian (of_nat (length (out subEncoder)))
                    @ out subEncoder\<rparr>)"
proof -
  let ?e1 = "WriteString (WriteZeros (PushTransferSyntax e (Some LittleEndian) ExplicitVR) 128)
               ''DICM''"
  have b: "bo ?e1 = Some LittleEndian" "implicit ?e1 = ExplicitVR"
    by (simp_all add: WriteString_def WriteZeros_def WriteBytes_def PushTransferSyntax_def)
  note w = WriteElement_GroupLength [OF dict b, where n = "of_nat (length (out subEncoder))"
      and opts = opts]
  show ?thesis
    unfolding WriteFileHeader_def Let_def
    by (simp only: mb ok mk w Option.bind.simps option.case)
      (simp add: PopTransferSyntax_def WriteBytes_def WriteString_def WriteZeros_def
        PushTransferSyntax_def)
qed

lemma meta_block_version_default:
  assumes mb: "write_meta_block env metaElems opts = Some subEncoder"
    and absent: "FindElementByTag env metaElems FileMetaInformationVersion = None"
    and mk: "MustNewElement env FileMetaInformationVersion (VBytes (bytes_of ''0 1'')) =
             Some (MkElement FileMetaInformationVersion ''OB'' False [VBytes (bytes_of ''0 1'')])"
    and dict: "Find env FileMetaInformationVersion = Some ti" "TagInfoVR ti = ''OB''"
  shows "prefix [0x02, 0x00, 0x01, 0x00, 0x4F, 0x42, 0x00, 0x00,
                 0x04, 0x00, 0x00, 0x00, 0x30, 0x20, 0x31, 0x00] (out subEncoder)"
proof -
  let ?s0 = "NewBytesEncoder (Some LittleEndian) ExplicitVR"
  from write_meta_block_first [OF mb] obtain s1 u1 where
    a: "writeOptionalMetaElem env metaElems opts (?s0, [FileMetaInformationGroupLength])
            FileMetaInformationVersion (VBytes (bytes_of ''0 1'')) = Some (s1, u1)"
    and p: "prefix (out s1) (out subEncoder)"
    by blast
  have b: "bo ?s0 = Some LittleEndian" "implicit ?s0 = ExplicitVR" "out ?s0 = []"
    by (simp_all add: NewBytesEncoder_def)
  note w = WriteElement_Version [OF dict b(1,2), where opts = opts]
  have "out s1 = [0x02, 0x00, 0x01, 0x00, 0x4F, 0x42, 0x00, 0x00,
                 0x04, 0x00, 0x00, 0x00, 0x30, 0x20, 0x31, 0x00]"
    using a unfolding writeOptionalMetaElem_def
    by (simp only: absent mk w Option.bind.simps option.case prod.case) (auto simp: b(3))
  with p show ?thesis by simp
qed

text \<open>
  C5. When the meta block has been built without error in the sub-encoder,
  WriteFileHeader appends to the output 128 zero bytes, the four letters DICM, the
  element FileMetaInformationGroupLength (tag (0002,0000), VR UL, length 4) whose value
  is the number of bytes of the meta block in little-endian order, and then the meta
  block; the transfer syntax of the encoder is restored. When the input has no
  FileMetaInformationVersion element, the meta block starts with that element (VR OB,
  length 4) holding the bytes of "0 1" and the padding byte 0.
\<close>

theorem WriteFileHeader_layout:
  "write_meta_block env metaElems opts = Some subEncoder \<Longrightarrow> err subEncoder = None \<Longrightarrow>
   Find env FileMetaInformationGroupLength = Some ti \<Longrightarrow> TagInfoVR ti = ''UL'' \<Longrightarrow>
   MustNewElement env FileMetaInformationGroupLength
       (VUInt32 (of_nat (length (out subEncoder)))) =
     Some (MkElement FileMetaInformationGroupLength ''UL'' False
             [VUInt32 (of_nat (length (out subEncoder)))]) \<Longrightarrow>
   WriteFileHeader env e metaElems opts =
     Some (e\<lparr>out := out e @ replicate 128 0 @ bytes_of ''DICM''
                     @ [0x02, 0x00, 0x00, 0x00, 0x55, 0x4C, 0x04, 0x00]
                     @ uint32_bytes LittleEndian (of_nat (length (out subEncoder)))
                     @ out subEncoder\<rparr>) \<and>
   (FindElementByTag env metaElems FileMetaInformationVersion = None \<longrightarrow>
    MustNewElement env FileMetaInformationVersion (VBytes (bytes_of ''0 1'')) =
      Some (MkElement FileMetaInformationVersion ''OB'' False [VBytes (bytes_of ''0 1'')]) \<longrightarrow>
    Find env FileMetaInformationVersion = Some ti' \<longrightarrow> TagInfoVR ti' = ''OB'' \<longrightarrow>
      prefix [0x02, 0x00, 0x01, 0x00, 0x4F, 0x42, 0x00, 0x00,
              0x04, 0x00, 0x00, 0x00, 0x30, 0x20, 0x31, 0x00] (out subEncoder))"
  using WriteFileHeader_bytes [of env metaElems opts subEncoder ti e]
    meta_block_version_default [of env metaElems opts subEncoder ti']
  by blast


lemma write_text_string:
  "write_text env (NewBytesEncoder b i) [VString s] pad =
     (NewBytesEncoder b i)\<lparr>out := padded pad s\<rparr>"
  by (simp add: write_text_def padded_def Let_def WriteString_def WriteByte_def WriteBytes_def
      NewBytesEncoder_def)

lemma even_length_padded: "even (length (padded pad s))"
  by (simp add: padded_def bytes_of_def) presburger

lemma encode_value_string:
  assumes "vr \<notin> set [''US'', ''UL'', ''SL'', ''SS'', ''FL'', ''FD'']" "vr \<notin> set longVRs"
  shows "encode_value env e (NewBytesEncoder b i) (MkElement t evr False [VString s]) vr =
    Some (e, (NewBytesEncoder b i)\<lparr>out := padded (if vr = ''UI'' then 0 else 0x20) s\<rparr>)"
  using assms by (simp add: encode_value_def longVRs_def write_text_string)

lemma WriteElement_string:
  assumes v: "fst (verifyVROrDefault env t evr opts) = Inr vr"
    and vr: "length vr = 2" "vr \<notin> set longVRs"
      "vr \<notin> set [''US'', ''UL'', ''SL'', ''SS'', ''FL'', ''FD'']"
    and t: "t \<noteq> PixelData" "Group t \<noteq> itemSeqGroup"
    and e: "bo e = Some b" "implicit e = ExplicitVR"
  shows "WriteElement env e (MkElement t evr False [VString s]) opts =
    Some (e\<lparr>out := out e @ uint16_bytes b (Group t) @ uint16_bytes b (Element t) @ bytes_of vr
                    @ uint16_bytes b
                        (ucast (of_nat (length (padded (if vr = ''UI'' then 0 else 0x20) s))
                                :: uint32))
                    @ padded (if vr = ''UI'' then 0 else 0x20) s\<rparr>)"
proof -
  let ?p = "padded (if vr = ''UI'' then 0 else 0x20) s"
  let ?sube = "(NewBytesEncoder (bo e) (implicit e))\<lparr>out := ?p\<rparr>"
  have ev: "encode_value env e (NewBytesEncoder (bo e) (implicit e))
      (MkElement t evr False [VString s]) vr = Some (e, ?sube)"
    using vr by (intro encode_value_string) simp_all
  have h: "encodeElementHeader e t vr (of_nat (length (out ?sube))) =
      Some (e\<lparr>out := out e @ uint16_bytes b (Group t) @ uint16_bytes b (Element t) @ bytes_of vr
                      @ uint16_bytes b (ucast (of_nat (length ?p) :: uint32))\<rparr>)"
    using e t(2) vr(1,2) even_length_word32 [OF even_length_padded]
    by (simp add: encodeElementHeader_short)
  have n: "vr \<noteq> []" "vr \<noteq> ''SQ''" "vr \<noteq> ''NA''"
    using vr by (auto simp: longVRs_def)
  have "WriteElement env e (MkElement t evr False [VString s]) opts =
      Some (WriteBytes (e\<lparr>out := out e @ uint16_bytes b (Group t) @ uint16_bytes b (Element t)
                      @ bytes_of vr
                      @ uint16_bytes b (ucast (of_nat (length ?p) :: uint32))\<rparr>) (out ?sube))"
    by (rule WriteElement_basic [OF v n(1) t(1) n(2,3) _ ev _ h])
      (simp_all add: NewBytesEncoder_def)
  then show ?thesis
    by (simp add: WriteBytes_def del: WriteElement.simps)
qed

lemma sample_Find_meta:
  "Find sample_wenv FileMetaInformationGroupLength =
     Some \<lparr>TagInfoVR = ''UL'', TagInfoName = ''FileMetaInformationGroupLength''\<rparr>"
  "Find sample_wenv FileMetaInformationVersion =
     Some \<lparr>TagInfoVR = ''OB'', TagInfoName = ''FileMetaInformationVersion''\<rparr>"
  "Find sample_wenv MediaStorageSOPClassUID =
     Some \<lparr>TagInfoVR = ''UI'', TagInfoName = ''MediaStorageSOPClassUID''\<rparr>"
  "Find sample_wenv MediaStorageSOPInstanceUID =
     Some \<lparr>TagInfoVR = ''UI'', TagInfoName = ''MediaStorageSOPInstanceUID''\<rparr>"
  "Find sample_wenv TransferSyntaxUID =
     Some \<lparr>TagInfoVR = ''UI'', TagInfoName = ''TransferSyntaxUID''\<rparr>"
  "Find sample_wenv ImplementationClassUID =
     Some \<lparr>TagInfoVR = ''UI'', TagInfoName = ''ImplementationClassUID''\<rparr>"
  "Find sample_wenv ImplementationVersionName =
     Some \<lparr>TagInfoVR = ''SH'', TagInfoName = ''ImplementationVersionName''\<rparr>"
  "Find sample_wenv \<lparr>Group = 0x0010, Element = 0x0020\<rparr> =
     Some \<lparr>TagInfoVR = ''LO'', TagInfoName = ''PatientID''\<rparr>"
  by (simp_all add: sample_wenv_def sample_Find_def meta_tag_defs)

lemma sample_FindElementByTag_meta:
  "FindElementByTag sample_wenv sample_meta FileMetaInformationVersion = None"
  "FindElementByTag sample_wenv sample_meta MediaStorageSOPClassUID =
     Some (MkElement MediaStorageSOPClassUID ''UI'' False [VString ''1.2''])"
  "FindElementByTag sample_wenv sample_meta MediaStorageSOPInstanceUID =
     Some (MkElement MediaStorageSOPInstanceUID ''UI'' False [VString ''1.3''])"
  "FindElementByTag sample_wenv sample_meta TransferSyntaxUID =
     Some (MkElement TransferSyntaxUID ''UI'' False [VString ''1.2.840.10008.1.2.1''])"
  "FindElementByTag sample_wenv sample_meta ImplementationClassUID = None"
  "FindElementByTag sample_wenv sample_meta ImplementationVersionName = None"
  by (simp_all add: sample_wenv_def sample_FindElementByTag_def sample_meta_def meta_tag_defs)

lemma sample_MustNewElement_meta:
  "MustNewElement sample_wenv FileMetaInformationGroupLength v =
     Some (MkElement FileMetaInformationGroupLength ''UL'' False [v])"
  "MustNewElement sample_wenv FileMetaInformationVersion v =
     Some (MkElement FileMetaInformationVersion ''OB'' False [v])"
  "MustNewElement sample_wenv ImplementationClassUID v =
     Some (MkElement ImplementationClassUID ''UI'' False [v])"
  "MustNewElement sample_wenv ImplementationVersionName v =
     Some (MkElement ImplementationVersionName ''SH'' False [v])"
  by (simp_all add: sample_wenv_def sample_MustNewElement_def sample_Find_def meta_tag_defs)

lemma sample_write_string:
  assumes "Find sample_wenv t = Some ti" "TagInfoVR ti = vr"
    "length vr = 2" "vr \<notin> set longVRs" "vr \<notin> set [''US'', ''UL'', ''SL'', ''SS'', ''FL'', ''FD'']"
    "t \<noteq> PixelData" "Group t \<noteq> itemSeqGroup" "bo e = Some LittleEndian" "implicit e = ExplicitVR"
  shows "WriteElement sample_wenv e (MkElement t vr False [VString s]) sample_opts =
    Some (e\<lparr>out := out e @ uint16_bytes LittleEndian (Group t)
                    @ uint16_bytes LittleEndian (Element t) @ bytes_of vr
                    @ uint16_bytes LittleEndian
                        (ucast (of_nat (length (padded (if vr = ''UI'' then 0 else 0x20) s))
                                :: uint32))
                    @ padded (if vr = ''UI'' then 0 else 0x20) s\<rparr>)"
proof -
  have "vr \<noteq> []" using assms(3) by auto
  then have v: "fst (verifyVROrDefault sample_wenv t vr sample_opts) = Inr vr"
    using assms(1,2) by (simp add: verify_same)
  show ?thesis
    by (rule WriteElement_string [OF v assms(3-9)])
qed

lemma sample_meta_block:
  "write_meta_block sample_wenv sample_meta sample_opts = Some sample_meta_encoder"
proof -
  let ?s0 = "NewBytesEncoder (Some LittleEndian) ExplicitVR"
  have b: "bo (?s0\<lparr>out := x\<rparr>) = Some LittleEndian" "implicit (?s0\<lparr>out := x\<rparr>) = ExplicitVR"
    "bo ?s0 = Some LittleEndian" "implicit ?s0 = ExplicitVR" "out ?s0 = []" for x
    by (simp_all add: NewBytesEncoder_def)
  have w1: "WriteElement sample_wenv ?s0
      (MkElement FileMetaInformationVersion ''OB'' False [VBytes (bytes_of ''0 1'')]) sample_opts =
      Some (?s0\<lparr>out := [0x02, 0x00, 0x01, 0x00, 0x4F, 0x42, 0x00, 0x00, 0x04, 0x00, 0x00, 0x00]
                         @ padded 0 ''0 1''\<rparr>)"
    using WriteElement_Version [OF sample_Find_meta(2) _ b(3,4), of sample_opts]
    by (simp add: b(5) padded_def bytes_of_def del: WriteElement.simps)
  have w: "WriteElement sample_wenv (?s0\<lparr>out := x\<rparr>) (MkElement t vr False [VString s]) sample_opts =
    Some (?s0\<lparr>out := x @ uint16_bytes LittleEndian (Group t)
                    @ uint16_bytes LittleEndian (Element t) @ bytes_of vr
                    @ uint16_bytes LittleEndian
                        (ucast (of_nat (length (padded (if vr = ''UI'' then 0 else 0x20) s))
                                :: uint32))
                    @ padded (if vr = ''UI'' then 0 else 0x20) s\<rparr>)"
    if "Find sample_wenv t = Some ti" "TagInfoVR ti = vr"
    "length vr = 2" "vr \<notin> set longVRs" "vr \<notin> set [''US'', ''UL'', ''SL'', ''SS'', ''FL'', ''FD'']"
    "t \<noteq> PixelData" "Group t \<noteq> itemSeqGroup" for x t vr s ti
    using sample_write_string [OF that b(1,2), of x s] by (simp del: WriteElement.simps)
  have w2: "WriteElement sample_wenv (?s0\<lparr>out := x\<rparr>)
      (MkElement MediaStorageSOPClassUID ''UI'' False [VString ''1.2'']) sample_opts =
      Some (?s0\<lparr>out := x @ [0x02, 0x00, 0x02, 0x00, 0x55, 0x49, 0x04, 0x00] @ padded 0 ''1.2''\<rparr>)"
    for x
    using w [OF sample_Find_meta(3), of "''UI''" x "''1.2''"]
    by (simp add: longVRs_def meta_tag_defs PixelData_def itemSeqGroup_def uint16_bytes_def
        bytes_of_def padded_def del: WriteElement.simps)
  have w3: "WriteElement sample_wenv (?s0\<lparr>out := x\<rparr>)
      (MkElement MediaStorageSOPInstanceUID ''UI'' False [VString ''1.3'']) sample_opts =
      Some (?s0\<lparr>out := x @ [0x02, 0x00, 0x03, 0x00, 0x55, 0x49, 0x04, 0x00] @ padded 0 ''1.3''\<rparr>)"
    for x
    using w [OF sample_Find_meta(4), of "''UI''" x "''1.3''"]
    by (simp add: longVRs_def meta_tag_defs PixelData_def itemSeqGroup_def uint16_bytes_def
        bytes_of_def padded_def del: WriteElement.simps)
  have w4: "WriteElement sample_wenv (?s0\<lparr>out := x\<rparr>)
      (MkElement TransferSyntaxUID ''UI'' False [VString ''1.2.840.10008.1.2.1'']) sample_opts =
      Some (?s0\<lparr>out := x @ [0x02, 0x00, 0x10, 0x00, 0x55, 0x49, 0x14, 0x00]
                        @ padded 0 ''1.2.840.10008.1.2.1''\<rparr>)"
    for x
    using w [OF sample_Find_meta(5), of "''UI''" x "''1.2.840.10008.1.2.1''"]
    by (simp add: longVRs_def meta_tag_defs PixelData_def itemSeqGroup_def uint16_bytes_def
        bytes_of_def padded_def del: WriteElement.simps)
  have w5: "WriteElement sample_wenv (?s0\<lparr>out := x\<rparr>)
      (MkElement ImplementationClassUID ''UI'' False [VString GoDICOMImplementationClassUID])
      sample_opts =
      Some (?s0\<lparr>out := x @ [0x02, 0x00, 0x12, 0x00, 0x55, 0x49, 0x1E, 0x00]
                        @ padded 0 ''1.2.826.0.1.3680043.9.7133.1.1''\<rparr>)"
    for x
    using w [OF sample_Find_meta(6), of "''UI''" x GoDICOMImplementationClassUID]
    by (simp add: longVRs_def meta_tag_defs PixelData_def itemSeqGroup_def uint16_bytes_def
        bytes_of_def padded_def GoDICOMImplementationClassUID_def
        GoDICOMImplementationClassUIDPrefix_def del: WriteElement.simps)
  have w6: "WriteElement sample_wenv (?s0\<lparr>out := x\<rparr>)
      (MkElement ImplementationVersionName ''SH'' False [VString GoDICOMImplementationVersionName])
      sample_opts =
      Some (?s0\<lparr>out := x @ [0x02, 0x00, 0x13, 0x00, 0x53, 0x48, 0x0C, 0x00]
                        @ padded 0x20 ''GODICOM_1_1''\<rparr>)"
    for x
    using w [OF sample_Find_meta(7), of "''SH''" x GoDICOMImplementationVersionName]
    by (simp add: longVRs_def meta_tag_defs PixelData_def itemSeqGroup_def uint16_bytes_def
        bytes_of_def padded_def GoDICOMImplementationVersionName_def del: WriteElement.simps)
  have o: "write_other_meta sample_wenv sample_opts
      [ImplementationVersionName, ImplementationClassUID, TransferSyntaxUID,
       MediaStorageSOPInstanceUID, MediaStorageSOPClassUID, FileMetaInformationVersion,
       FileMetaInformationGroupLength] s sample_meta = Some s" for s
    by (simp add: sample_meta_def del: WriteElement.simps)
  show ?thesis
    unfolding write_meta_block_def writeOptionalMetaElem_def writeRequiredMetaElem_def Let_def
    by (simp add: sample_FindElementByTag_meta sample_MustNewElement_meta w1 w2 w3 w4 w5 w6 o
        sample_meta_encoder_def sample_meta_bytes_def del: WriteElement.simps)
qed

lemma length_sample_meta_bytes: "length sample_meta_bytes = 126"
  by (simp add: sample_meta_bytes_def padded_def bytes_of_def)


lemma sample_header_written:
  "WriteFileHeader sample_wenv sample_file_encoder sample_meta sample_opts =
     Some (sample_file_encoder\<lparr>out := sample_header_bytes\<rparr>)"
proof -
  have ok: "err sample_meta_encoder = None"
    by (simp add: sample_meta_encoder_def NewBytesEncoder_def)
  have o: "out sample_meta_encoder = sample_meta_bytes"
    by (simp add: sample_meta_encoder_def)
  show ?thesis
    using WriteFileHeader_bytes [OF sample_meta_block ok sample_Find_meta(1) _
        sample_MustNewElement_meta(1), of sample_file_encoder]
    by (simp add: o length_sample_meta_bytes sample_header_bytes_def uint32_bytes_def
        sample_file_encoder_def)
qed

theorem WriteFileHeader_layout_witness:
  "write_meta_block sample_wenv sample_meta sample_opts = Some sample_meta_encoder \<and>
   err sample_meta_encoder = None \<and>
   FindElementByTag sample_wenv sample_meta FileMetaInformationVersion = None \<and>
   WriteFileHeader sample_wenv sample_file_encoder sample_meta sample_opts =
     Some (sample_file_encoder\<lparr>out :=
             replicate 128 0 @ bytes_of ''DICM''
             @ [0x02, 0x00, 0x00, 0x00, 0x55, 0x4C, 0x04, 0x00, 0x7E, 0x00, 0x00, 0x00]
             @ sample_meta_bytes\<rparr>) \<and>
   prefix [0x02, 0x00, 0x01, 0x00, 0x4F, 0x42, 0x00, 0x00,
           0x04, 0x00, 0x00, 0x00, 0x30, 0x20, 0x31, 0x00] sample_meta_bytes"
proof -
  have ok: "err sample_meta_encoder = None"
    by (simp add: sample_meta_encoder_def NewBytesEncoder_def)
  have o: "out sample_meta_encoder = sample_meta_bytes"
    by (simp add: sample_meta_encoder_def)
  note th = WriteFileHeader_layout [OF sample_meta_block ok sample_Find_meta(1) _
      sample_MustNewElement_meta(1), of sample_file_encoder
      "\<lparr>TagInfoVR = ''OB'', TagInfoName = ''FileMetaInformationVersion''\<rparr>"]
  have h: "WriteFileHeader sample_wenv sample_file_encoder sample_meta sample_opts =
     Some (sample_file_encoder\<lparr>out :=
             replicate 128 0 @ bytes_of ''DICM''
             @ [0x02, 0x00, 0x00, 0x00, 0x55, 0x4C, 0x04, 0x00, 0x7E, 0x00, 0x00, 0x00]
             @ sample_meta_bytes\<rparr>)"
    using th [THEN conjunct1]
    by (simp add: o length_sample_meta_bytes uint32_bytes_def sample_file_encoder_def)
  have p: "prefix [0x02, 0x00, 0x01, 0x00, 0x4F, 0x42, 0x00, 0x00,
           0x04, 0x00, 0x00, 0x00, 0x30, 0x20, 0x31, 0x00] sample_meta_bytes"
    using th [THEN conjunct2] sample_FindElementByTag_meta(1) sample_MustNewElement_meta(2)
      sample_Find_meta(2)
    by (simp add: o)
  from sample_meta_block ok sample_FindElementByTag_meta(1) h p show ?thesis by blast
qed

lemma sample_filter_meta:
  "filter (\<lambda>elem. Group (Tag elem) = MetadataGroup) sample_ds = sample_meta"
  by (simp add: sample_ds_def sample_meta_def sample_PatientName_def sample_private_def
      sample_PatientID_def MetadataGroup_def meta_tag_defs)

lemma sample_body_elements: "body_elements sample_ds = [sample_PatientName, sample_PatientID]"
  by (simp add: body_elements_def sample_ds_def sample_meta_def sample_PatientName_def
      sample_private_def sample_PatientID_def meta_tag_defs)

lemma sample_toWriteOptSet: "toWriteOptSet [] = sample_opts"
  by (simp add: toWriteOptSet_def sample_opts_def)

lemma sample_getTransferSyntax:
  "getTransferSyntax sample_wenv sample_ds = Inr (Some LittleEndian, ExplicitVR)"
proof -
  have f: "FindElementByTag sample_wenv sample_ds TransferSyntaxUID =
     Some (MkElement TransferSyntaxUID ''UI'' False [VString ''1.2.840.10008.1.2.1''])"
    by (simp add: sample_wenv_def sample_FindElementByTag_def sample_ds_def sample_meta_def
        meta_tag_defs)
  have g: "GetCleanString sample_wenv
      (MkElement TransferSyntaxUID ''UI'' False [VString ''1.2.840.10008.1.2.1'']) =
      Inr ''1.2.840.10008.1.2.1''"
    by (simp add: GetCleanString_def sample_wenv_def sample_GetString_def sample_uid_clean)
  have p: "ParseTransferSyntaxUID sample_wenv ''1.2.840.10008.1.2.1'' =
      Inr (Some LittleEndian, ExplicitVR)"
    by (simp add: sample_wenv_def sample_ParseTransferSyntaxUID_def)
  show ?thesis
    by (simp add: getTransferSyntax_def f g p)
qed

lemma sample_body_written:
  "write_elements sample_wenv sample_opts
     (PushTransferSyntax (sample_file_encoder\<lparr>out := sample_header_bytes\<rparr>)
        (Some LittleEndian) ExplicitVR)
     [sample_PatientName, sample_PatientID] =
   Some ((PushTransferSyntax (sample_file_encoder\<lparr>out := sample_header_bytes\<rparr>)
            (Some LittleEndian) ExplicitVR)
          \<lparr>out := sample_header_bytes
                   @ [0x10, 0x00, 0x10, 0x00, 0x50, 0x4E, 0x04, 0x00] @ padded 0x20 ''A^B''
                   @ [0x10, 0x00, 0x20, 0x00, 0x4C, 0x4F, 0x02, 0x00] @ padded 0x20 ''42''\<rparr>)"
proof -
  let ?e = "PushTransferSyntax (sample_file_encoder\<lparr>out := sample_header_bytes\<rparr>)
        (Some LittleEndian) ExplicitVR"
  have b: "bo (?e\<lparr>out := x\<rparr>) = Some LittleEndian" "implicit (?e\<lparr>out := x\<rparr>) = ExplicitVR"
    "bo ?e = Some LittleEndian" "implicit ?e = ExplicitVR" "out ?e = sample_header_bytes" for x
    by (simp_all add: PushTransferSyntax_def)
  have w1: "WriteElement sample_wenv ?e sample_PatientName sample_opts =
      Some (?e\<lparr>out := sample_header_bytes
                   @ [0x10, 0x00, 0x10, 0x00, 0x50, 0x4E, 0x04, 0x00] @ padded 0x20 ''A^B''\<rparr>)"
    unfolding sample_PatientName_def
    using sample_write_string [OF sample_Find_PatientName _ _ _ _ _ _ b(3,4), of "''PN''" "''A^B''"]
    by (simp add: longVRs_def PixelData_def itemSeqGroup_def uint16_bytes_def
        bytes_of_def padded_def b(5) del: WriteElement.simps)
  have w2: "WriteElement sample_wenv (?e\<lparr>out := x\<rparr>) sample_PatientID sample_opts =
      Some (?e\<lparr>out := x @ [0x10, 0x00, 0x20, 0x00, 0x4C, 0x4F, 0x02, 0x00] @ padded 0x20 ''42''\<rparr>)"
    for x
    unfolding sample_PatientID_def
    using sample_write_string [OF sample_Find_meta(8) _ _ _ _ _ _ b(1,2), of "''LO''" x "''42''"]
    by (simp add: longVRs_def PixelData_def itemSeqGroup_def uint16_bytes_def
        bytes_of_def padded_def del: WriteElement.simps)
  show ?thesis
    by (simp add: w1 w2 del: WriteElement.simps)
qed

theorem WriteDataSet_body_elements_witness:
  "body_elements sample_ds = [sample_PatientName, sample_PatientID] \<and>
   WriteDataSet sample_wenv sample_ds [] =
     Some (sample_header_bytes
             @ [0x10, 0x00, 0x10, 0x00, 0x50, 0x4E, 0x04, 0x00] @ padded 0x20 ''A^B''
             @ [0x10, 0x00, 0x20, 0x00, 0x4C, 0x4F, 0x02, 0x00] @ padded 0x20 ''42'', None)"
proof -
  have h: "WriteFileHeader sample_wenv
     \<lparr>out = [], err = None, bo = None, implicit = UnknownVR, oldTransferSyntaxes = []\<rparr>
     (filter (\<lambda>elem. Group (Tag elem) = MetadataGroup) sample_ds) (toWriteOptSet []) =
     Some (sample_file_encoder\<lparr>out := sample_header_bytes\<rparr>)"
    using sample_header_written
    by (simp add: sample_filter_meta sample_toWriteOptSet sample_file_encoder_def)
  have ok: "err (sample_file_encoder\<lparr>out := sample_header_bytes\<rparr>) = None"
    by (simp add: sample_file_encoder_def)
  note th = WriteDataSet_body_elements [OF h ok sample_getTransferSyntax, THEN conjunct1]
  have "WriteDataSet sample_wenv sample_ds [] =
     Some (sample_header_bytes
             @ [0x10, 0x00, 0x10, 0x00, 0x50, 0x4E, 0x04, 0x00] @ padded 0x20 ''A^B''
             @ [0x10, 0x00, 0x20, 0x00, 0x4C, 0x4F, 0x02, 0x00] @ padded 0x20 ''42'', None)"
    unfolding th sample_body_elements sample_toWriteOptSet sample_body_written
    by (simp add: PopTransferSyntax_def PushTransferSyntax_def sample_file_encoder_def)
  with sample_body_elements show ?thesis by blast
qed


section \<open>The accepted VR is the VR written\<close>

text \<open>
  Two basic elements written for the tag of PatientName: a string with the VR LO and a
  16-bit number with the VR US.
\<close>

lemma sample_encoder_fields:
  "bo sample_encoder = Some LittleEndian" "implicit sample_encoder = ExplicitVR"
  "out sample_encoder = []" "err sample_encoder = None"
  by (simp_all add: sample_encoder_def NewBytesEncoder_def)

lemma sample_WriteBasic_LO:
  "WriteBasic sample_wenv sample_encoder
     (MkElement \<lparr>Group = 0x0010, Element = 0x0010\<rparr> ''LO'' False [VString ''A^B'']) ''LO'' =
   Some (sample_encoder\<lparr>out :=
     [0x10, 0x00, 0x10, 0x00, 0x4C, 0x4F, 0x04, 0x00, 0x41, 0x5E, 0x42, 0x20]\<rparr>)"
proof -
  have ev: "encode_value sample_wenv sample_encoder
      (NewBytesEncoder (Some LittleEndian) ExplicitVR)
      (MkElement \<lparr>Group = 0x0010, Element = 0x0010\<rparr> ''LO'' False [VString ''A^B'']) ''LO'' =
      Some (sample_encoder,
            (NewBytesEncoder (Some LittleEndian) ExplicitVR)\<lparr>out := [0x41, 0x5E, 0x42, 0x20]\<rparr>)"
    by (simp add: encode_value_def write_text_string padded_def bytes_of_def)
  have h: "encodeElementHeader sample_encoder \<lparr>Group = 0x0010, Element = 0x0010\<rparr> ''LO'' 4 =
      Some (sample_encoder\<lparr>out := [0x10, 0x00, 0x10, 0x00, 0x4C, 0x4F, 0x04, 0x00]\<rparr>)"
    using encodeElementHeader_short [OF sample_encoder_fields(1,2),
        of "\<lparr>Group = 0x0010, Element = 0x0010\<rparr>" "''LO''" 4]
    by (simp add: itemSeqGroup_def longVRs_def sample_encoder_fields uint16_bytes_def bytes_of_def)
  show ?thesis
    by (simp add: WriteBasic_def sample_encoder_fields ev)
      (simp add: h NewBytesEncoder_def WriteBytes_def)
qed

lemma sample_WriteBasic_US:
  "WriteBasic sample_wenv sample_encoder
     (MkElement \<lparr>Group = 0x0010, Element = 0x0010\<rparr> ''US'' False [VUInt16 7]) ''US'' =
   Some (sample_encoder\<lparr>out := [0x10, 0x00, 0x10, 0x00, 0x55, 0x53, 0x02, 0x00, 0x07, 0x00]\<rparr>)"
proof -
  have ev: "encode_value sample_wenv sample_encoder
      (NewBytesEncoder (Some LittleEndian) ExplicitVR)
      (MkElement \<lparr>Group = 0x0010, Element = 0x0010\<rparr> ''US'' False [VUInt16 7]) ''US'' =
      Some (sample_encoder,
            (NewBytesEncoder (Some LittleEndian) ExplicitVR)\<lparr>out := [0x07, 0x00]\<rparr>)"
    by (simp add: encode_value_def WriteUInt16_def WriteBytes_def NewBytesEncoder_def
        uint16_bytes_def)
  have h: "encodeElementHeader sample_encoder \<lparr>Group = 0x0010, Element = 0x0010\<rparr> ''US'' 2 =
      Some (sample_encoder\<lparr>out := [0x10, 0x00, 0x10, 0x00, 0x55, 0x53, 0x02, 0x00]\<rparr>)"
    using encodeElementHeader_short [OF sample_encoder_fields(1,2),
        of "\<lparr>Group = 0x0010, Element = 0x0010\<rparr>" "''US''" 2]
    by (simp add: itemSeqGroup_def longVRs_def sample_encoder_fields uint16_bytes_def bytes_of_def)
  show ?thesis
    by (simp add: WriteBasic_def sample_encoder_fields ev)
      (simp add: h NewBytesEncoder_def WriteBytes_def)
qed

theorem verifyVROrDefault_kinds_witness:
  "Find sample_wenv \<lparr>Group = 0x0010, Element = 0x0010\<rparr> =
     Some \<lparr>TagInfoVR = ''PN'', TagInfoName = ''PatientName''\<rparr> \<and>
   verifyVROrDefault sample_wenv \<lparr>Group = 0x0010, Element = 0x0010\<rparr> ''US'' sample_opts =
     (Inl (ErrVRMismatch \<lparr>Group = 0x0010, Element = 0x0010\<rparr> ''US'' ''PN''), []) \<and>
   WriteElement sample_wenv sample_encoder
       (MkElement \<lparr>Group = 0x0010, Element = 0x0010\<rparr> ''US'' False [VUInt16 7]) sample_opts =
     Some (SetError sample_encoder
             (ErrVRMismatch \<lparr>Group = 0x0010, Element = 0x0010\<rparr> ''US'' ''PN'')) \<and>
   verifyVROrDefault sample_wenv \<lparr>Group = 0x0010, Element = 0x0010\<rparr> ''LO'' sample_opts =
     (Inr ''LO'', [(1, LogVRValueMismatch \<lparr>Group = 0x0010, Element = 0x0010\<rparr> ''LO'' ''PN'')]) \<and>
   WriteElement sample_wenv sample_encoder
       (MkElement \<lparr>Group = 0x0010, Element = 0x0010\<rparr> ''LO'' False [VString ''A^B''])
       sample_opts =
     Some (sample_encoder\<lparr>out :=
       [0x10, 0x00, 0x10, 0x00, 0x4C, 0x4F, 0x04, 0x00, 0x41, 0x5E, 0x42, 0x20]\<rparr>) \<and>
   verifyVROrDefault sample_wenv \<lparr>Group = 0x0010, Element = 0x0010\<rparr> ''US''
       \<lparr>SkipVRVerification = True\<rparr> = (Inr ''US'', []) \<and>
   WriteElement sample_wenv sample_encoder
       (MkElement \<lparr>Group = 0x0010, Element = 0x0010\<rparr> ''US'' False [VUInt16 7])
       \<lparr>SkipVRVerification = True\<rparr> =
     Some (sample_encoder\<lparr>out :=
       [0x10, 0x00, 0x10, 0x00, 0x55, 0x53, 0x02, 0x00, 0x07, 0x00]\<rparr>)"
proof -
  let ?t = "\<lparr>Group = 0x0010, Element = 0x0010\<rparr>"
  have np: "?t \<noteq> PixelData" by (simp add: PixelData_def)
  note mismatch = verifyVROrDefault_kinds [OF _ sample_Find_PatientName, of "''US''" sample_opts
      sample_encoder False "[VUInt16 7]"]
  note agree = verifyVROrDefault_kinds [OF _ sample_Find_PatientName, of "''LO''" sample_opts
      sample_encoder False "[VString ''A^B'']"]
  note skip = verifyVROrDefault_kinds [OF _ sample_Find_PatientName, of "''US''"
      "\<lparr>SkipVRVerification = True\<rparr>" sample_encoder False "[VUInt16 7]"]
  have m: "verifyVROrDefault sample_wenv ?t ''US'' sample_opts =
     (Inl (ErrVRMismatch ?t ''US'' ''PN''), []) \<and>
   WriteElement sample_wenv sample_encoder (MkElement ?t ''US'' False [VUInt16 7]) sample_opts =
     Some (SetError sample_encoder (ErrVRMismatch ?t ''US'' ''PN''))"
    using mismatch by (simp add: sample_kinds sample_opts_def del: WriteElement.simps)
  have a: "verifyVROrDefault sample_wenv ?t ''LO'' sample_opts =
     (Inr ''LO'', [(1, LogVRValueMismatch ?t ''LO'' ''PN'')]) \<and>
   WriteElement sample_wenv sample_encoder (MkElement ?t ''LO'' False [VString ''A^B''])
       sample_opts =
     Some (sample_encoder\<lparr>out :=
       [0x10, 0x00, 0x10, 0x00, 0x4C, 0x4F, 0x04, 0x00, 0x41, 0x5E, 0x42, 0x20]\<rparr>)"
    using agree np
    by (simp add: sample_kinds sample_opts_def sample_WriteBasic_LO del: WriteElement.simps)
  have s: "verifyVROrDefault sample_wenv ?t ''US'' \<lparr>SkipVRVerification = True\<rparr> =
     (Inr ''US'', []) \<and>
   WriteElement sample_wenv sample_encoder (MkElement ?t ''US'' False [VUInt16 7])
       \<lparr>SkipVRVerification = True\<rparr> =
     Some (sample_encoder\<lparr>out :=
       [0x10, 0x00, 0x10, 0x00, 0x55, 0x53, 0x02, 0x00, 0x07, 0x00]\<rparr>)"
    using skip np
    by (simp add: sample_kinds sample_WriteBasic_US del: WriteElement.simps)
  from sample_Find_PatientName m a s show ?thesis by blast
qed

end
